theory Spec2Isabelle
  imports Complex_Main
begin

section \<open>The browser platform, as far as the drag engine uses it\<close>

text \<open>
  The engine is TypeScript running in a browser. Its \<^verbatim>\<open>number\<close>s are modelled as
  reals, \<^verbatim>\<open>undefined\<close> as \<open>None\<close>, and an exception as the \<open>Threw\<close> branch of an
  outcome that still carries the state reached when it was raised (mutations made before
  a throw persist in JavaScript).
\<close>

datatype error = TypeError | NotFoundError | SyntaxError | InvalidCharacterError

datatype 'a outcome = Returned 'a | Threw error 'a

fun stateOf :: "'a outcome \<Rightarrow> 'a" where
  "stateOf (Returned s) = s"
| "stateOf (Threw e s) = s"

fun returned :: "'a outcome \<Rightarrow> bool" where
  "returned (Returned s) = True"
| "returned (Threw e s) = False"

type_synonym elem = nat

text \<open>An inline style value: unset, a pixel length (\<^verbatim>\<open>n + 'px'\<close>) or a keyword.\<close>

datatype css = Unset | Px real | Keyword string

record ClientRect =
  rectLeft :: real
  rectTop :: real
  rectRight :: real
  rectBottom :: real
  rectWidth :: real
  rectHeight :: real

record MouseEvent =
  clientX :: real
  clientY :: real

text \<open>
  A DOM element: its class list, its inline style, the child links the engine creates
  (ghosts under the viewport, the overlay under a ghost; the markup below a source element
  is opaque to the engine and not modelled), what \<^verbatim>\<open>getBoundingClientRect()\<close> returns
  for it, and its scroll offsets with the largest offsets the browser allows.
\<close>

record element =
  classList :: "string list"
  style :: "string \<Rightarrow> css"
  children :: "elem list"
  boundingClientRect :: ClientRect
  scrollLeft :: real
  scrollTop :: real
  scrollLeftMax :: real
  scrollTopMax :: real

text \<open>
  The document: its elements, the next fresh element, the body, and what the browser's
  selector engine answers: \<open>parses\<close> is the verdict of its parser on a selector string and
  \<open>selectors\<close> the first element a selector matches.
\<close>

record Document =
  nodes :: "elem \<Rightarrow> element"
  nextNode :: elem
  selectors :: "string \<Rightarrow> elem option"
  parses :: "string \<Rightarrow> bool"
  bodyElement :: elem

text \<open>
  \<^verbatim>\<open>document.querySelector(q)\<close> raises a SyntaxError when \<^verbatim>\<open>q\<close> is not a selector, else it
  returns the first match or \<^verbatim>\<open>null\<close>. The selector grammar is not modelled beyond two
  facts: the empty string is never a selector, and a word of ASCII letters (such as
  \<^verbatim>\<open>body\<close>, or \<^verbatim>\<open>undefined\<close>) always is one, a type selector. For every other string the
  verdict is the document's \<open>parses\<close>.
\<close>

definition asciiLetter :: "char \<Rightarrow> bool" where
  "asciiLetter c = (c \<in> set ''abcdefghijklmnopqrstuvwxyzABCDEFGHIJKLMNOPQRSTUVWXYZ'')"

definition typeSelector :: "string \<Rightarrow> bool" where
  "typeSelector q = (q \<noteq> [] \<and> list_all asciiLetter q)"

definition querySelector :: "string \<Rightarrow> Document \<Rightarrow> error + elem option" where
  "querySelector q d =
     (if q = [] then Inl SyntaxError
      else if typeSelector q \<or> parses d q then Inr (selectors d q)
      else Inl SyntaxError)"

definition blankElement :: element where
  "blankElement =
     \<lparr>classList = [], style = (\<lambda>p. Unset), children = [],
      boundingClientRect = \<lparr>rectLeft = 0, rectTop = 0, rectRight = 0, rectBottom = 0,
                            rectWidth = 0, rectHeight = 0\<rparr>,
      scrollLeft = 0, scrollTop = 0, scrollLeftMax = 0, scrollTopMax = 0\<rparr>"

text \<open>\<^verbatim>\<open>document.createElement('div')\<close>: a fresh, detached element.\<close>

definition createElement :: "Document \<Rightarrow> elem \<times> Document" where
  "createElement d =
     (nextNode d, d\<lparr>nodes := (nodes d)(nextNode d := blankElement), nextNode := Suc (nextNode d)\<rparr>)"

text \<open>\<^verbatim>\<open>node.cloneNode(true)\<close>: a fresh, detached copy of the element (classes and inline
  style are copied, scroll offsets are not).\<close>

definition cloneNode :: "elem \<Rightarrow> Document \<Rightarrow> elem \<times> Document" where
  "cloneNode e d =
     (nextNode d,
      d\<lparr>nodes := (nodes d)(nextNode d := (nodes d e)\<lparr>children := [], scrollLeft := 0, scrollTop := 0\<rparr>),
        nextNode := Suc (nextNode d)\<rparr>)"

definition appendChild :: "elem \<Rightarrow> elem \<Rightarrow> Document \<Rightarrow> Document" where
  "appendChild parent child d =
     d\<lparr>nodes := (nodes d)(parent := (nodes d parent)\<lparr>children := children (nodes d parent) @ [child]\<rparr>)\<rparr>"

text \<open>\<^verbatim>\<open>parent.removeChild(child)\<close> raises NotFoundError when the node is not a child.\<close>

definition removeChild :: "elem \<Rightarrow> elem \<Rightarrow> Document \<Rightarrow> Document outcome" where
  "removeChild parent child d =
     (if child \<in> set (children (nodes d parent))
      then Returned (d\<lparr>nodes := (nodes d)(parent := (nodes d parent)\<lparr>children := remove1 child (children (nodes d parent))\<rparr>)\<rparr>)
      else Threw NotFoundError d)"

definition setStyle :: "elem \<Rightarrow> string \<Rightarrow> css \<Rightarrow> Document \<Rightarrow> Document" where
  "setStyle e p v d = d\<lparr>nodes := (nodes d)(e := (nodes d e)\<lparr>style := (style (nodes d e))(p := v)\<rparr>)\<rparr>"

text \<open>
  \<^verbatim>\<open>el.classList.add(c)\<close> and \<^verbatim>\<open>el.classList.remove(c)\<close>: a class list is an ordered set of
  tokens. Both methods first validate the token: the empty string raises a SyntaxError, a
  token with ASCII whitespace (tab, line feed, form feed, carriage return, space) an
  InvalidCharacterError, and the class list is left as it is.
\<close>

definition asciiWhitespace :: "char \<Rightarrow> bool" where
  "asciiWhitespace c = (c \<in> set [CHR 0x09, CHR 0x0A, CHR 0x0C, CHR 0x0D, CHR 0x20])"

definition classListAdd :: "elem \<Rightarrow> string \<Rightarrow> Document \<Rightarrow> Document outcome" where
  "classListAdd e c d =
     (if c = [] then Threw SyntaxError d
      else if list_ex asciiWhitespace c then Threw InvalidCharacterError d
      else if c \<in> set (classList (nodes d e)) then Returned d
      else Returned (d\<lparr>nodes := (nodes d)(e := (nodes d e)\<lparr>classList := classList (nodes d e) @ [c]\<rparr>)\<rparr>))"

definition classListRemove :: "elem \<Rightarrow> string \<Rightarrow> Document \<Rightarrow> Document outcome" where
  "classListRemove e c d =
     (if c = [] then Threw SyntaxError d
      else if list_ex asciiWhitespace c then Threw InvalidCharacterError d
      else Returned (d\<lparr>nodes := (nodes d)(e := (nodes d e)\<lparr>classList := removeAll c (classList (nodes d e))\<rparr>)\<rparr>))"

text \<open>\<^verbatim>\<open>str.split(' ')\<close>: the pieces between the separators, empty pieces included.\<close>

fun split :: "char \<Rightarrow> string \<Rightarrow> string list" where
  "split sep [] = [[]]"
| "split sep (c # cs) =
     (if c = sep then [] # split sep cs
      else (case split sep cs of [] \<Rightarrow> [[c]] | w # ws \<Rightarrow> (c # w) # ws))"

section \<open>The draggable record (draggable-item.ts)\<close>

text \<open>
  \<open>cancelled\<close> starts as \<^verbatim>\<open>false\<close> and is later assigned an optional boolean, so it has
  three values; \<open>dragEl\<close>, \<open>pos\<close> and \<open>grabPoint\<close> are undefined until the ghost is created;
  \<open>itemId\<close> (the field \<^verbatim>\<open>id\<close>) is never assigned by the service.
\<close>

record 'a DraggableItem =
  itemId :: "nat option"
  el :: elem
  dragEl :: "elem option"
  data :: 'a
  draggedClass :: string
  draggingClass :: string
  mouseDownEvent :: MouseEvent
  pos :: "(real \<times> real) option"
  grabPoint :: "(real \<times> real) option"
  startThreshold :: real
  isDragging :: bool
  cancelled :: "bool option"

text \<open>\<^verbatim>\<open>new DraggableItem()\<close> followed by the six assignments of \<^verbatim>\<open>registerDraggable\<close>.\<close>

definition newDraggableItem ::
  "MouseEvent \<Rightarrow> elem \<Rightarrow> 'a \<Rightarrow> string \<Rightarrow> string \<Rightarrow> real \<Rightarrow> 'a DraggableItem" where
  "newDraggableItem event e payload draggingCls draggedCls threshold =
     \<lparr>itemId = None, el = e, dragEl = None, data = payload, draggedClass = draggedCls,
      draggingClass = draggingCls, mouseDownEvent = event, pos = None, grabPoint = None,
      startThreshold = threshold, isDragging = False, cancelled = Some False\<rparr>"

text \<open>A value is falsy when it is \<^verbatim>\<open>undefined\<close> or \<^verbatim>\<open>false\<close>.\<close>

fun falsy :: "bool option \<Rightarrow> bool" where
  "falsy None = True"
| "falsy (Some b) = (\<not> b)"

section \<open>The drag coordination engine (dragdrop.service.ts)\<close>

datatype 'a broadcast = Dragging "'a DraggableItem" | Dropping "'a DraggableItem"

datatype scroll = ScrollLeftDec | ScrollLeftInc | ScrollTopDec | ScrollTopInc

datatype source = ViewportMouseMove | WindowResize

datatype route = ViewportMouseUp | ViewportMouseDown | WindowMouseUp | WindowKeyDown | WindowBlur

text \<open>
  The service's fields, then the platform state its methods act on: the document, the
  running interval timers, the live \<^verbatim>\<open>fromEvent\<close> subscriptions and the armed one-shot
  (\<^verbatim>\<open>first()\<close>) listeners. \<open>emitted\<close> logs every \<^verbatim>\<open>next\<close> on the two subjects, in order,
  with the record as it was when delivered.
\<close>

record 'a DragDropService =
  draggables :: "'a DraggableItem list"
  emitted :: "'a broadcast list"
  lastMousePos :: "real option \<times> real option"
  lastDisplacement :: "real option \<times> real option"
  viewportRect :: ClientRect
  viewportElement :: elem
  viewportMouseMoveSubscription :: "nat option"
  viewportResizeSubscription :: "nat option"
  viewportCursor :: "css option"
  scrollXInterval :: "nat option"
  scrollYInterval :: "nat option"
  dom :: Document
  intervals :: "(nat \<times> scroll) list"
  nextInterval :: nat
  subscriptions :: "(nat \<times> source) list"
  nextSubscription :: nat
  oneShots :: "route list"

subsection \<open>Platform helpers: timers, subscriptions, the cursor style\<close>

definition setInterval :: "scroll \<Rightarrow> 'a DragDropService \<Rightarrow> nat \<times> 'a DragDropService" where
  "setInterval action s =
     (nextInterval s,
      s\<lparr>intervals := intervals s @ [(nextInterval s, action)], nextInterval := Suc (nextInterval s)\<rparr>)"

text \<open>\<^verbatim>\<open>clearInterval(id)\<close> does nothing for \<^verbatim>\<open>null\<close> or for an id that is not running.\<close>

definition clearInterval :: "nat option \<Rightarrow> 'a DragDropService \<Rightarrow> 'a DragDropService" where
  "clearInterval t s =
     (case t of None \<Rightarrow> s
      | Some i \<Rightarrow> s\<lparr>intervals := filter (\<lambda>p. fst p \<noteq> i) (intervals s)\<rparr>)"

definition subscribe :: "source \<Rightarrow> 'a DragDropService \<Rightarrow> nat \<times> 'a DragDropService" where
  "subscribe src s =
     (nextSubscription s,
      s\<lparr>subscriptions := subscriptions s @ [(nextSubscription s, src)],
        nextSubscription := Suc (nextSubscription s)\<rparr>)"

definition unsubscribe :: "nat \<Rightarrow> 'a DragDropService \<Rightarrow> 'a DragDropService" where
  "unsubscribe i s = s\<lparr>subscriptions := filter (\<lambda>p. fst p \<noteq> i) (subscriptions s)\<rparr>"

text \<open>Assigning \<^verbatim>\<open>undefined\<close> to \<^verbatim>\<open>style.cursor\<close> is not a valid value and is ignored by
  the browser; the keywords the engine assigns (\<^verbatim>\<open>grabbing\<close>, \<^verbatim>\<open>-webkit-grabbing\<close>) and a value
  read back from the style earlier are stored.\<close>

definition setCursor :: "css option \<Rightarrow> 'a DragDropService \<Rightarrow> 'a DragDropService" where
  "setCursor v s =
     (case v of None \<Rightarrow> s
      | Some c \<Rightarrow> s\<lparr>dom := setStyle (viewportElement s) ''cursor'' c (dom s)\<rparr>)"

text \<open>A tick of a running interval timer runs its arrow function on the current viewport
  element; the browser keeps a scroll offset between 0 and its maximum.\<close>

definition scrollBy :: "scroll \<Rightarrow> element \<Rightarrow> element" where
  "scrollBy action e =
     (case action of
        ScrollLeftDec \<Rightarrow> e\<lparr>scrollLeft := max 0 (scrollLeft e - 1)\<rparr>
      | ScrollLeftInc \<Rightarrow> e\<lparr>scrollLeft := min (scrollLeftMax e) (scrollLeft e + 1)\<rparr>
      | ScrollTopDec \<Rightarrow> e\<lparr>scrollTop := max 0 (scrollTop e - 1)\<rparr>
      | ScrollTopInc \<Rightarrow> e\<lparr>scrollTop := min (scrollTopMax e) (scrollTop e + 1)\<rparr>)"

definition tick :: "nat \<Rightarrow> 'a DragDropService \<Rightarrow> 'a DragDropService" where
  "tick i s =
     (case map_of (intervals s) i of None \<Rightarrow> s
      | Some action \<Rightarrow>
          s\<lparr>dom := (dom s)\<lparr>nodes := (nodes (dom s))
                 (viewportElement s := scrollBy action (nodes (dom s) (viewportElement s)))\<rparr>\<rparr>)"

subsection \<open>The viewport\<close>

text \<open>The setter of \<^verbatim>\<open>viewportElement\<close>: \<^verbatim>\<open>document.querySelector(selector) || document.body\<close>,
  then the bounding rectangle is cached. An absent selector is looked up as the string
  \<^verbatim>\<open>undefined\<close>. When the lookup raises, neither field is assigned.\<close>

definition setViewportElement ::
  "string option \<Rightarrow> 'a DragDropService \<Rightarrow> 'a DragDropService outcome" where
  "setViewportElement selector s =
     (case querySelector (case selector of None \<Rightarrow> ''undefined'' | Some q \<Rightarrow> q) (dom s) of
        Inl err \<Rightarrow> Threw err s
      | Inr found \<Rightarrow>
          (let e = (case found of None \<Rightarrow> bodyElement (dom s) | Some n \<Rightarrow> n)
           in Returned (s\<lparr>viewportElement := e, viewportRect := boundingClientRect (nodes (dom s) e)\<rparr>)))"

text \<open>The field initialisers and the constructor, which sets the viewport to \<^verbatim>\<open>'body'\<close> (a
  selector that always parses, so the constructor completes).\<close>

definition newDragDropService :: "Document \<Rightarrow> 'a DragDropService" where
  "newDragDropService d =
     stateOf (setViewportElement (Some ''body'')
       \<lparr>draggables = [], emitted = [], lastMousePos = (None, None), lastDisplacement = (None, None),
        viewportRect = boundingClientRect (nodes d (bodyElement d)), viewportElement = bodyElement d,
        viewportMouseMoveSubscription = None, viewportResizeSubscription = None,
        viewportCursor = None, scrollXInterval = None, scrollYInterval = None,
        dom = d, intervals = [], nextInterval = 0, subscriptions = [], nextSubscription = 0,
        oneShots = []\<rparr>)"

subsection \<open>Class-name utilities\<close>

text \<open>The loops of \<^verbatim>\<open>addClasses\<close> and \<^verbatim>\<open>removeClasses\<close> over the pieces of the class string;
  an exception leaves the loop with the classes handled so far in place.\<close>

fun addClassesLoop :: "elem \<Rightarrow> string list \<Rightarrow> Document \<Rightarrow> Document outcome" where
  "addClassesLoop n [] d = Returned d"
| "addClassesLoop n (c # cs) d =
     (case classListAdd n c d of
        Threw err d1 \<Rightarrow> Threw err d1
      | Returned d1 \<Rightarrow> addClassesLoop n cs d1)"

fun removeClassesLoop :: "elem \<Rightarrow> string list \<Rightarrow> Document \<Rightarrow> Document outcome" where
  "removeClassesLoop n [] d = Returned d"
| "removeClassesLoop n (c # cs) d =
     (case classListRemove n c d of
        Threw err d1 \<Rightarrow> Threw err d1
      | Returned d1 \<Rightarrow> removeClassesLoop n cs d1)"

definition addClasses :: "elem option \<Rightarrow> string \<Rightarrow> Document \<Rightarrow> Document outcome" where
  "addClasses e classes d =
     (case e of None \<Rightarrow> Returned d
      | Some n \<Rightarrow> if classes = [] then Returned d
                  else addClassesLoop n (split (CHR '' '') classes) d)"

definition removeClasses :: "elem option \<Rightarrow> string \<Rightarrow> Document \<Rightarrow> Document outcome" where
  "removeClasses e classes d =
     (case e of None \<Rightarrow> Returned d
      | Some n \<Rightarrow> if classes = [] then Returned d
                  else removeClassesLoop n (split (CHR '' '') classes) d)"

subsection \<open>Scroll timers\<close>

definition clearScrollIntervals :: "'a DragDropService \<Rightarrow> 'a DragDropService" where
  "clearScrollIntervals s = clearInterval (scrollYInterval s) (clearInterval (scrollXInterval s) s)"

definition scrollViewportAsNeeded :: "real \<Rightarrow> real \<Rightarrow> 'a DragDropService \<Rightarrow> 'a DragDropService" where
  "scrollViewportAsNeeded x y s =
     (let bottomBias = 3;
          rightBias = 2;
          s1 = clearScrollIntervals s;
          s2 = (if x \<le> of_int (round (rectLeft (viewportRect s1)))
                   \<and> scrollLeft (nodes (dom s1) (viewportElement s1)) > 0
                then (let (t, s') = setInterval ScrollLeftDec s1 in s'\<lparr>scrollXInterval := Some t\<rparr>)
                else if x \<ge> of_int (round (rectRight (viewportRect s1) - rightBias))
                then (let (t, s') = setInterval ScrollLeftInc s1 in s'\<lparr>scrollXInterval := Some t\<rparr>)
                else s1);
          s3 = (if y \<le> of_int (round (rectTop (viewportRect s2)))
                   \<and> scrollTop (nodes (dom s2) (viewportElement s2)) > 0
                then (let (t, s') = setInterval ScrollTopDec s2 in s'\<lparr>scrollYInterval := Some t\<rparr>)
                else if y \<ge> of_int (round (rectBottom (viewportRect s2) - bottomBias))
                then (let (t, s') = setInterval ScrollTopInc s2 in s'\<lparr>scrollYInterval := Some t\<rparr>)
                else s2)
      in s3)"

subsection \<open>Threshold and viewport tests\<close>

definition startThresholdPassed :: "'a DraggableItem \<Rightarrow> real \<Rightarrow> real \<Rightarrow> bool" where
  "startThresholdPassed draggable x y =
     (\<bar>clientX (mouseDownEvent draggable) - x\<bar> \<ge> startThreshold draggable
      \<or> \<bar>clientY (mouseDownEvent draggable) - y\<bar> \<ge> startThreshold draggable)"

definition isMouseOutsideViewport :: "'a DragDropService \<Rightarrow> real \<Rightarrow> real \<Rightarrow> bool" where
  "isMouseOutsideViewport s mouseX mouseY =
     (mouseX < rectLeft (viewportRect s) \<or> mouseX > rectRight (viewportRect s)
      \<or> mouseY < rectTop (viewportRect s) \<or> mouseY > rectBottom (viewportRect s))"

subsection \<open>The ghost element\<close>

text \<open>Methods that mutate a record take it and return it updated, next to the new state of
  the service; the caller stores it back at its index.\<close>

text \<open>The statements of \<^verbatim>\<open>createDraggableElement\<close> after the call of \<^verbatim>\<open>addClasses\<close>: the
  ghost and the overlay are styled, the overlay is appended to the ghost and the ghost to
  the viewport element.\<close>

definition styleAndAttach ::
  "elem \<Rightarrow> elem \<Rightarrow> elem \<Rightarrow> real \<times> real \<Rightarrow> ClientRect \<Rightarrow> Document \<Rightarrow> Document" where
  "styleAndAttach viewport ghost overlay p elRect d3 =
     (let d4 = setStyle ghost ''position'' (Keyword ''fixed'') d3;
          d5 = setStyle ghost ''left'' (Px (fst p)) d4;
          d6 = setStyle ghost ''top'' (Px (snd p)) d5;
          d7 = setStyle ghost ''width'' (Px (rectWidth elRect)) d6;
          d8 = setStyle ghost ''height'' (Px (rectHeight elRect)) d7;
          d9 = setStyle ghost ''zIndex'' (Keyword ''100000'') d8;
          d10 = setStyle ghost ''visibility'' (Keyword ''hidden'') d9;
          d11 = setStyle ghost ''pointerEvents'' (Keyword ''none'') d10;
          d12 = setStyle overlay ''position'' (Keyword ''absolute'') d11;
          d13 = setStyle overlay ''left'' (Px 0) d12;
          d14 = setStyle overlay ''top'' (Px 0) d13;
          d15 = setStyle overlay ''width'' (Px (rectWidth elRect)) d14;
          d16 = setStyle overlay ''height'' (Px (rectHeight elRect)) d15;
          d17 = appendChild ghost overlay d16
      in appendChild viewport ghost d17)"

text \<open>\<^verbatim>\<open>createDraggableElement\<close>: the record's position, grab point and ghost are assigned
  before \<^verbatim>\<open>addClasses\<close> is called on the ghost; when that raises, the record keeps them and
  the ghost stays detached.\<close>

definition createDraggableElement ::
  "'a DraggableItem \<Rightarrow> 'a DragDropService \<Rightarrow> ('a DraggableItem \<times> 'a DragDropService) outcome" where
  "createDraggableElement draggable s =
     (let elRect = boundingClientRect (nodes (dom s) (el draggable));
          (overlay, d1) = createElement (dom s);
          p = (rectLeft elRect, rectTop elRect);
          g = (clientX (mouseDownEvent draggable) - fst p, clientY (mouseDownEvent draggable) - snd p);
          (ghost, d2) = cloneNode (el draggable) d1;
          draggable' = draggable\<lparr>pos := Some p, grabPoint := Some g, dragEl := Some ghost\<rparr>
      in case addClasses (Some ghost) (draggingClass draggable') d2 of
           Threw err d3 \<Rightarrow> Threw err (draggable', s\<lparr>dom := d3\<rparr>)
         | Returned d3 \<Rightarrow>
             Returned (draggable', s\<lparr>dom := styleAndAttach (viewportElement s) ghost overlay p elRect d3\<rparr>))"

text \<open>\<^verbatim>\<open>moveDraggableElement\<close> reads \<^verbatim>\<open>pos\<close>, \<^verbatim>\<open>grabPoint\<close> and \<^verbatim>\<open>dragEl\<close>; a record without
  them raises a TypeError at the first property access.\<close>

definition moveDraggableElement ::
  "'a DraggableItem \<Rightarrow> real \<Rightarrow> real \<Rightarrow> 'a DragDropService
   \<Rightarrow> ('a DraggableItem \<times> 'a DragDropService) outcome" where
  "moveDraggableElement draggable left top' s =
     (case (pos draggable, grabPoint draggable) of
        (Some p, Some g) \<Rightarrow>
          (let draggable' = draggable\<lparr>pos := Some (left - fst g, top' - snd g)\<rparr>
           in case dragEl draggable' of
                None \<Rightarrow> Threw TypeError (draggable', s)
              | Some ghost \<Rightarrow>
                  Returned (draggable',
                    s\<lparr>dom := setStyle ghost ''top'' (Px (top' - snd g))
                               (setStyle ghost ''left'' (Px (left - fst g)) (dom s))\<rparr>))
      | _ \<Rightarrow> Threw TypeError (draggable, s))"

definition destroyDraggableElement ::
  "'a DraggableItem \<Rightarrow> 'a DragDropService \<Rightarrow> ('a DraggableItem \<times> 'a DragDropService) outcome" where
  "destroyDraggableElement draggable s =
     (case dragEl draggable of
        None \<Rightarrow> Returned (draggable, s)
      | Some ghost \<Rightarrow>
          (case removeChild (viewportElement s) ghost (dom s) of
             Threw e d \<Rightarrow> Threw e (draggable, s)
           | Returned d \<Rightarrow> Returned (draggable\<lparr>dragEl := None\<rparr>, s\<lparr>dom := d\<rparr>)))"

subsection \<open>Beginning and ending a record's drag\<close>

text \<open>\<^verbatim>\<open>beginItemDrag\<close>: is-dragging is raised before \<^verbatim>\<open>addClasses\<close> is called on the source
  element and the broadcast comes last, so an exception of the first \<^verbatim>\<open>addClasses\<close> (in
  \<^verbatim>\<open>createDraggableElement\<close>) leaves the flag down, and one of the second leaves it up
  without a broadcast.\<close>

definition beginItemDrag ::
  "'a DraggableItem \<Rightarrow> 'a DragDropService \<Rightarrow> ('a DraggableItem \<times> 'a DragDropService) outcome" where
  "beginItemDrag draggable s =
     (if isDragging draggable then Returned (draggable, s)
      else
        (let s1 = s\<lparr>viewportCursor := Some (style (nodes (dom s) (viewportElement s)) ''cursor'')\<rparr>;
             s2 = setCursor (Some (Keyword ''pointer'')) s1;
             s3 = setCursor (Some (Keyword ''grabbing'')) s2;
             s4 = setCursor (Some (Keyword ''-webkit-grabbing'')) s3
         in case createDraggableElement draggable s4 of
              Threw err (d1, s5) \<Rightarrow> Threw err (d1, s5)
            | Returned (d1, s5) \<Rightarrow>
                (let d2 = d1\<lparr>isDragging := True\<rparr>;
                     s6 = (case dragEl d2 of
                             None \<Rightarrow> s5
                           | Some ghost \<Rightarrow>
                               s5\<lparr>dom := setStyle ghost ''visibility'' (Keyword ''visible'') (dom s5)\<rparr>)
                 in case addClasses (Some (el d2)) (draggedClass d2) (dom s6) of
                      Threw err d7 \<Rightarrow> Threw err (d2, s6\<lparr>dom := d7\<rparr>)
                    | Returned d7 \<Rightarrow>
                        (let s7 = s6\<lparr>dom := d7\<rparr>
                         in Returned (d2, s7\<lparr>emitted := emitted s7 @ [Dragging d2]\<rparr>)))))"

definition endItemDrag ::
  "'a DraggableItem \<Rightarrow> bool option \<Rightarrow> 'a DragDropService \<Rightarrow> 'a DraggableItem \<times> 'a DragDropService" where
  "endItemDrag draggable c s =
     (if \<not> isDragging draggable then (draggable, s)
      else
        (let d1 = draggable\<lparr>isDragging := False\<rparr>;
             d2 = d1\<lparr>cancelled := c\<rparr>
         in (d2, s\<lparr>emitted := emitted s @ [Dropping d2]\<rparr>)))"

definition putItem :: "nat \<Rightarrow> 'a DraggableItem \<Rightarrow> 'a DragDropService \<Rightarrow> 'a DragDropService" where
  "putItem i d s = s\<lparr>draggables := (draggables s)[i := d]\<rparr>"

subsection \<open>Stopping, deactivation, activation, registration\<close>

text \<open>The loop of \<^verbatim>\<open>dragStop\<close> over the indices of the collection; an exception leaves the
  loop and the method.\<close>

fun dragStopLoop :: "bool option \<Rightarrow> nat list \<Rightarrow> 'a DragDropService \<Rightarrow> 'a DragDropService outcome" where
  "dragStopLoop c [] s = Returned s"
| "dragStopLoop c (i # js) s =
     (let (d1, s1) = endItemDrag (draggables s ! i) c s;
          s2 = putItem i d1 s1
      in case removeClasses (Some (el (draggables s2 ! i))) (draggedClass (draggables s2 ! i)) (dom s2) of
           Threw e d3 \<Rightarrow> Threw e (s2\<lparr>dom := d3\<rparr>)
         | Returned d3 \<Rightarrow>
             (let s3 = s2\<lparr>dom := d3\<rparr>
              in case destroyDraggableElement (draggables s3 ! i) s3 of
                   Threw e (d4, s4) \<Rightarrow> Threw e (putItem i d4 s4)
                 | Returned (d4, s4) \<Rightarrow> dragStopLoop c js (putItem i d4 s4)))"

definition dragStop :: "bool option \<Rightarrow> 'a DragDropService \<Rightarrow> 'a DragDropService outcome" where
  "dragStop c s =
     (case dragStopLoop c [0..<length (draggables s)] s of
        Threw e s1 \<Rightarrow> Threw e s1
      | Returned s1 \<Rightarrow> Returned (setCursor (viewportCursor s1) s1))"

text \<open>\<^verbatim>\<open>deactivate\<close> calls \<^verbatim>\<open>unsubscribe()\<close> on the two saved subscriptions first; before any
  activation they are undefined and the call raises a TypeError.\<close>

definition deactivate :: "bool option \<Rightarrow> 'a DragDropService \<Rightarrow> 'a DragDropService outcome" where
  "deactivate c s =
     (case viewportMouseMoveSubscription s of
        None \<Rightarrow> Threw TypeError s
      | Some m \<Rightarrow>
          (let s1 = unsubscribe m s
           in case viewportResizeSubscription s1 of
                None \<Rightarrow> Threw TypeError s1
              | Some r \<Rightarrow>
                  (case dragStop c (unsubscribe r s1) of
                     Threw e s2 \<Rightarrow> Threw e s2
                   | Returned s2 \<Rightarrow> Returned (clearScrollIntervals (s2\<lparr>draggables := []\<rparr>)))))"

definition dragStart :: "'a DragDropService \<Rightarrow> 'a DragDropService" where
  "dragStart s =
     s\<lparr>viewportRect := boundingClientRect (nodes (dom s) (viewportElement s)),
       lastMousePos := (None, None),
       lastDisplacement := (None, None)\<rparr>"

definition activate :: "'a DragDropService \<Rightarrow> 'a DragDropService" where
  "activate s =
     (let s1 = dragStart s;
          (m, s2) = subscribe ViewportMouseMove s1;
          s3 = s2\<lparr>viewportMouseMoveSubscription := Some m\<rparr>;
          (r, s4) = subscribe WindowResize s3;
          s5 = s4\<lparr>viewportResizeSubscription := Some r\<rparr>
      in s5\<lparr>oneShots := oneShots s5 @
               [ViewportMouseUp, ViewportMouseDown, WindowMouseUp, WindowKeyDown, WindowBlur]\<rparr>)"

text \<open>\<^verbatim>\<open>registerDraggable\<close> assigns the viewport first; when the selector lookup raises,
  nothing is appended and nothing is activated.\<close>

definition registerDraggable ::
  "MouseEvent \<Rightarrow> elem \<Rightarrow> 'a \<Rightarrow> string option \<Rightarrow> string \<Rightarrow> string \<Rightarrow> real
   \<Rightarrow> 'a DragDropService \<Rightarrow> 'a DragDropService outcome" where
  "registerDraggable event e payload containerSelector draggingCls draggedCls threshold s =
     (case setViewportElement containerSelector s of
        Threw err s1 \<Rightarrow> Threw err s1
      | Returned s1 \<Rightarrow>
          (let draggable = newDraggableItem event e payload draggingCls draggedCls threshold;
               s2 = s1\<lparr>draggables := draggables s1 @ [draggable]\<rparr>
           in Returned (activate s2)))"

subsection \<open>Event handlers\<close>

text \<open>\<^verbatim>\<open>a - b || 0\<close> with \<^verbatim>\<open>a\<close> possibly undefined: the difference is NaN then, which is
  falsy, as is a difference of 0.\<close>

definition minusOrZero :: "real option \<Rightarrow> real \<Rightarrow> real" where
  "minusOrZero a b =
     (case a of None \<Rightarrow> 0
      | Some v \<Rightarrow> if v - b = 0 then 0 else v - b)"

text \<open>The loop of \<^verbatim>\<open>onViewportMouseMove\<close> over the indices of the collection.\<close>

fun moveLoop :: "MouseEvent \<Rightarrow> nat list \<Rightarrow> 'a DragDropService \<Rightarrow> 'a DragDropService outcome" where
  "moveLoop event [] s = Returned s"
| "moveLoop event (i # js) s =
     (if startThresholdPassed (draggables s ! i) (clientX event) (clientY event)
      then
        (case beginItemDrag (draggables s ! i) s of
           Threw e (d1, s1) \<Rightarrow> Threw e (putItem i d1 s1)
         | Returned (d1, s1) \<Rightarrow>
             (let s2 = putItem i d1 s1
              in case moveDraggableElement (draggables s2 ! i) (clientX event) (clientY event) s2 of
                   Threw e (d3, s3) \<Rightarrow> Threw e (putItem i d3 s3)
                 | Returned (d3, s3) \<Rightarrow> moveLoop event js (putItem i d3 s3)))
      else moveLoop event js s)"

definition onViewportMouseMove :: "MouseEvent \<Rightarrow> 'a DragDropService \<Rightarrow> 'a DragDropService outcome" where
  "onViewportMouseMove event s =
     (let s1 = scrollViewportAsNeeded (clientX event) (clientY event) s
      in if isMouseOutsideViewport s1 (clientX event) (clientY event) then Returned s1
         else
           (let dx = minusOrZero (fst (lastMousePos s1)) (clientX event);
                dy = minusOrZero (snd (lastMousePos s1)) (clientY event);
                s2 = s1\<lparr>lastDisplacement := (Some dx, Some dy)\<rparr>;
                s3 = s2\<lparr>lastMousePos := (Some (clientX event), Some (clientY event))\<rparr>
            in if dx = 0 \<and> dy = 0 then Returned s3
               else moveLoop event [0..<length (draggables s3)] s3))"

definition onVieportMouseUp :: "'a DragDropService \<Rightarrow> 'a DragDropService outcome" where
  "onVieportMouseUp s = deactivate None s"

text \<open>What each of the five one-shot listeners armed by \<^verbatim>\<open>activate\<close> does when its event
  fires: the viewport's mouse-up ends the drag normally, the other four abort it.\<close>

fun onRoute :: "route \<Rightarrow> 'a DragDropService \<Rightarrow> 'a DragDropService outcome" where
  "onRoute ViewportMouseUp s = onVieportMouseUp s"
| "onRoute ViewportMouseDown s = deactivate (Some True) s"
| "onRoute WindowMouseUp s = deactivate (Some True) s"
| "onRoute WindowKeyDown s = deactivate (Some True) s"
| "onRoute WindowBlur s = deactivate (Some True) s"

text \<open>The debounced resize listener.\<close>

definition onWindowResize :: "'a DragDropService \<Rightarrow> 'a DragDropService" where
  "onWindowResize s = s\<lparr>viewportRect := boundingClientRect (nodes (dom s) (viewportElement s))\<rparr>"

section \<open>The drop target adapter (droppable.directive.ts)\<close>

record ('a, 'b) TestDropEvent =
  testDraggable :: 'a
  testDroppable :: 'b

record ('a, 'b) DropEvent =
  dropDraggable :: 'a
  dropDroppable :: 'b
  dropIsDropTarget :: bool
  dropCancelled :: "bool option"

text \<open>
  The directive's fields. The two outputs \<^verbatim>\<open>testDrop\<close> (ddDroppableTest) and \<^verbatim>\<open>drop\<close>
  (ddOnDrop) are event emitters: \<open>None\<close> when the field holds no emitter, else the log of
  what was emitted. A mouse subscription is undefined (\<open>None\<close>) until the first
  ``dragging'' broadcast, then open (\<open>Some True\<close>) or closed (\<open>Some False\<close>).
  \<open>hoverTimer\<close> tells whether a delayed mouse-enter is pending.
\<close>

record ('a, 'b) DroppableDirective =
  dragging :: bool
  isDropTarget :: bool
  mouseEnterSubscription :: "bool option"
  mouseLeaveSubscription :: "bool option"
  hoverTimer :: bool
  hostElement :: elem
  ddDroppableTest :: "('a, 'b) TestDropEvent list option"
  droppable :: 'b
  acceptDrop :: bool
  droppableClasses :: string
  notDroppableClasses :: string
  hoverDelay :: real
  ddOnDrop :: "('a, 'b) DropEvent list option"

definition newDroppableDirective :: "elem \<Rightarrow> 'b \<Rightarrow> ('a, 'b) DroppableDirective" where
  "newDroppableDirective e ident =
     \<lparr>dragging = False, isDropTarget = False, mouseEnterSubscription = None,
      mouseLeaveSubscription = None, hoverTimer = False, hostElement = e,
      ddDroppableTest = Some [], droppable = ident, acceptDrop = False,
      droppableClasses = [], notDroppableClasses = [], hoverDelay = 0, ddOnDrop = Some []\<rparr>"

text \<open>The directive's own \<^verbatim>\<open>removeClasses()\<close>: the droppable classes, then the not-droppable
  ones.\<close>

definition removeDroppableClasses ::
  "('a, 'b) DroppableDirective \<Rightarrow> Document \<Rightarrow> Document outcome" where
  "removeDroppableClasses t d =
     (case removeClasses (Some (hostElement t)) (droppableClasses t) d of
        Threw err d1 \<Rightarrow> Threw err d1
      | Returned d1 \<Rightarrow> removeClasses (Some (hostElement t)) (notDroppableClasses t) d1)"

definition onDragging ::
  "'a DraggableItem \<Rightarrow> ('a, 'b) DroppableDirective \<Rightarrow> ('a, 'b) DroppableDirective" where
  "onDragging draggable t =
     (let t1 = (case ddDroppableTest t of
                  None \<Rightarrow> t
                | Some evs \<Rightarrow>
                    t\<lparr>ddDroppableTest :=
                        Some (evs @ [\<lparr>testDraggable = data draggable, testDroppable = droppable t\<rparr>])\<rparr>);
          t2 = t1\<lparr>mouseEnterSubscription := Some True\<rparr>;
          t3 = t2\<lparr>mouseLeaveSubscription := Some True\<rparr>
      in t3\<lparr>dragging := True\<rparr>)"


text \<open>\<^verbatim>\<open>addClasses(el, a)\<close> followed by \<^verbatim>\<open>removeClasses(el, b)\<close>, as \<^verbatim>\<open>onMouseEnter\<close> calls
  them in both of its branches.\<close>

definition addThenRemove :: "elem \<Rightarrow> string \<Rightarrow> string \<Rightarrow> Document \<Rightarrow> Document outcome" where
  "addThenRemove e a b d =
     (case addClasses (Some e) a d of
        Threw err d1 \<Rightarrow> Threw err d1
      | Returned d1 \<Rightarrow> removeClasses (Some e) b d1)"

definition onMouseEnter ::
  "('a, 'b) DroppableDirective \<Rightarrow> Document \<Rightarrow> (('a, 'b) DroppableDirective \<times> Document) outcome" where
  "onMouseEnter t d =
     (if \<not> dragging t then Returned (t, d)
      else
        (let t1 = t\<lparr>isDropTarget := True\<rparr>
         in case (if acceptDrop t1
                  then addThenRemove (hostElement t1) (droppableClasses t1) (notDroppableClasses t1) d
                  else addThenRemove (hostElement t1) (notDroppableClasses t1) (droppableClasses t1) d) of
              Threw err d1 \<Rightarrow> Threw err (t1, d1)
            | Returned d1 \<Rightarrow> Returned (t1, d1)))"

definition onMouseLeave ::
  "('a, 'b) DroppableDirective \<Rightarrow> Document \<Rightarrow> (('a, 'b) DroppableDirective \<times> Document) outcome" where
  "onMouseLeave t d =
     (if \<not> dragging t then Returned (t, d)
      else
        (let t1 = t\<lparr>isDropTarget := False\<rparr>
         in case removeDroppableClasses t1 d of
              Threw err d1 \<Rightarrow> Threw err (t1, d1)
            | Returned d1 \<Rightarrow> Returned (t1, d1)))"

section \<open>Notions used in the proofs, and a worked scenario\<close>

definition moveRel :: "real \<Rightarrow> real \<Rightarrow> 'a DragDropService \<Rightarrow> 'a DragDropService \<Rightarrow> bool" where
  "moveRel x y s s' =
     (length (draggables s') = length (draggables s) \<and>
      (\<forall>j < length (draggables s).
         mouseDownEvent (draggables s' ! j) = mouseDownEvent (draggables s ! j) \<and>
         startThreshold (draggables s' ! j) = startThreshold (draggables s ! j) \<and>
         (isDragging (draggables s ! j) \<longrightarrow>
            isDragging (draggables s' ! j) \<and> grabPoint (draggables s' ! j) = grabPoint (draggables s ! j)) \<and>
         (isDragging (draggables s' ! j) \<longrightarrow>
            isDragging (draggables s ! j) \<or> startThresholdPassed (draggables s ! j) x y)))"

text \<open>One pass of the loop body for a record whose threshold is passed: the state after the
  call of \<open>beginItemDrag\<close> with the record stored back, and the state after the call of
  \<open>moveDraggableElement\<close> that follows when the first call returns.\<close>

definition beginBody :: "nat \<Rightarrow> 'a DragDropService \<Rightarrow> 'a DragDropService" where
  "beginBody i s =
     (let b = stateOf (beginItemDrag (draggables s ! i) s) in putItem i (fst b) (snd b))"

definition moveBody :: "MouseEvent \<Rightarrow> nat \<Rightarrow> 'a DragDropService \<Rightarrow> 'a DragDropService" where
  "moveBody event i s =
     (let s2 = beginBody i s;
          m = stateOf (moveDraggableElement (draggables s2 ! i) (clientX event) (clientY event) s2)
      in putItem i (fst m) (snd m))"

text \<open>One pass of the loop body of \<open>dragStop\<close>: the state after the record's drag is ended and
  its dragged classes are taken off the source element, and the state after the ghost is
  destroyed, which follows when the first part returns.\<close>

definition endBody :: "bool option \<Rightarrow> nat \<Rightarrow> 'a DragDropService \<Rightarrow> 'a DragDropService" where
  "endBody c i s =
     (let e = endItemDrag (draggables s ! i) c s;
          s2 = putItem i (fst e) (snd e)
      in s2\<lparr>dom := stateOf (removeClasses (Some (el (draggables s2 ! i)))
                              (draggedClass (draggables s2 ! i)) (dom s2))\<rparr>)"

definition stopBody :: "bool option \<Rightarrow> nat \<Rightarrow> 'a DragDropService \<Rightarrow> 'a DragDropService" where
  "stopBody c i s =
     (let s3 = endBody c i s;
          r = stateOf (destroyDraggableElement (draggables s3 ! i) s3)
      in putItem i (fst r) (snd r))"

text \<open>The class names a class string stands for in \<open>addClasses\<close> and \<open>removeClasses\<close>: none
  for the empty string, else the pieces between the spaces.\<close>

definition classNames :: "string \<Rightarrow> string list" where
  "classNames classes = (if classes = [] then [] else split (CHR '' '') classes)"

text \<open>A class string all of whose pieces are tokens the class list accepts: the empty string,
  or names separated by single spaces, without a space at either end and without other
  whitespace.\<close>

definition validToken :: "string \<Rightarrow> bool" where
  "validToken c = (c \<noteq> [] \<and> \<not> list_ex asciiWhitespace c)"

definition validClasses :: "string \<Rightarrow> bool" where
  "validClasses classes = list_all validToken (classNames classes)"

text \<open>The ghosts the records of a collection hold, in order.\<close>

fun ghosts :: "'a DraggableItem list \<Rightarrow> elem list" where
  "ghosts [] = []"
| "ghosts (d # ds) = (case dragEl d of None \<Rightarrow> ghosts ds | Some g \<Rightarrow> g # ghosts ds)"

text \<open>
  A tidy state: both saved subscriptions exist (an activation has taken place), every
  record's dragged-class string is made of tokens the class list accepts, and the ghosts the
  records hold are distinct children of the current viewport element.
\<close>

definition tidy :: "'a DragDropService \<Rightarrow> bool" where
  "tidy s =
     (viewportMouseMoveSubscription s \<noteq> None \<and> viewportResizeSubscription s \<noteq> None
      \<and> list_all (\<lambda>d. validClasses (draggedClass d)) (draggables s)
      \<and> list_all (\<lambda>g. g \<in> set (children (nodes (dom s) (viewportElement s)))) (ghosts (draggables s))
      \<and> distinct (ghosts (draggables s)))"

text \<open>
  What can happen to the engine from outside: a registration (a mouse-down on a draggable
  element), a sampled mouse move, a debounced resize, a tick of an interval timer, and one
  of the five one-shot listeners firing. \<open>run\<close> lists the states the engine goes through; an
  exception ends the handler that raised it, not the engine.
\<close>

datatype 'a action =
    Register MouseEvent elem 'a "string option" string string real
  | Move MouseEvent
  | Resize
  | Tick nat
  | Fire route

fun perform :: "'a action \<Rightarrow> 'a DragDropService \<Rightarrow> 'a DragDropService outcome" where
  "perform (Register event e payload sel draggingCls draggedCls th) s =
     registerDraggable event e payload sel draggingCls draggedCls th s"
| "perform (Move event) s = onViewportMouseMove event s"
| "perform Resize s = Returned (onWindowResize s)"
| "perform (Tick i) s = Returned (tick i s)"
| "perform (Fire r) s = onRoute r s"

fun run :: "'a action list \<Rightarrow> 'a DragDropService \<Rightarrow> 'a DragDropService list" where
  "run [] s = [s]"
| "run (a # as) s = s # run as (stateOf (perform a s))"

fun isFire :: "'a action \<Rightarrow> bool" where
  "isFire (Fire r) = True"
| "isFire (Register event e payload sel draggingCls draggedCls th) = False"
| "isFire (Move event) = False"
| "isFire Resize = False"
| "isFire (Tick i) = False"

text \<open>A sequence of actions in which no deactivation is attempted before the last action:
  the life of a registration up to and including the first deactivation.\<close>

definition lifetime :: "'a action list \<Rightarrow> bool" where
  "lifetime as = (\<not> list_ex isFire (butlast as))"

text \<open>Whether the record at index \<open>k\<close> exists and is dragging, and the number of times a
  sequence of such observations goes from false to true.\<close>

definition flagOf :: "nat \<Rightarrow> 'a DragDropService \<Rightarrow> bool" where
  "flagOf k s = (k < length (draggables s) \<and> isDragging (draggables s ! k))"

fun raises :: "bool list \<Rightarrow> nat" where
  "raises (a # b # bs) = (if \<not> a \<and> b then 1 else 0) + raises (b # bs)"
| "raises [a] = 0"
| "raises [] = 0"

definition demoDocument :: Document where
  "demoDocument =
     \<lparr>nodes = (\<lambda>n. blankElement)
        (0 := blankElement\<lparr>boundingClientRect :=
               \<lparr>rectLeft = 0, rectTop = 0, rectRight = 300, rectBottom = 300,
                rectWidth = 300, rectHeight = 300\<rparr>\<rparr>,
         1 := blankElement\<lparr>boundingClientRect :=
               \<lparr>rectLeft = 40, rectTop = 40, rectRight = 60, rectBottom = 60,
                rectWidth = 20, rectHeight = 20\<rparr>\<rparr>,
         2 := blankElement\<lparr>boundingClientRect :=
               \<lparr>rectLeft = 100, rectTop = 40, rectRight = 120, rectBottom = 60,
                rectWidth = 20, rectHeight = 20\<rparr>\<rparr>),
      nextNode = 3, selectors = (\<lambda>q. None)(''body'' := Some 0), parses = (\<lambda>q. False),
      bodyElement = 0\<rparr>"

definition demoRegistered :: "unit DragDropService" where
  "demoRegistered =
     stateOf (registerDraggable \<lparr>clientX = 50, clientY = 50\<rparr> 1 () None [] [] 10
       (newDragDropService demoDocument))"

definition demoFirstMove :: "unit DragDropService" where
  "demoFirstMove = stateOf (onViewportMouseMove \<lparr>clientX = 52, clientY = 50\<rparr> demoRegistered)"

definition demoDragging :: "unit DragDropService" where
  "demoDragging = stateOf (onViewportMouseMove \<lparr>clientX = 70, clientY = 50\<rparr> demoFirstMove)"

definition demoBack :: "unit DragDropService" where
  "demoBack = stateOf (onViewportMouseMove \<lparr>clientX = 55, clientY = 50\<rparr> demoDragging)"

definition demoZone :: "(unit, string) DroppableDirective" where
  "demoZone =
     (newDroppableDirective 2 ''zone'')
       \<lparr>acceptDrop := True, droppableClasses := ''ok hot'', notDroppableClasses := ''no''\<rparr>"

definition demoEntered :: "(unit, string) DroppableDirective \<times> Document" where
  "demoEntered = stateOf (onMouseEnter (onDragging (draggables demoDragging ! 0) demoZone) demoDocument)"

definition demoTwo :: "unit DragDropService" where
  "demoTwo = stateOf (registerDraggable \<lparr>clientX = 110, clientY = 50\<rparr> 2 () None [] [] 10 demoRegistered)"

definition demoTwoFirstMove :: "unit DragDropService" where
  "demoTwoFirstMove = stateOf (onViewportMouseMove \<lparr>clientX = 112, clientY = 50\<rparr> demoTwo)"

definition demoTwoDragging :: "unit DragDropService" where
  "demoTwoDragging = stateOf (onViewportMouseMove \<lparr>clientX = 130, clientY = 50\<rparr> demoTwoFirstMove)"

text \<open>A second document, with a pane (element 3) that a draggable can name as its
  container, and a sequence of actions on it: a drag of the first draggable in the body, a
  second registration in the pane while the first drag is on, the release, and two more
  moves.\<close>

definition paneDocument :: Document where
  "paneDocument =
     \<lparr>nodes = (\<lambda>n. blankElement)
        (0 := blankElement\<lparr>boundingClientRect :=
               \<lparr>rectLeft = 0, rectTop = 0, rectRight = 300, rectBottom = 300,
                rectWidth = 300, rectHeight = 300\<rparr>\<rparr>,
         1 := blankElement\<lparr>boundingClientRect :=
               \<lparr>rectLeft = 40, rectTop = 40, rectRight = 60, rectBottom = 60,
                rectWidth = 20, rectHeight = 20\<rparr>\<rparr>,
         2 := blankElement\<lparr>boundingClientRect :=
               \<lparr>rectLeft = 100, rectTop = 40, rectRight = 120, rectBottom = 60,
                rectWidth = 20, rectHeight = 20\<rparr>\<rparr>,
         3 := blankElement\<lparr>boundingClientRect :=
               \<lparr>rectLeft = 80, rectTop = 20, rectRight = 280, rectBottom = 220,
                rectWidth = 200, rectHeight = 200\<rparr>\<rparr>),
      nextNode = 4, selectors = (\<lambda>q. None)(''body'' := Some 0, ''#pane'' := Some 3),
      parses = (\<lambda>q. q = ''#pane''), bodyElement = 0\<rparr>"

definition paneActions :: "unit action list" where
  "paneActions =
     [Register \<lparr>clientX = 50, clientY = 50\<rparr> 1 () None [] [] 10,
      Move \<lparr>clientX = 52, clientY = 50\<rparr>,
      Move \<lparr>clientX = 70, clientY = 50\<rparr>,
      Register \<lparr>clientX = 110, clientY = 50\<rparr> 2 () (Some ''#pane'') [] [] 10,
      Fire ViewportMouseUp,
      Move \<lparr>clientX = 105, clientY = 50\<rparr>,
      Move \<lparr>clientX = 110, clientY = 50\<rparr>]"

text \<open>The states the engine goes through on these actions.\<close>

definition paneRegistered :: "unit DragDropService" where
  "paneRegistered =
     stateOf (registerDraggable \<lparr>clientX = 50, clientY = 50\<rparr> 1 () None [] [] 10
       (newDragDropService paneDocument))"

definition paneFirstMove :: "unit DragDropService" where
  "paneFirstMove = stateOf (onViewportMouseMove \<lparr>clientX = 52, clientY = 50\<rparr> paneRegistered)"

definition paneDragging :: "unit DragDropService" where
  "paneDragging = stateOf (onViewportMouseMove \<lparr>clientX = 70, clientY = 50\<rparr> paneFirstMove)"

definition paneSecond :: "unit DragDropService" where
  "paneSecond =
     stateOf (registerDraggable \<lparr>clientX = 110, clientY = 50\<rparr> 2 () (Some ''#pane'') [] [] 10
       paneDragging)"

definition paneReleased :: "unit DragDropService" where
  "paneReleased = stateOf (onRoute ViewportMouseUp paneSecond)"

definition paneMoved :: "unit DragDropService" where
  "paneMoved = stateOf (onViewportMouseMove \<lparr>clientX = 105, clientY = 50\<rparr> paneReleased)"

definition paneAgain :: "unit DragDropService" where
  "paneAgain = stateOf (onViewportMouseMove \<lparr>clientX = 110, clientY = 50\<rparr> paneMoved)"

text \<open>Two drop targets for the cases in which \<open>onDropping\<close> does not complete: one that never
  handled a ``dragging'' broadcast, on an element that carries its droppable class from the
  markup, and one whose droppable class string ends with a space.\<close>

definition demoMarkup :: Document where
  "demoMarkup = demoDocument\<lparr>nodes := (nodes demoDocument)(2 := (nodes demoDocument 2)\<lparr>classList := [''ok'']\<rparr>)\<rparr>"

definition demoFresh :: "(unit, string) DroppableDirective" where
  "demoFresh = (newDroppableDirective 2 ''zone'')\<lparr>droppableClasses := ''ok''\<rparr>"

definition demoSloppy :: "(unit, string) DroppableDirective" where
  "demoSloppy =
     (newDroppableDirective 2 ''zone'')\<lparr>droppableClasses := ''ok '', notDroppableClasses := ''no''\<rparr>"

definition demoSloppyEntered :: "(unit, string) DroppableDirective \<times> Document" where
  "demoSloppyEntered =
     stateOf (onMouseEnter (onDragging (draggables demoDragging ! 0) demoSloppy) demoDocument)"

section \<open>Basic facts about the operations\<close>

subsection \<open>The platform\<close>

lemma querySelector_word:
  "typeSelector q \<Longrightarrow> querySelector q d = Inr (selectors d q)"
  by (auto simp add: querySelector_def typeSelector_def)

lemma typeSelector_body [simp]: "typeSelector ''body''" "typeSelector ''undefined''"
  by (simp_all add: typeSelector_def asciiLetter_def)

lemma setStyle_frame [simp]:
  "nextNode (setStyle e p v d) = nextNode d"
  "selectors (setStyle e p v d) = selectors d"
  "parses (setStyle e p v d) = parses d"
  "bodyElement (setStyle e p v d) = bodyElement d"
  "boundingClientRect (nodes (setStyle e p v d) n) = boundingClientRect (nodes d n)"
  "children (nodes (setStyle e p v d) n) = children (nodes d n)"
  "classList (nodes (setStyle e p v d) n) = classList (nodes d n)"
  "scrollLeft (nodes (setStyle e p v d) n) = scrollLeft (nodes d n)"
  "scrollTop (nodes (setStyle e p v d) n) = scrollTop (nodes d n)"
  by (simp_all add: setStyle_def)

lemma style_setStyle [simp]:
  "style (nodes (setStyle e p v d) n) q =
     (if n = e \<and> q = p then v else style (nodes d n) q)"
  by (simp add: setStyle_def)

lemma appendChild_frame [simp]:
  "nextNode (appendChild p c d) = nextNode d"
  "selectors (appendChild p c d) = selectors d"
  "parses (appendChild p c d) = parses d"
  "bodyElement (appendChild p c d) = bodyElement d"
  "style (nodes (appendChild p c d) n) = style (nodes d n)"
  "classList (nodes (appendChild p c d) n) = classList (nodes d n)"
  "boundingClientRect (nodes (appendChild p c d) n) = boundingClientRect (nodes d n)"
  "scrollLeft (nodes (appendChild p c d) n) = scrollLeft (nodes d n)"
  "scrollTop (nodes (appendChild p c d) n) = scrollTop (nodes d n)"
  "children (nodes (appendChild p c d) n) =
     (if n = p then children (nodes d n) @ [c] else children (nodes d n))"
  by (simp_all add: appendChild_def)

lemma classListAdd_frame [simp]:
  "nextNode (stateOf (classListAdd e c d)) = nextNode d"
  "selectors (stateOf (classListAdd e c d)) = selectors d"
  "parses (stateOf (classListAdd e c d)) = parses d"
  "bodyElement (stateOf (classListAdd e c d)) = bodyElement d"
  "children (nodes (stateOf (classListAdd e c d)) n) = children (nodes d n)"
  "style (nodes (stateOf (classListAdd e c d)) n) = style (nodes d n)"
  "boundingClientRect (nodes (stateOf (classListAdd e c d)) n) = boundingClientRect (nodes d n)"
  "scrollLeft (nodes (stateOf (classListAdd e c d)) n) = scrollLeft (nodes d n)"
  "scrollTop (nodes (stateOf (classListAdd e c d)) n) = scrollTop (nodes d n)"
  by (simp_all add: classListAdd_def)

lemma classListRemove_frame [simp]:
  "nextNode (stateOf (classListRemove e c d)) = nextNode d"
  "selectors (stateOf (classListRemove e c d)) = selectors d"
  "parses (stateOf (classListRemove e c d)) = parses d"
  "bodyElement (stateOf (classListRemove e c d)) = bodyElement d"
  "children (nodes (stateOf (classListRemove e c d)) n) = children (nodes d n)"
  "style (nodes (stateOf (classListRemove e c d)) n) = style (nodes d n)"
  "boundingClientRect (nodes (stateOf (classListRemove e c d)) n) = boundingClientRect (nodes d n)"
  "scrollLeft (nodes (stateOf (classListRemove e c d)) n) = scrollLeft (nodes d n)"
  "scrollTop (nodes (stateOf (classListRemove e c d)) n) = scrollTop (nodes d n)"
  by (simp_all add: classListRemove_def)

lemma returned_classList:
  "returned (classListAdd e c d) = validToken c"
  "returned (classListRemove e c d) = validToken c"
  by (simp_all add: classListAdd_def classListRemove_def validToken_def)

lemma classList_classListAdd:
  "classList (nodes (stateOf (classListAdd e c d)) n) =
     (if n = e \<and> validToken c \<and> c \<notin> set (classList (nodes d n))
      then classList (nodes d n) @ [c] else classList (nodes d n))"
  by (simp add: classListAdd_def validToken_def)

lemma classList_classListRemove:
  "classList (nodes (stateOf (classListRemove e c d)) n) =
     (if n = e \<and> validToken c then removeAll c (classList (nodes d n)) else classList (nodes d n))"
  by (simp add: classListRemove_def validToken_def)

subsection \<open>Adding and removing classes\<close>

lemma addClassesLoop_Cons:
  "stateOf (addClassesLoop n (c # cs) d) =
     (if returned (classListAdd n c d) then stateOf (addClassesLoop n cs (stateOf (classListAdd n c d)))
      else stateOf (classListAdd n c d))"
  "returned (addClassesLoop n (c # cs) d) =
     (returned (classListAdd n c d) \<and> returned (addClassesLoop n cs (stateOf (classListAdd n c d))))"
  by (cases "classListAdd n c d"; simp)+

lemma removeClassesLoop_Cons:
  "stateOf (removeClassesLoop n (c # cs) d) =
     (if returned (classListRemove n c d) then stateOf (removeClassesLoop n cs (stateOf (classListRemove n c d)))
      else stateOf (classListRemove n c d))"
  "returned (removeClassesLoop n (c # cs) d) =
     (returned (classListRemove n c d) \<and> returned (removeClassesLoop n cs (stateOf (classListRemove n c d))))"
  by (cases "classListRemove n c d"; simp)+

declare addClassesLoop.simps(2) [simp del] removeClassesLoop.simps(2) [simp del]

lemma addClassesLoop_frame [simp]:
  "nextNode (stateOf (addClassesLoop e cs d)) = nextNode d"
  "selectors (stateOf (addClassesLoop e cs d)) = selectors d"
  "parses (stateOf (addClassesLoop e cs d)) = parses d"
  "bodyElement (stateOf (addClassesLoop e cs d)) = bodyElement d"
  "children (nodes (stateOf (addClassesLoop e cs d)) n) = children (nodes d n)"
  "style (nodes (stateOf (addClassesLoop e cs d)) n) = style (nodes d n)"
  "boundingClientRect (nodes (stateOf (addClassesLoop e cs d)) n) = boundingClientRect (nodes d n)"
  "scrollLeft (nodes (stateOf (addClassesLoop e cs d)) n) = scrollLeft (nodes d n)"
  "scrollTop (nodes (stateOf (addClassesLoop e cs d)) n) = scrollTop (nodes d n)"
  by (induction cs arbitrary: d; simp add: addClassesLoop_Cons)+

lemma removeClassesLoop_frame [simp]:
  "nextNode (stateOf (removeClassesLoop e cs d)) = nextNode d"
  "selectors (stateOf (removeClassesLoop e cs d)) = selectors d"
  "parses (stateOf (removeClassesLoop e cs d)) = parses d"
  "bodyElement (stateOf (removeClassesLoop e cs d)) = bodyElement d"
  "children (nodes (stateOf (removeClassesLoop e cs d)) n) = children (nodes d n)"
  "style (nodes (stateOf (removeClassesLoop e cs d)) n) = style (nodes d n)"
  "boundingClientRect (nodes (stateOf (removeClassesLoop e cs d)) n) = boundingClientRect (nodes d n)"
  "scrollLeft (nodes (stateOf (removeClassesLoop e cs d)) n) = scrollLeft (nodes d n)"
  "scrollTop (nodes (stateOf (removeClassesLoop e cs d)) n) = scrollTop (nodes d n)"
  by (induction cs arbitrary: d; simp add: removeClassesLoop_Cons)+

lemma returned_addClassesLoop: "returned (addClassesLoop e cs d) = list_all validToken cs"
  by (induction cs arbitrary: d) (simp_all add: addClassesLoop_Cons returned_classList)

lemma returned_removeClassesLoop: "returned (removeClassesLoop e cs d) = list_all validToken cs"
  by (induction cs arbitrary: d) (simp_all add: removeClassesLoop_Cons returned_classList)

lemma addClasses_empty [simp]: "addClasses e [] d = Returned d"
  by (simp add: addClasses_def split: option.splits)

lemma removeClasses_empty [simp]: "removeClasses e [] d = Returned d"
  by (simp add: removeClasses_def split: option.splits)

lemma addClasses_frame [simp]:
  "nextNode (stateOf (addClasses e cs d)) = nextNode d"
  "selectors (stateOf (addClasses e cs d)) = selectors d"
  "parses (stateOf (addClasses e cs d)) = parses d"
  "bodyElement (stateOf (addClasses e cs d)) = bodyElement d"
  "children (nodes (stateOf (addClasses e cs d)) n) = children (nodes d n)"
  "style (nodes (stateOf (addClasses e cs d)) n) = style (nodes d n)"
  "boundingClientRect (nodes (stateOf (addClasses e cs d)) n) = boundingClientRect (nodes d n)"
  "scrollLeft (nodes (stateOf (addClasses e cs d)) n) = scrollLeft (nodes d n)"
  "scrollTop (nodes (stateOf (addClasses e cs d)) n) = scrollTop (nodes d n)"
  by (simp_all add: addClasses_def split: option.splits)

lemma removeClasses_frame [simp]:
  "nextNode (stateOf (removeClasses e cs d)) = nextNode d"
  "selectors (stateOf (removeClasses e cs d)) = selectors d"
  "parses (stateOf (removeClasses e cs d)) = parses d"
  "bodyElement (stateOf (removeClasses e cs d)) = bodyElement d"
  "children (nodes (stateOf (removeClasses e cs d)) n) = children (nodes d n)"
  "style (nodes (stateOf (removeClasses e cs d)) n) = style (nodes d n)"
  "boundingClientRect (nodes (stateOf (removeClasses e cs d)) n) = boundingClientRect (nodes d n)"
  "scrollLeft (nodes (stateOf (removeClasses e cs d)) n) = scrollLeft (nodes d n)"
  "scrollTop (nodes (stateOf (removeClasses e cs d)) n) = scrollTop (nodes d n)"
  by (simp_all add: removeClasses_def split: option.splits)

lemma returned_addClasses: "returned (addClasses (Some e) cs d) = validClasses cs"
  by (simp add: addClasses_def validClasses_def classNames_def returned_addClassesLoop)

lemma returned_removeClasses: "returned (removeClasses (Some e) cs d) = validClasses cs"
  by (simp add: removeClasses_def validClasses_def classNames_def returned_removeClassesLoop)



lemma classList_addClassesLoop_other:
  "n \<noteq> e \<Longrightarrow> classList (nodes (stateOf (addClassesLoop e cs d)) n) = classList (nodes d n)"
  by (induction cs arbitrary: d) (simp_all add: addClassesLoop_Cons classList_classListAdd)

lemma classList_removeClassesLoop_other:
  "n \<noteq> e \<Longrightarrow> classList (nodes (stateOf (removeClassesLoop e cs d)) n) = classList (nodes d n)"
  by (induction cs arbitrary: d) (simp_all add: removeClassesLoop_Cons classList_classListRemove)

subsection \<open>Frames of the service's helpers\<close>

lemma scrollViewportAsNeeded_frame [simp]:
  "draggables (scrollViewportAsNeeded x y s) = draggables s"
  "emitted (scrollViewportAsNeeded x y s) = emitted s"
  "lastMousePos (scrollViewportAsNeeded x y s) = lastMousePos s"
  "lastDisplacement (scrollViewportAsNeeded x y s) = lastDisplacement s"
  "viewportRect (scrollViewportAsNeeded x y s) = viewportRect s"
  "viewportElement (scrollViewportAsNeeded x y s) = viewportElement s"
  "viewportCursor (scrollViewportAsNeeded x y s) = viewportCursor s"
  "dom (scrollViewportAsNeeded x y s) = dom s"
  "viewportMouseMoveSubscription (scrollViewportAsNeeded x y s) = viewportMouseMoveSubscription s"
  "viewportResizeSubscription (scrollViewportAsNeeded x y s) = viewportResizeSubscription s"
  by (simp_all add: scrollViewportAsNeeded_def clearScrollIntervals_def clearInterval_def
        setInterval_def Let_def split: option.splits)

lemma setCursor_frame [simp]:
  "draggables (setCursor v s) = draggables s"
  "emitted (setCursor v s) = emitted s"
  "lastMousePos (setCursor v s) = lastMousePos s"
  "lastDisplacement (setCursor v s) = lastDisplacement s"
  "viewportRect (setCursor v s) = viewportRect s"
  "viewportElement (setCursor v s) = viewportElement s"
  "viewportCursor (setCursor v s) = viewportCursor s"
  "viewportMouseMoveSubscription (setCursor v s) = viewportMouseMoveSubscription s"
  "viewportResizeSubscription (setCursor v s) = viewportResizeSubscription s"
  "scrollXInterval (setCursor v s) = scrollXInterval s"
  "scrollYInterval (setCursor v s) = scrollYInterval s"
  "intervals (setCursor v s) = intervals s"
  by (simp_all add: setCursor_def split: option.splits)

lemma dom_setCursor:
  "dom (setCursor v s) =
     (case v of None \<Rightarrow> dom s | Some c \<Rightarrow> setStyle (viewportElement s) ''cursor'' c (dom s))"
  by (simp add: setCursor_def split: option.splits)

lemma putItem_frame [simp]:
  "draggables (putItem i d s) = (draggables s)[i := d]"
  "emitted (putItem i d s) = emitted s"
  "dom (putItem i d s) = dom s"
  "lastMousePos (putItem i d s) = lastMousePos s"
  "lastDisplacement (putItem i d s) = lastDisplacement s"
  "viewportRect (putItem i d s) = viewportRect s"
  "viewportElement (putItem i d s) = viewportElement s"
  "viewportCursor (putItem i d s) = viewportCursor s"
  "viewportMouseMoveSubscription (putItem i d s) = viewportMouseMoveSubscription s"
  "viewportResizeSubscription (putItem i d s) = viewportResizeSubscription s"
  "scrollXInterval (putItem i d s) = scrollXInterval s"
  "scrollYInterval (putItem i d s) = scrollYInterval s"
  "intervals (putItem i d s) = intervals s"
  by (simp_all add: putItem_def)

subsection \<open>The ghost element\<close>

lemma styleAndAttach_frame [simp]:
  "nextNode (styleAndAttach v g ov p r d) = nextNode d"
  "selectors (styleAndAttach v g ov p r d) = selectors d"
  "parses (styleAndAttach v g ov p r d) = parses d"
  "bodyElement (styleAndAttach v g ov p r d) = bodyElement d"
  "classList (nodes (styleAndAttach v g ov p r d) n) = classList (nodes d n)"
  "boundingClientRect (nodes (styleAndAttach v g ov p r d) n) = boundingClientRect (nodes d n)"
  "scrollLeft (nodes (styleAndAttach v g ov p r d) n) = scrollLeft (nodes d n)"
  "scrollTop (nodes (styleAndAttach v g ov p r d) n) = scrollTop (nodes d n)"
  "children (nodes (styleAndAttach v g ov p r d) n) =
     (if n = v then (if n = g then children (nodes d n) @ [ov] else children (nodes d n)) @ [g]
      else if n = g then children (nodes d n) @ [ov] else children (nodes d n))"
  "n \<noteq> g \<Longrightarrow> n \<noteq> ov \<Longrightarrow> style (nodes (styleAndAttach v g ov p r d) n) = style (nodes d n)"
  unfolding styleAndAttach_def Let_def by (simp_all add: fun_eq_iff)

lemma createDraggableElement_item:
  "fst (stateOf (createDraggableElement dr s)) =
     dr\<lparr>pos := Some (rectLeft (boundingClientRect (nodes (dom s) (el dr))),
                      rectTop (boundingClientRect (nodes (dom s) (el dr)))),
        grabPoint := Some (clientX (mouseDownEvent dr) - rectLeft (boundingClientRect (nodes (dom s) (el dr))),
                            clientY (mouseDownEvent dr) - rectTop (boundingClientRect (nodes (dom s) (el dr)))),
        dragEl := Some (Suc (nextNode (dom s)))\<rparr>"
  unfolding createDraggableElement_def createElement_def cloneNode_def Let_def split_def fst_conv snd_conv
  by (simp split: outcome.splits)

lemma createDraggableElement_state:
  "snd (stateOf (createDraggableElement dr s)) = s\<lparr>dom := dom (snd (stateOf (createDraggableElement dr s)))\<rparr>"
  unfolding createDraggableElement_def createElement_def cloneNode_def Let_def split_def fst_conv snd_conv
  by (simp split: outcome.splits)

lemma createDraggableElement_frame [simp]:
  "draggables (snd (stateOf (createDraggableElement dr s))) = draggables s"
  "emitted (snd (stateOf (createDraggableElement dr s))) = emitted s"
  "lastMousePos (snd (stateOf (createDraggableElement dr s))) = lastMousePos s"
  "lastDisplacement (snd (stateOf (createDraggableElement dr s))) = lastDisplacement s"
  "viewportRect (snd (stateOf (createDraggableElement dr s))) = viewportRect s"
  "viewportElement (snd (stateOf (createDraggableElement dr s))) = viewportElement s"
  "viewportCursor (snd (stateOf (createDraggableElement dr s))) = viewportCursor s"
  "viewportMouseMoveSubscription (snd (stateOf (createDraggableElement dr s))) = viewportMouseMoveSubscription s"
  "viewportResizeSubscription (snd (stateOf (createDraggableElement dr s))) = viewportResizeSubscription s"
  "scrollXInterval (snd (stateOf (createDraggableElement dr s))) = scrollXInterval s"
  "scrollYInterval (snd (stateOf (createDraggableElement dr s))) = scrollYInterval s"
  "intervals (snd (stateOf (createDraggableElement dr s))) = intervals s"
  by (subst createDraggableElement_state, simp)+

lemma returned_createDraggableElement:
  "returned (createDraggableElement dr s) = validClasses (draggingClass dr)"
  unfolding createDraggableElement_def createElement_def cloneNode_def Let_def split_def fst_conv snd_conv
  using returned_addClasses [of "Suc (nextNode (dom s))" "draggingClass dr"]
  by (simp split: outcome.splits) (metis returned.simps)

lemma dom_createDraggableElement:
  "dom (snd (stateOf (createDraggableElement dr s))) =
     (if validClasses (draggingClass dr)
      then styleAndAttach (viewportElement s) (Suc (nextNode (dom s))) (nextNode (dom s))
             (rectLeft (boundingClientRect (nodes (dom s) (el dr))),
              rectTop (boundingClientRect (nodes (dom s) (el dr))))
             (boundingClientRect (nodes (dom s) (el dr)))
             (stateOf (addClasses (Some (Suc (nextNode (dom s)))) (draggingClass dr)
                (snd (cloneNode (el dr) (snd (createElement (dom s)))))))
      else stateOf (addClasses (Some (Suc (nextNode (dom s)))) (draggingClass dr)
                (snd (cloneNode (el dr) (snd (createElement (dom s)))))))"
proof -
  let ?a = "addClasses (Some (Suc (nextNode (dom s)))) (draggingClass dr)
                (snd (cloneNode (el dr) (snd (createElement (dom s)))))"
  have r: "returned ?a = validClasses (draggingClass dr)" by (rule returned_addClasses)
  show ?thesis
  proof (cases ?a)
    case (Returned d3)
    with r have v: "validClasses (draggingClass dr)" by simp
    show ?thesis
      unfolding createDraggableElement_def Let_def split_def
      using Returned v by (simp add: createElement_def cloneNode_def)
  next
    case (Threw err d3)
    with r have v: "\<not> validClasses (draggingClass dr)" by simp
    show ?thesis
      unfolding createDraggableElement_def Let_def split_def
      using Threw v by (simp add: createElement_def cloneNode_def)
  qed
qed

lemma createDraggableElement_dom:
  "nextNode (dom (snd (stateOf (createDraggableElement dr s)))) = Suc (Suc (nextNode (dom s)))"
  "selectors (dom (snd (stateOf (createDraggableElement dr s)))) = selectors (dom s)"
  "parses (dom (snd (stateOf (createDraggableElement dr s)))) = parses (dom s)"
  "bodyElement (dom (snd (stateOf (createDraggableElement dr s)))) = bodyElement (dom s)"
  "n < nextNode (dom s) \<Longrightarrow>
     style (nodes (dom (snd (stateOf (createDraggableElement dr s)))) n) = style (nodes (dom s) n)"
  "n < nextNode (dom s) \<Longrightarrow>
     boundingClientRect (nodes (dom (snd (stateOf (createDraggableElement dr s)))) n) = boundingClientRect (nodes (dom s) n)"
  "n < nextNode (dom s) \<Longrightarrow>
     scrollLeft (nodes (dom (snd (stateOf (createDraggableElement dr s)))) n) = scrollLeft (nodes (dom s) n)"
  "n < nextNode (dom s) \<Longrightarrow>
     scrollTop (nodes (dom (snd (stateOf (createDraggableElement dr s)))) n) = scrollTop (nodes (dom s) n)"
  "n < nextNode (dom s) \<Longrightarrow>
     children (nodes (dom (snd (stateOf (createDraggableElement dr s)))) n) =
       (if n = viewportElement s \<and> validClasses (draggingClass dr)
        then children (nodes (dom s) n) @ [Suc (nextNode (dom s))]
        else children (nodes (dom s) n))"
  by (simp_all add: dom_createDraggableElement createElement_def cloneNode_def)

lemma classList_createDraggableElement:
  "n < nextNode (dom s) \<Longrightarrow>
     classList (nodes (dom (snd (stateOf (createDraggableElement dr s)))) n) = classList (nodes (dom s) n)"
  by (simp add: dom_createDraggableElement addClasses_def classList_addClassesLoop_other
        createElement_def cloneNode_def)

subsection \<open>Beginning a drag\<close>

lemma beginItemDrag_dragging: "isDragging d \<Longrightarrow> beginItemDrag d s = Returned (d, s)"
  by (simp add: beginItemDrag_def)

text \<open>What \<open>beginItemDrag\<close> leaves behind on a record that is not dragging, in its three
  outcomes: the ghost's classes are refused, the source element's classes are refused, or it
  returns.\<close>

lemma beginItemDrag_fresh:
  assumes "\<not> isDragging d"
  shows "stateOf (beginItemDrag d s) =
     (let s4 = setCursor (Some (Keyword ''-webkit-grabbing'')) (setCursor (Some (Keyword ''grabbing''))
                 (setCursor (Some (Keyword ''pointer''))
                    (s\<lparr>viewportCursor := Some (style (nodes (dom s) (viewportElement s)) ''cursor'')\<rparr>)));
          c = createDraggableElement d s4;
          d2 = (fst (stateOf c))\<lparr>isDragging := True\<rparr>;
          s6 = (snd (stateOf c))\<lparr>dom := setStyle (Suc (nextNode (dom s))) ''visibility'' (Keyword ''visible'')
                                           (dom (snd (stateOf c)))\<rparr>;
          a = addClasses (Some (el d)) (draggedClass d) (dom s6)
      in if \<not> validClasses (draggingClass d) then stateOf c
         else if \<not> validClasses (draggedClass d) then (d2, s6\<lparr>dom := stateOf a\<rparr>)
         else (d2, s6\<lparr>dom := stateOf a, emitted := emitted s @ [Dragging d2]\<rparr>))"
    (is "?A")
  and "returned (beginItemDrag d s) = (validClasses (draggingClass d) \<and> validClasses (draggedClass d))"
    (is "?B")
proof -
  let ?s4 = "setCursor (Some (Keyword ''-webkit-grabbing'')) (setCursor (Some (Keyword ''grabbing''))
                 (setCursor (Some (Keyword ''pointer''))
                    (s\<lparr>viewportCursor := Some (style (nodes (dom s) (viewportElement s)) ''cursor'')\<rparr>)))"
  let ?c = "createDraggableElement d ?s4"
  have rc: "returned ?c = validClasses (draggingClass d)" by (rule returned_createDraggableElement)
  have item: "fst (stateOf ?c) = d\<lparr>pos := Some (rectLeft (boundingClientRect (nodes (dom ?s4) (el d))),
                      rectTop (boundingClientRect (nodes (dom ?s4) (el d)))),
        grabPoint := Some (clientX (mouseDownEvent d) - rectLeft (boundingClientRect (nodes (dom ?s4) (el d))),
                            clientY (mouseDownEvent d) - rectTop (boundingClientRect (nodes (dom ?s4) (el d)))),
        dragEl := Some (Suc (nextNode (dom ?s4)))\<rparr>"
    by (rule createDraggableElement_item)
  have nn: "nextNode (dom ?s4) = nextNode (dom s)" by (simp add: dom_setCursor)
  have "?A \<and> ?B"
  proof (cases ?c)
    case (Threw e x)
    with rc have "\<not> validClasses (draggingClass d)" by simp
    then show ?thesis
      using assms Threw unfolding beginItemDrag_def Let_def by simp
  next
    case (Returned x)
    with rc have v: "validClasses (draggingClass d)" by simp
    obtain d1 s5 where x: "x = (d1, s5)" by (cases x)
    have d1: "d1 = fst (stateOf ?c)" and s5: "s5 = snd (stateOf ?c)" using Returned x by simp_all
    have ghost: "dragEl d1 = Some (Suc (nextNode (dom s)))" "el d1 = el d" "draggedClass d1 = draggedClass d"
      unfolding d1 item nn by simp_all
    let ?s6 = "s5\<lparr>dom := setStyle (Suc (nextNode (dom s))) ''visibility'' (Keyword ''visible'') (dom s5)\<rparr>"
    let ?a = "addClasses (Some (el d)) (draggedClass d) (dom ?s6)"
    have ra: "returned ?a = validClasses (draggedClass d)" by (rule returned_addClasses)
    have em: "emitted s5 = emitted s" unfolding s5 by simp
    have body: "beginItemDrag d s =
        (case ?a of Threw err d7 \<Rightarrow> Threw err (d1\<lparr>isDragging := True\<rparr>, ?s6\<lparr>dom := d7\<rparr>)
         | Returned d7 \<Rightarrow> Returned (d1\<lparr>isDragging := True\<rparr>,
              ?s6\<lparr>dom := d7, emitted := emitted s @ [Dragging (d1\<lparr>isDragging := True\<rparr>)]\<rparr>))"
      using assms Returned x ghost em unfolding beginItemDrag_def Let_def by (simp split: outcome.splits)
    show ?thesis
    proof (cases ?a)
      case (Threw e d7)
      with ra have "\<not> validClasses (draggedClass d)" by simp
      then show ?thesis
        unfolding body Let_def using Threw v d1 s5 by simp
    next
      case (Returned d7)
      with ra have "validClasses (draggedClass d)" by simp
      then show ?thesis
        unfolding body Let_def using Returned v d1 s5 by simp
    qed
  qed
  then show ?A and ?B by blast+
qed

lemma returned_beginItemDrag:
  "returned (beginItemDrag d s) =
     (isDragging d \<or> validClasses (draggingClass d) \<and> validClasses (draggedClass d))"
  by (cases "isDragging d") (simp_all add: beginItemDrag_dragging beginItemDrag_fresh(2))

lemma beginItemDrag_item:
  "fst (stateOf (beginItemDrag d s)) =
     (if isDragging d then d
      else d\<lparr>pos := Some (rectLeft (boundingClientRect (nodes (dom s) (el d))),
                          rectTop (boundingClientRect (nodes (dom s) (el d)))),
             grabPoint := Some (clientX (mouseDownEvent d) - rectLeft (boundingClientRect (nodes (dom s) (el d))),
                                clientY (mouseDownEvent d) - rectTop (boundingClientRect (nodes (dom s) (el d)))),
             dragEl := Some (Suc (nextNode (dom s))),
             isDragging := validClasses (draggingClass d)\<rparr>)"
  by (cases "isDragging d")
     (simp_all add: beginItemDrag_dragging beginItemDrag_fresh(1) Let_def createDraggableElement_item
        dom_setCursor)

lemma beginItemDrag_frame [simp]:
  "draggables (snd (stateOf (beginItemDrag d s))) = draggables s"
  "lastMousePos (snd (stateOf (beginItemDrag d s))) = lastMousePos s"
  "lastDisplacement (snd (stateOf (beginItemDrag d s))) = lastDisplacement s"
  "viewportRect (snd (stateOf (beginItemDrag d s))) = viewportRect s"
  "viewportElement (snd (stateOf (beginItemDrag d s))) = viewportElement s"
  "viewportMouseMoveSubscription (snd (stateOf (beginItemDrag d s))) = viewportMouseMoveSubscription s"
  "viewportResizeSubscription (snd (stateOf (beginItemDrag d s))) = viewportResizeSubscription s"
  "scrollXInterval (snd (stateOf (beginItemDrag d s))) = scrollXInterval s"
  "scrollYInterval (snd (stateOf (beginItemDrag d s))) = scrollYInterval s"
  "intervals (snd (stateOf (beginItemDrag d s))) = intervals s"
  by (cases "isDragging d"; simp add: beginItemDrag_dragging beginItemDrag_fresh(1) Let_def)+

lemma emitted_beginItemDrag:
  "emitted (snd (stateOf (beginItemDrag d s))) =
     (if \<not> isDragging d \<and> validClasses (draggingClass d) \<and> validClasses (draggedClass d)
      then emitted s @ [Dragging (fst (stateOf (beginItemDrag d s)))] else emitted s)"
  by (cases "isDragging d") (simp_all add: beginItemDrag_dragging beginItemDrag_fresh(1) Let_def)

lemma viewportCursor_beginItemDrag:
  "viewportCursor (snd (stateOf (beginItemDrag d s))) =
     (if isDragging d then viewportCursor s
      else Some (style (nodes (dom s) (viewportElement s)) ''cursor''))"
  by (cases "isDragging d") (simp_all add: beginItemDrag_dragging beginItemDrag_fresh(1) Let_def)

lemma beginItemDrag_dom:
  "nextNode (dom (snd (stateOf (beginItemDrag d s)))) =
     (if isDragging d then nextNode (dom s) else Suc (Suc (nextNode (dom s))))"
  "selectors (dom (snd (stateOf (beginItemDrag d s)))) = selectors (dom s)"
  "parses (dom (snd (stateOf (beginItemDrag d s)))) = parses (dom s)"
  "bodyElement (dom (snd (stateOf (beginItemDrag d s)))) = bodyElement (dom s)"
  "n < nextNode (dom s) \<Longrightarrow>
     boundingClientRect (nodes (dom (snd (stateOf (beginItemDrag d s)))) n) = boundingClientRect (nodes (dom s) n)"
  "n < nextNode (dom s) \<Longrightarrow>
     scrollLeft (nodes (dom (snd (stateOf (beginItemDrag d s)))) n) = scrollLeft (nodes (dom s) n)"
  "n < nextNode (dom s) \<Longrightarrow>
     scrollTop (nodes (dom (snd (stateOf (beginItemDrag d s)))) n) = scrollTop (nodes (dom s) n)"
  "n < nextNode (dom s) \<Longrightarrow>
     children (nodes (dom (snd (stateOf (beginItemDrag d s)))) n) =
       (if \<not> isDragging d \<and> n = viewportElement s \<and> validClasses (draggingClass d)
        then children (nodes (dom s) n) @ [Suc (nextNode (dom s))]
        else children (nodes (dom s) n))"
  "n < nextNode (dom s) \<Longrightarrow>
     style (nodes (dom (snd (stateOf (beginItemDrag d s)))) n) p =
       (if \<not> isDragging d \<and> n = viewportElement s \<and> p = ''cursor'' then Keyword ''-webkit-grabbing''
        else style (nodes (dom s) n) p)"
  by (cases "isDragging d";
      simp add: beginItemDrag_dragging beginItemDrag_fresh(1) Let_def createDraggableElement_dom dom_setCursor)+

subsection \<open>Moving the ghost, and the loop of a sampled move\<close>

lemma moveDraggableElement_Returned:
  "pos d = Some p \<Longrightarrow> grabPoint d = Some g \<Longrightarrow> dragEl d = Some ghost \<Longrightarrow>
   moveDraggableElement d x y s =
     Returned (d\<lparr>pos := Some (x - fst g, y - snd g)\<rparr>,
               s\<lparr>dom := setStyle ghost ''top'' (Px (y - snd g))
                          (setStyle ghost ''left'' (Px (x - fst g)) (dom s))\<rparr>)"
  by (simp add: moveDraggableElement_def)

lemma moveDraggableElement_item:
  "isDragging (fst (stateOf (moveDraggableElement d x y s))) = isDragging d"
  "mouseDownEvent (fst (stateOf (moveDraggableElement d x y s))) = mouseDownEvent d"
  "startThreshold (fst (stateOf (moveDraggableElement d x y s))) = startThreshold d"
  "grabPoint (fst (stateOf (moveDraggableElement d x y s))) = grabPoint d"
  "dragEl (fst (stateOf (moveDraggableElement d x y s))) = dragEl d"
  "el (fst (stateOf (moveDraggableElement d x y s))) = el d"
  "data (fst (stateOf (moveDraggableElement d x y s))) = data d"
  "draggedClass (fst (stateOf (moveDraggableElement d x y s))) = draggedClass d"
  "draggingClass (fst (stateOf (moveDraggableElement d x y s))) = draggingClass d"
  by (simp_all add: moveDraggableElement_def Let_def split: option.splits prod.splits)

lemma moveDraggableElement_frame:
  "draggables (snd (stateOf (moveDraggableElement d x y s))) = draggables s"
  "emitted (snd (stateOf (moveDraggableElement d x y s))) = emitted s"
  "lastMousePos (snd (stateOf (moveDraggableElement d x y s))) = lastMousePos s"
  "lastDisplacement (snd (stateOf (moveDraggableElement d x y s))) = lastDisplacement s"
  "viewportRect (snd (stateOf (moveDraggableElement d x y s))) = viewportRect s"
  "viewportElement (snd (stateOf (moveDraggableElement d x y s))) = viewportElement s"
  "viewportCursor (snd (stateOf (moveDraggableElement d x y s))) = viewportCursor s"
  "viewportMouseMoveSubscription (snd (stateOf (moveDraggableElement d x y s))) = viewportMouseMoveSubscription s"
  "viewportResizeSubscription (snd (stateOf (moveDraggableElement d x y s))) = viewportResizeSubscription s"
  by (simp_all add: moveDraggableElement_def Let_def split: option.splits prod.splits)

lemma moveDraggableElement_dom:
  "nextNode (dom (snd (stateOf (moveDraggableElement d x y s)))) = nextNode (dom s)"
  "children (nodes (dom (snd (stateOf (moveDraggableElement d x y s)))) n) = children (nodes (dom s) n)"
  "style (nodes (dom (snd (stateOf (moveDraggableElement d x y s)))) n) ''cursor'' = style (nodes (dom s) n) ''cursor''"
  "boundingClientRect (nodes (dom (snd (stateOf (moveDraggableElement d x y s)))) n)
     = boundingClientRect (nodes (dom s) n)"
  by (simp_all add: moveDraggableElement_def Let_def split: option.splits prod.splits)

lemma moveRel_refl: "moveRel x y s s"
  by (simp add: moveRel_def)

lemma moveRel_trans:
  assumes "moveRel x y s t" and "moveRel x y t u"
  shows "moveRel x y s u"
  using assms unfolding moveRel_def startThresholdPassed_def by auto

lemma beginBody_frame [simp]:
  "draggables (beginBody i s) = (draggables s)[i := fst (stateOf (beginItemDrag (draggables s ! i) s))]"
  "lastMousePos (beginBody i s) = lastMousePos s"
  "lastDisplacement (beginBody i s) = lastDisplacement s"
  "viewportRect (beginBody i s) = viewportRect s"
  "viewportElement (beginBody i s) = viewportElement s"
  "viewportMouseMoveSubscription (beginBody i s) = viewportMouseMoveSubscription s"
  "viewportResizeSubscription (beginBody i s) = viewportResizeSubscription s"
  "emitted (beginBody i s) = emitted (snd (stateOf (beginItemDrag (draggables s ! i) s)))"
  "viewportCursor (beginBody i s) = viewportCursor (snd (stateOf (beginItemDrag (draggables s ! i) s)))"
  "dom (beginBody i s) = dom (snd (stateOf (beginItemDrag (draggables s ! i) s)))"
  by (simp_all add: beginBody_def Let_def)

lemma moveBody_frame [simp]:
  "lastMousePos (moveBody event i s) = lastMousePos s"
  "lastDisplacement (moveBody event i s) = lastDisplacement s"
  "viewportRect (moveBody event i s) = viewportRect s"
  "viewportElement (moveBody event i s) = viewportElement s"
  "viewportMouseMoveSubscription (moveBody event i s) = viewportMouseMoveSubscription s"
  "viewportResizeSubscription (moveBody event i s) = viewportResizeSubscription s"
  "emitted (moveBody event i s) = emitted (beginBody i s)"
  "viewportCursor (moveBody event i s) = viewportCursor (beginBody i s)"
  by (simp_all add: moveBody_def Let_def moveDraggableElement_frame)

lemma draggables_moveBody:
  "draggables (moveBody event i s) =
     (draggables s)[i := fst (stateOf (moveDraggableElement (draggables (beginBody i s) ! i)
        (clientX event) (clientY event) (beginBody i s)))]"
  by (simp add: moveBody_def Let_def moveDraggableElement_frame)

lemma dom_moveBody:
  "dom (moveBody event i s) =
     dom (snd (stateOf (moveDraggableElement (draggables (beginBody i s) ! i)
        (clientX event) (clientY event) (beginBody i s))))"
  by (simp add: moveBody_def Let_def)

lemma moveLoop_Cons:
  "moveLoop event (i # js) s =
     (if startThresholdPassed (draggables s ! i) (clientX event) (clientY event)
      then (case beginItemDrag (draggables s ! i) s of
              Threw e b \<Rightarrow> Threw e (beginBody i s)
            | Returned b \<Rightarrow>
                (case moveDraggableElement (draggables (beginBody i s) ! i)
                        (clientX event) (clientY event) (beginBody i s) of
                   Threw e m \<Rightarrow> Threw e (moveBody event i s)
                 | Returned m \<Rightarrow> moveLoop event js (moveBody event i s)))
      else moveLoop event js s)"
  by (simp add: moveBody_def beginBody_def Let_def split_def split: outcome.splits)

declare moveLoop.simps(2) [simp del]

lemma moveLoop_stateOf:
  "stateOf (moveLoop event (i # js) s) =
     (if startThresholdPassed (draggables s ! i) (clientX event) (clientY event)
      then (if \<not> returned (beginItemDrag (draggables s ! i) s) then beginBody i s
            else if \<not> returned (moveDraggableElement (draggables (beginBody i s) ! i)
                        (clientX event) (clientY event) (beginBody i s))
            then moveBody event i s
            else stateOf (moveLoop event js (moveBody event i s)))
      else stateOf (moveLoop event js s))"
  by (simp add: moveLoop_Cons split: outcome.splits)

lemma moveRel_beginBody:
  assumes passed: "startThresholdPassed (draggables s ! i) (clientX event) (clientY event)"
  shows "moveRel (clientX event) (clientY event) s (beginBody i s)"
proof -
  define b where "b = fst (stateOf (beginItemDrag (draggables s ! i) s))"
  have upd: "draggables (beginBody i s) = (draggables s)[i := b]"
    by (simp add: b_def)
  have b_fields: "mouseDownEvent b = mouseDownEvent (draggables s ! i)"
    "startThreshold b = startThreshold (draggables s ! i)"
    "isDragging (draggables s ! i) \<longrightarrow> isDragging b"
    "isDragging (draggables s ! i) \<longrightarrow> grabPoint b = grabPoint (draggables s ! i)"
    by (simp_all add: b_def beginItemDrag_item)
  show ?thesis
    unfolding moveRel_def upd
  proof (intro conjI allI impI)
    show "length ((draggables s)[i := b]) = length (draggables s)" by simp
  next
    fix j assume j: "j < length (draggables s)"
    show "mouseDownEvent ((draggables s)[i := b] ! j) = mouseDownEvent (draggables s ! j)"
      using j b_fields by (cases "i = j") simp_all
    show "startThreshold ((draggables s)[i := b] ! j) = startThreshold (draggables s ! j)"
      using j b_fields by (cases "i = j") simp_all
    show "isDragging ((draggables s)[i := b] ! j)" if "isDragging (draggables s ! j)"
      using j b_fields that by (cases "i = j") simp_all
    show "grabPoint ((draggables s)[i := b] ! j) = grabPoint (draggables s ! j)" if "isDragging (draggables s ! j)"
      using j b_fields that by (cases "i = j") simp_all
    show "isDragging (draggables s ! j) \<or> startThresholdPassed (draggables s ! j) (clientX event) (clientY event)"
      if "isDragging ((draggables s)[i := b] ! j)"
      using j passed that by (cases "i = j") simp_all
  qed
qed

lemma moveRel_moveBody:
  assumes passed: "startThresholdPassed (draggables s ! i) (clientX event) (clientY event)"
  shows "moveRel (clientX event) (clientY event) s (moveBody event i s)"
proof -
  define t where "t = beginBody i s"
  define m where "m = fst (stateOf (moveDraggableElement (draggables t ! i) (clientX event) (clientY event) t))"
  have st: "moveRel (clientX event) (clientY event) s t"
    unfolding t_def by (rule moveRel_beginBody [OF passed])
  have len: "length (draggables t) = length (draggables s)" by (simp add: t_def)
  have upd: "draggables (moveBody event i s) = (draggables t)[i := m]"
    by (simp add: draggables_moveBody m_def t_def)
  have m_fields: "mouseDownEvent m = mouseDownEvent (draggables t ! i)"
    "startThreshold m = startThreshold (draggables t ! i)"
    "isDragging m = isDragging (draggables t ! i)"
    "grabPoint m = grabPoint (draggables t ! i)"
    by (simp_all add: m_def moveDraggableElement_item)
  have same: "mouseDownEvent ((draggables t)[i := m] ! j) = mouseDownEvent (draggables t ! j)"
    "startThreshold ((draggables t)[i := m] ! j) = startThreshold (draggables t ! j)"
    "isDragging ((draggables t)[i := m] ! j) = isDragging (draggables t ! j)"
    "grabPoint ((draggables t)[i := m] ! j) = grabPoint (draggables t ! j)"
    if "j < length (draggables t)" for j
    using that m_fields by (cases "i = j"; simp)+
  have "moveRel (clientX event) (clientY event) t (moveBody event i s)"
    unfolding moveRel_def upd using same by simp
  with st show ?thesis by (rule moveRel_trans)
qed

lemma moveRel_moveLoop:
  "moveRel (clientX event) (clientY event) s (stateOf (moveLoop event js s))"
proof (induction js arbitrary: s)
  case Nil
  show ?case by (simp add: moveRel_refl)
next
  case (Cons i js)
  show ?case
  proof (cases "startThresholdPassed (draggables s ! i) (clientX event) (clientY event)")
    case False
    then show ?thesis using Cons.IH [of s] by (simp add: moveLoop_stateOf)
  next
    case True
    note b = moveRel_beginBody [OF True] and m = moveRel_moveBody [OF True]
    show ?thesis
      using b m moveRel_trans [OF m Cons.IH [of "moveBody event i s"]] True
      by (simp add: moveLoop_stateOf)
  qed
qed

subsection \<open>The viewport, activation and registration\<close>

lemma returned_setViewportElement:
  "returned (setViewportElement sel s) =
     (case querySelector (case sel of None \<Rightarrow> ''undefined'' | Some q \<Rightarrow> q) (dom s) of
        Inl err \<Rightarrow> False | Inr found \<Rightarrow> True)"
  by (simp add: setViewportElement_def Let_def split: sum.splits)

lemma setViewportElement_absent [simp]: "returned (setViewportElement None s)"
  by (simp add: returned_setViewportElement querySelector_word)

lemma setViewportElement_empty [simp]: "setViewportElement (Some []) s = Threw SyntaxError s"
  by (simp add: setViewportElement_def querySelector_def)

lemma setViewportElement_Threw:
  "\<not> returned (setViewportElement sel s) \<Longrightarrow> stateOf (setViewportElement sel s) = s"
  by (simp add: setViewportElement_def Let_def split: sum.splits)

lemma setViewportElement_frame [simp]:
  "draggables (stateOf (setViewportElement sel s)) = draggables s"
  "emitted (stateOf (setViewportElement sel s)) = emitted s"
  "dom (stateOf (setViewportElement sel s)) = dom s"
  "viewportCursor (stateOf (setViewportElement sel s)) = viewportCursor s"
  "intervals (stateOf (setViewportElement sel s)) = intervals s"
  "nextInterval (stateOf (setViewportElement sel s)) = nextInterval s"
  "scrollXInterval (stateOf (setViewportElement sel s)) = scrollXInterval s"
  "scrollYInterval (stateOf (setViewportElement sel s)) = scrollYInterval s"
  "nextSubscription (stateOf (setViewportElement sel s)) = nextSubscription s"
  "subscriptions (stateOf (setViewportElement sel s)) = subscriptions s"
  "oneShots (stateOf (setViewportElement sel s)) = oneShots s"
  by (simp_all add: setViewportElement_def Let_def split: sum.splits)

lemma viewportElement_setViewportElement:
  "returned (setViewportElement sel s) \<Longrightarrow>
   viewportElement (stateOf (setViewportElement sel s)) =
     (case selectors (dom s) (case sel of None \<Rightarrow> ''undefined'' | Some q \<Rightarrow> q) of
        None \<Rightarrow> bodyElement (dom s) | Some n \<Rightarrow> n)"
  "returned (setViewportElement sel s) \<Longrightarrow>
   viewportRect (stateOf (setViewportElement sel s)) =
     boundingClientRect (nodes (dom s) (viewportElement (stateOf (setViewportElement sel s))))"
  by (auto simp add: setViewportElement_def Let_def querySelector_def split: sum.splits if_splits)

lemma activate_frame [simp]:
  "draggables (activate s) = draggables s"
  "emitted (activate s) = emitted s"
  "dom (activate s) = dom s"
  "viewportCursor (activate s) = viewportCursor s"
  "viewportElement (activate s) = viewportElement s"
  "intervals (activate s) = intervals s"
  "nextInterval (activate s) = nextInterval s"
  "scrollXInterval (activate s) = scrollXInterval s"
  "scrollYInterval (activate s) = scrollYInterval s"
  "lastMousePos (activate s) = (None, None)"
  "lastDisplacement (activate s) = (None, None)"
  "viewportRect (activate s) = boundingClientRect (nodes (dom s) (viewportElement s))"
  "viewportMouseMoveSubscription (activate s) = Some (nextSubscription s)"
  "viewportResizeSubscription (activate s) = Some (Suc (nextSubscription s))"
  "nextSubscription (activate s) = Suc (Suc (nextSubscription s))"
  by (simp_all add: activate_def dragStart_def subscribe_def Let_def)

lemma registerDraggable_stateOf:
  "stateOf (registerDraggable event e payload sel c1 c2 th s) =
     (if returned (setViewportElement sel s)
      then activate ((stateOf (setViewportElement sel s))
             \<lparr>draggables := draggables s @ [newDraggableItem event e payload c1 c2 th]\<rparr>)
      else s)"
  "returned (registerDraggable event e payload sel c1 c2 th s) = returned (setViewportElement sel s)"
proof -
  have "stateOf (registerDraggable event e payload sel c1 c2 th s) =
     (if returned (setViewportElement sel s)
      then activate ((stateOf (setViewportElement sel s))
             \<lparr>draggables := draggables s @ [newDraggableItem event e payload c1 c2 th]\<rparr>)
      else s)
   \<and> returned (registerDraggable event e payload sel c1 c2 th s) = returned (setViewportElement sel s)"
  proof (cases "setViewportElement sel s")
    case (Returned s1)
    have "draggables (stateOf (setViewportElement sel s)) = draggables s" by simp
    with Returned have "draggables s1 = draggables s" by simp
    with Returned show ?thesis by (simp add: registerDraggable_def Let_def)
  next
    case (Threw err s1)
    then have "\<not> returned (setViewportElement sel s)" by simp
    then have "stateOf (setViewportElement sel s) = s" by (rule setViewportElement_Threw)
    with Threw have "s1 = s" by simp
    with Threw show ?thesis by (simp add: registerDraggable_def)
  qed
  then show "stateOf (registerDraggable event e payload sel c1 c2 th s) =
     (if returned (setViewportElement sel s)
      then activate ((stateOf (setViewportElement sel s))
             \<lparr>draggables := draggables s @ [newDraggableItem event e payload c1 c2 th]\<rparr>)
      else s)"
    and "returned (registerDraggable event e payload sel c1 c2 th s) = returned (setViewportElement sel s)"
    by blast+
qed

lemma registerDraggable_frame:
  assumes "returned (registerDraggable event e payload sel c1 c2 th s)"
  shows "draggables (stateOf (registerDraggable event e payload sel c1 c2 th s)) =
     draggables s @ [newDraggableItem event e payload c1 c2 th]"
  "emitted (stateOf (registerDraggable event e payload sel c1 c2 th s)) = emitted s"
  "dom (stateOf (registerDraggable event e payload sel c1 c2 th s)) = dom s"
  "viewportCursor (stateOf (registerDraggable event e payload sel c1 c2 th s)) = viewportCursor s"
  "viewportElement (stateOf (registerDraggable event e payload sel c1 c2 th s)) =
     viewportElement (stateOf (setViewportElement sel s))"
  "intervals (stateOf (registerDraggable event e payload sel c1 c2 th s)) = intervals s"
  "nextInterval (stateOf (registerDraggable event e payload sel c1 c2 th s)) = nextInterval s"
  "scrollXInterval (stateOf (registerDraggable event e payload sel c1 c2 th s)) = scrollXInterval s"
  "scrollYInterval (stateOf (registerDraggable event e payload sel c1 c2 th s)) = scrollYInterval s"
  "lastMousePos (stateOf (registerDraggable event e payload sel c1 c2 th s)) = (None, None)"
  "lastDisplacement (stateOf (registerDraggable event e payload sel c1 c2 th s)) = (None, None)"
  "viewportRect (stateOf (registerDraggable event e payload sel c1 c2 th s)) =
     boundingClientRect (nodes (dom s) (viewportElement (stateOf (setViewportElement sel s))))"
  "viewportMouseMoveSubscription (stateOf (registerDraggable event e payload sel c1 c2 th s)) = Some (nextSubscription s)"
  "viewportResizeSubscription (stateOf (registerDraggable event e payload sel c1 c2 th s)) = Some (Suc (nextSubscription s))"
  "nextSubscription (stateOf (registerDraggable event e payload sel c1 c2 th s)) = Suc (Suc (nextSubscription s))"
  using assms by (simp_all add: registerDraggable_stateOf)

lemma registerDraggable_Threw:
  "\<not> returned (registerDraggable event e payload sel c1 c2 th s) \<Longrightarrow>
   stateOf (registerDraggable event e payload sel c1 c2 th s) = s"
  by (simp add: registerDraggable_stateOf)

lemma registerDraggable_absent [simp]:
  "returned (registerDraggable event e payload None c1 c2 th s)"
  by (simp add: registerDraggable_stateOf)

lemma newDragDropService_frame [simp]:
  "draggables (newDragDropService d) = []"
  "emitted (newDragDropService d) = []"
  "dom (newDragDropService d) = d"
  "viewportCursor (newDragDropService d) = None"
  "intervals (newDragDropService d) = []"
  "nextInterval (newDragDropService d) = 0"
  "scrollXInterval (newDragDropService d) = None"
  "scrollYInterval (newDragDropService d) = None"
  "nextSubscription (newDragDropService d) = 0"
  "viewportElement (newDragDropService d) =
     (case selectors d ''body'' of None \<Rightarrow> bodyElement d | Some n \<Rightarrow> n)"
  "viewportRect (newDragDropService d) =
     boundingClientRect (nodes d (case selectors d ''body'' of None \<Rightarrow> bodyElement d | Some n \<Rightarrow> n))"
  by (simp_all add: newDragDropService_def setViewportElement_def querySelector_word Let_def
        split: option.splits)

text \<open>The three ways a sampled move can go.\<close>

lemma onViewportMouseMove_outside:
  "isMouseOutsideViewport s (clientX event) (clientY event) \<Longrightarrow>
   onViewportMouseMove event s = Returned (scrollViewportAsNeeded (clientX event) (clientY event) s)"
  by (simp add: onViewportMouseMove_def isMouseOutsideViewport_def Let_def)

lemma onViewportMouseMove_still:
  "\<not> isMouseOutsideViewport s (clientX event) (clientY event) \<Longrightarrow>
   minusOrZero (fst (lastMousePos s)) (clientX event) = 0 \<Longrightarrow>
   minusOrZero (snd (lastMousePos s)) (clientY event) = 0 \<Longrightarrow>
   onViewportMouseMove event s =
     Returned ((scrollViewportAsNeeded (clientX event) (clientY event) s)
                 \<lparr>lastDisplacement := (Some 0, Some 0),
                  lastMousePos := (Some (clientX event), Some (clientY event))\<rparr>)"
  by (simp add: onViewportMouseMove_def isMouseOutsideViewport_def Let_def)

lemma onViewportMouseMove_moved:
  "\<not> isMouseOutsideViewport s (clientX event) (clientY event) \<Longrightarrow>
   minusOrZero (fst (lastMousePos s)) (clientX event) \<noteq> 0
     \<or> minusOrZero (snd (lastMousePos s)) (clientY event) \<noteq> 0 \<Longrightarrow>
   onViewportMouseMove event s =
     moveLoop event [0..<length (draggables s)]
       ((scrollViewportAsNeeded (clientX event) (clientY event) s)
          \<lparr>lastDisplacement := (Some (minusOrZero (fst (lastMousePos s)) (clientX event)),
                                 Some (minusOrZero (snd (lastMousePos s)) (clientY event))),
           lastMousePos := (Some (clientX event), Some (clientY event))\<rparr>)"
  by (auto simp add: onViewportMouseMove_def isMouseOutsideViewport_def Let_def)

lemma moveRel_onViewportMouseMove:
  "moveRel (clientX event) (clientY event) s (stateOf (onViewportMouseMove event s))"
proof -
  have frame: "moveRel (clientX event) (clientY event) s (t\<lparr>lastDisplacement := a, lastMousePos := b\<rparr>)"
    if "draggables t = draggables s" for t :: "'a DragDropService" and a b
    using that by (simp add: moveRel_def)
  consider (outside) "isMouseOutsideViewport s (clientX event) (clientY event)"
    | (still) "\<not> isMouseOutsideViewport s (clientX event) (clientY event)"
        "minusOrZero (fst (lastMousePos s)) (clientX event) = 0"
        "minusOrZero (snd (lastMousePos s)) (clientY event) = 0"
    | (moved) "\<not> isMouseOutsideViewport s (clientX event) (clientY event)"
        "minusOrZero (fst (lastMousePos s)) (clientX event) \<noteq> 0
         \<or> minusOrZero (snd (lastMousePos s)) (clientY event) \<noteq> 0"
    by blast
  then show ?thesis
  proof cases
    case outside
    then show ?thesis by (simp add: onViewportMouseMove_outside moveRel_def)
  next
    case still
    then show ?thesis by (simp add: onViewportMouseMove_still moveRel_def)
  next
    case moved
    let ?t = "(scrollViewportAsNeeded (clientX event) (clientY event) s)
          \<lparr>lastDisplacement := (Some (minusOrZero (fst (lastMousePos s)) (clientX event)),
                                 Some (minusOrZero (snd (lastMousePos s)) (clientY event))),
           lastMousePos := (Some (clientX event), Some (clientY event))\<rparr>"
    have "moveRel (clientX event) (clientY event) s ?t" by (rule frame) simp
    moreover have "moveRel (clientX event) (clientY event) ?t
        (stateOf (moveLoop event [0..<length (draggables s)] ?t))"
      by (rule moveRel_moveLoop)
    ultimately show ?thesis
      using moved by (simp add: onViewportMouseMove_moved moveRel_trans)
  qed
qed

lemma moveLoop_skip:
  "\<not> startThresholdPassed (draggables s ! i) (clientX event) (clientY event) \<Longrightarrow>
   moveLoop event (i # js) s = moveLoop event js s"
  by (simp add: moveLoop_Cons)

text \<open>A record whose threshold is passed and whose classes are accepted: the loop goes on
  from the state after the body, whether the record was dragging (with its ghost) or not.\<close>

lemma moveLoop_begin:
  "startThresholdPassed (draggables s ! i) (clientX event) (clientY event) \<Longrightarrow>
   \<not> isDragging (draggables s ! i) \<Longrightarrow> i < length (draggables s) \<Longrightarrow>
   validClasses (draggingClass (draggables s ! i)) \<Longrightarrow> validClasses (draggedClass (draggables s ! i)) \<Longrightarrow>
   moveLoop event (i # js) s = moveLoop event js (moveBody event i s)"
proof -
  assume a: "startThresholdPassed (draggables s ! i) (clientX event) (clientY event)"
    "\<not> isDragging (draggables s ! i)" "i < length (draggables s)"
    "validClasses (draggingClass (draggables s ! i))" "validClasses (draggedClass (draggables s ! i))"
  have r: "returned (beginItemDrag (draggables s ! i) s)"
    using a by (simp add: returned_beginItemDrag)
  then obtain b where b: "beginItemDrag (draggables s ! i) s = Returned b"
    by (cases "beginItemDrag (draggables s ! i) s") simp_all
  have m: "returned (moveDraggableElement (draggables (beginBody i s) ! i)
                        (clientX event) (clientY event) (beginBody i s))"
    using a by (simp add: beginItemDrag_item moveDraggableElement_def)
  then obtain m' where m': "moveDraggableElement (draggables (beginBody i s) ! i)
                        (clientX event) (clientY event) (beginBody i s) = Returned m'"
    by (cases "moveDraggableElement (draggables (beginBody i s) ! i)
                        (clientX event) (clientY event) (beginBody i s)") simp_all
  show ?thesis
    using a(1) b m' by (simp add: moveLoop_Cons)
qed

lemma moveLoop_single:
  "startThresholdPassed (draggables s ! i) (clientX event) (clientY event) \<Longrightarrow>
   \<not> isDragging (draggables s ! i) \<Longrightarrow> i < length (draggables s) \<Longrightarrow>
   validClasses (draggingClass (draggables s ! i)) \<Longrightarrow> validClasses (draggedClass (draggables s ! i)) \<Longrightarrow>
   moveLoop event [i] s = Returned (moveBody event i s)"
  by (simp add: moveLoop_begin)

lemma moveBody_dom:
  "nextNode (dom (moveBody event i s)) =
     (if isDragging (draggables s ! i) then nextNode (dom s) else Suc (Suc (nextNode (dom s))))"
  "n < nextNode (dom s) \<Longrightarrow>
     style (nodes (dom (moveBody event i s)) n) ''cursor'' =
       (if \<not> isDragging (draggables s ! i) \<and> n = viewportElement s then Keyword ''-webkit-grabbing''
        else style (nodes (dom s) n) ''cursor'')"
  "n < nextNode (dom s) \<Longrightarrow>
     children (nodes (dom (moveBody event i s)) n) =
       (if \<not> isDragging (draggables s ! i) \<and> n = viewportElement s
            \<and> validClasses (draggingClass (draggables s ! i))
        then children (nodes (dom s) n) @ [Suc (nextNode (dom s))]
        else children (nodes (dom s) n))"
  "n < nextNode (dom s) \<Longrightarrow>
     boundingClientRect (nodes (dom (moveBody event i s)) n) = boundingClientRect (nodes (dom s) n)"
  by (simp_all add: dom_moveBody moveDraggableElement_dom beginItemDrag_dom)

subsection \<open>Ending a drag, and the loop of \<open>dragStop\<close>\<close>

lemma endItemDrag_frame [simp]:
  "draggables (snd (endItemDrag d c s)) = draggables s"
  "dom (snd (endItemDrag d c s)) = dom s"
  "viewportElement (snd (endItemDrag d c s)) = viewportElement s"
  "viewportCursor (snd (endItemDrag d c s)) = viewportCursor s"
  "lastMousePos (snd (endItemDrag d c s)) = lastMousePos s"
  by (simp_all add: endItemDrag_def Let_def)

lemma emitted_endItemDrag:
  "emitted (snd (endItemDrag d c s)) =
     (if isDragging d then emitted s @ [Dropping (d\<lparr>isDragging := False, cancelled := c\<rparr>)] else emitted s)"
  by (simp add: endItemDrag_def Let_def)

lemma fst_endItemDrag:
  "fst (endItemDrag d c s) = (if isDragging d then d\<lparr>isDragging := False, cancelled := c\<rparr> else d)"
  by (simp add: endItemDrag_def Let_def)

lemma destroyDraggableElement_frame [simp]:
  "draggables (snd (stateOf (destroyDraggableElement d s))) = draggables s"
  "emitted (snd (stateOf (destroyDraggableElement d s))) = emitted s"
  "viewportElement (snd (stateOf (destroyDraggableElement d s))) = viewportElement s"
  "viewportCursor (snd (stateOf (destroyDraggableElement d s))) = viewportCursor s"
  "isDragging (fst (stateOf (destroyDraggableElement d s))) = isDragging d"
  "style (nodes (dom (snd (stateOf (destroyDraggableElement d s)))) n) = style (nodes (dom s) n)"
  by (simp_all add: destroyDraggableElement_def removeChild_def split: option.splits)

lemma returned_destroyDraggableElement:
  "returned (destroyDraggableElement d s) =
     (case dragEl d of None \<Rightarrow> True
      | Some g \<Rightarrow> g \<in> set (children (nodes (dom s) (viewportElement s))))"
  by (simp add: destroyDraggableElement_def removeChild_def split: option.splits)

lemma children_destroyDraggableElement:
  "children (nodes (dom (snd (stateOf (destroyDraggableElement d s)))) n) =
     (case dragEl d of None \<Rightarrow> children (nodes (dom s) n)
      | Some g \<Rightarrow> if n = viewportElement s then remove1 g (children (nodes (dom s) n))
                  else children (nodes (dom s) n))"
  by (simp add: destroyDraggableElement_def removeChild_def remove1_idem split: option.splits)

lemma endBody_frame [simp]:
  "draggables (endBody c i s) = (draggables s)[i := fst (endItemDrag (draggables s ! i) c s)]"
  "emitted (endBody c i s) = emitted (snd (endItemDrag (draggables s ! i) c s))"
  "viewportElement (endBody c i s) = viewportElement s"
  "viewportCursor (endBody c i s) = viewportCursor s"
  "children (nodes (dom (endBody c i s)) n) = children (nodes (dom s) n)"
  "style (nodes (dom (endBody c i s)) n) = style (nodes (dom s) n)"
  by (simp_all add: endBody_def Let_def)

lemma stopBody_frame [simp]:
  "length (draggables (stopBody c i s)) = length (draggables s)"
  "j \<noteq> i \<Longrightarrow> draggables (stopBody c i s) ! j = draggables s ! j"
  "viewportElement (stopBody c i s) = viewportElement s"
  "viewportCursor (stopBody c i s) = viewportCursor s"
  "emitted (stopBody c i s) = emitted (endBody c i s)"
  "style (nodes (dom (stopBody c i s)) n) = style (nodes (dom s) n)"
  by (simp_all add: stopBody_def Let_def)

lemma emitted_stopBody:
  "emitted (endBody c i s) =
     (if isDragging (draggables s ! i)
      then emitted s @ [Dropping ((draggables s ! i)\<lparr>isDragging := False, cancelled := c\<rparr>)]
      else emitted s)"
  by (simp add: emitted_endItemDrag)

lemma dragStopLoop_Cons:
  "dragStopLoop c (i # js) s =
     (case removeClasses (Some (el (draggables (putItem i (fst (endItemDrag (draggables s ! i) c s))
                                                  (snd (endItemDrag (draggables s ! i) c s))) ! i)))
             (draggedClass (draggables (putItem i (fst (endItemDrag (draggables s ! i) c s))
                                                  (snd (endItemDrag (draggables s ! i) c s))) ! i))
             (dom s) of
        Threw e d3 \<Rightarrow> Threw e (endBody c i s)
      | Returned d3 \<Rightarrow>
          (case destroyDraggableElement (draggables (endBody c i s) ! i) (endBody c i s) of
             Threw e m \<Rightarrow> Threw e (stopBody c i s)
           | Returned m \<Rightarrow> dragStopLoop c js (stopBody c i s)))"
  by (simp add: stopBody_def endBody_def Let_def split_def split: outcome.splits)

declare dragStopLoop.simps(2) [simp del]

text \<open>Whether the two fallible steps of the body complete for record \<open>i\<close>.\<close>

lemma dragStopLoop_step:
  "stateOf (dragStopLoop c (i # js) s) =
     (if \<not> returned (removeClasses (Some (el (draggables (endBody c i s) ! i)))
                        (draggedClass (draggables (endBody c i s) ! i)) (dom s))
      then endBody c i s
      else if \<not> returned (destroyDraggableElement (draggables (endBody c i s) ! i) (endBody c i s))
      then stopBody c i s
      else stateOf (dragStopLoop c js (stopBody c i s)))"
  "returned (dragStopLoop c (i # js) s) =
     (returned (removeClasses (Some (el (draggables (endBody c i s) ! i)))
                        (draggedClass (draggables (endBody c i s) ! i)) (dom s))
      \<and> returned (destroyDraggableElement (draggables (endBody c i s) ! i) (endBody c i s))
      \<and> returned (dragStopLoop c js (stopBody c i s)))"
  by (simp_all add: dragStopLoop_Cons split: outcome.splits)

lemma dragStopLoop_frame [simp]:
  "viewportCursor (stateOf (dragStopLoop c js s)) = viewportCursor s"
  "viewportElement (stateOf (dragStopLoop c js s)) = viewportElement s"
  "style (nodes (dom (stateOf (dragStopLoop c js s))) n) = style (nodes (dom s) n)"
  by (induction js arbitrary: s; simp add: dragStopLoop_step)+

lemma emitted_dragStopLoop:
  assumes "distinct js"
  shows "\<exists>n \<le> length js.
           emitted (stateOf (dragStopLoop c js s)) =
             emitted s @ map (\<lambda>i. Dropping ((draggables s ! i)\<lparr>isDragging := False, cancelled := c\<rparr>))
                            (filter (\<lambda>i. isDragging (draggables s ! i)) (take n js))
           \<and> (returned (dragStopLoop c js s) \<longrightarrow> n = length js)
           \<and> (js \<noteq> [] \<longrightarrow> 0 < n)"
  using assms
proof (induction js arbitrary: s)
  case Nil
  show ?case by simp
next
  case (Cons i js)
  let ?F = "\<lambda>t i. Dropping ((draggables t ! i)\<lparr>isDragging := False, cancelled := c\<rparr>)"
  let ?P = "\<lambda>t i. isDragging (draggables t ! i)"
  have head: "emitted (endBody c i s) = emitted s @ map (?F s) (filter (?P s) [i])"
    by (simp add: emitted_endItemDrag)
  show ?case
  proof (cases "returned (removeClasses (Some (el (draggables (endBody c i s) ! i)))
                        (draggedClass (draggables (endBody c i s) ! i)) (dom s))
      \<and> returned (destroyDraggableElement (draggables (endBody c i s) ! i) (endBody c i s))")
    case False
    then have "emitted (stateOf (dragStopLoop c (i # js) s)) = emitted (endBody c i s)"
      and "\<not> returned (dragStopLoop c (i # js) s)"
      by (auto simp add: dragStopLoop_step)
    then have "emitted (stateOf (dragStopLoop c (i # js) s)) =
                 emitted s @ map (?F s) (filter (?P s) (take 1 (i # js)))
               \<and> (returned (dragStopLoop c (i # js) s) \<longrightarrow> 1 = length (i # js))
               \<and> (i # js \<noteq> [] \<longrightarrow> 0 < (1::nat))"
      using head by simp
    then show ?thesis
      by (intro exI [of _ 1]) simp
  next
    case True
    then have step: "stateOf (dragStopLoop c (i # js) s) = stateOf (dragStopLoop c js (stopBody c i s))"
      and rstep: "returned (dragStopLoop c (i # js) s) = returned (dragStopLoop c js (stopBody c i s))"
      by (simp_all add: dragStopLoop_step)
    from Cons.prems have dist: "distinct js" and notin: "i \<notin> set js" by simp_all
    from Cons.IH [OF dist, of "stopBody c i s"] obtain n where n: "n \<le> length js"
      and em: "emitted (stateOf (dragStopLoop c js (stopBody c i s))) =
                 emitted (stopBody c i s) @ map (?F (stopBody c i s)) (filter (?P (stopBody c i s)) (take n js))"
      and ret: "returned (dragStopLoop c js (stopBody c i s)) \<longrightarrow> n = length js"
      by blast
    have same: "draggables (stopBody c i s) ! j = draggables s ! j" if "j \<in> set (take n js)" for j
    proof -
      from that have "j \<in> set js" by (rule in_set_takeD)
      with notin have "j \<noteq> i" by blast
      then show ?thesis by simp
    qed
    have flt: "filter (?P (stopBody c i s)) (take n js) = filter (?P s) (take n js)"
      by (rule filter_cong) (simp_all add: same)
    have mp: "map (?F (stopBody c i s)) (filter (?P s) (take n js)) = map (?F s) (filter (?P s) (take n js))"
      by (rule map_cong) (simp_all add: same)
    have "emitted (stateOf (dragStopLoop c (i # js) s)) =
            emitted s @ map (?F s) (filter (?P s) (take (Suc n) (i # js)))"
      using em head by (simp add: step flt mp)
    moreover have "returned (dragStopLoop c (i # js) s) \<longrightarrow> Suc n = length (i # js)"
      using ret by (simp add: rstep)
    moreover have "Suc n \<le> length (i # js)" using n by simp
    ultimately show ?thesis by blast
  qed
qed

lemma index_list_conv:
  assumes "n \<le> length xs"
  shows "map (\<lambda>i. G (xs ! i)) (filter (\<lambda>i. P (xs ! i)) (take n [0..<length xs])) =
         map G (filter P (take n xs))"
proof -
  have t: "take n [0..<length xs] = [0..<n]" using assms by (simp add: take_upt)
  have m: "map ((!) xs) [0..<n] = take n xs"
    using assms by (intro nth_equalityI) simp_all
  have "map G (filter P (take n xs)) = map G (filter P (map ((!) xs) [0..<n]))"
    by (simp only: m)
  also have "\<dots> = map (\<lambda>i. G (xs ! i)) (filter (\<lambda>i. P (xs ! i)) [0..<n])"
    by (simp add: filter_map comp_def)
  finally show ?thesis by (simp add: t)
qed

lemma unsubscribe_frame [simp]:
  "draggables (unsubscribe i s) = draggables s"
  "emitted (unsubscribe i s) = emitted s"
  "dom (unsubscribe i s) = dom s"
  "viewportElement (unsubscribe i s) = viewportElement s"
  "viewportCursor (unsubscribe i s) = viewportCursor s"
  "viewportMouseMoveSubscription (unsubscribe i s) = viewportMouseMoveSubscription s"
  "viewportResizeSubscription (unsubscribe i s) = viewportResizeSubscription s"
  by (simp_all add: unsubscribe_def)

lemma clearScrollIntervals_frame [simp]:
  "draggables (clearScrollIntervals s) = draggables s"
  "emitted (clearScrollIntervals s) = emitted s"
  "dom (clearScrollIntervals s) = dom s"
  "viewportElement (clearScrollIntervals s) = viewportElement s"
  "viewportCursor (clearScrollIntervals s) = viewportCursor s"
  "viewportMouseMoveSubscription (clearScrollIntervals s) = viewportMouseMoveSubscription s"
  "viewportResizeSubscription (clearScrollIntervals s) = viewportResizeSubscription s"
  by (simp_all add: clearScrollIntervals_def clearInterval_def split: option.splits)

text \<open>A deactivation in a state where both subscriptions exist.\<close>

lemma deactivate_subscribed:
  assumes "viewportMouseMoveSubscription s = Some m" and "viewportResizeSubscription s = Some r"
  shows "deactivate c s =
     (case dragStopLoop c [0..<length (draggables s)] (unsubscribe r (unsubscribe m s)) of
        Threw e s1 \<Rightarrow> Threw e s1
      | Returned s1 \<Rightarrow> Returned (clearScrollIntervals ((setCursor (viewportCursor s1) s1)\<lparr>draggables := []\<rparr>)))"
  using assms by (simp add: deactivate_def dragStop_def Let_def split: outcome.splits)

lemma deactivate_unsubscribed:
  "viewportMouseMoveSubscription s = None \<or> viewportResizeSubscription s = None \<Longrightarrow>
   \<not> returned (deactivate c s) \<and> emitted (stateOf (deactivate c s)) = emitted s
   \<and> draggables (stateOf (deactivate c s)) = draggables s \<and> dom (stateOf (deactivate c s)) = dom s"
  by (auto simp add: deactivate_def Let_def split: option.splits)

text \<open>What a deactivation broadcasts: a ``dropping'' for the dragging records, in order, up to
  the point it got to: for all of them when it returns, and at least up to the first record
  when the subscriptions exist.\<close>

lemma emitted_deactivate:
  "\<exists>n \<le> length (draggables s).
     emitted (stateOf (deactivate c s)) =
       emitted s @ map (\<lambda>d. Dropping (d\<lparr>isDragging := False, cancelled := c\<rparr>))
                      (filter isDragging (take n (draggables s)))
     \<and> (returned (deactivate c s) \<longrightarrow> n = length (draggables s))
     \<and> (viewportMouseMoveSubscription s \<noteq> None \<and> viewportResizeSubscription s \<noteq> None
          \<and> draggables s \<noteq> [] \<longrightarrow> 0 < n)"
proof (cases "viewportMouseMoveSubscription s = None \<or> viewportResizeSubscription s = None")
  case True
  from deactivate_unsubscribed [OF this, of c] show ?thesis
    using True by (intro exI [of _ 0]) auto
next
  case False
  then obtain m r where m: "viewportMouseMoveSubscription s = Some m"
    and r: "viewportResizeSubscription s = Some r" by auto
  let ?u = "unsubscribe r (unsubscribe m s)"
  let ?loop = "dragStopLoop c [0..<length (draggables s)] ?u"
  have "distinct [0..<length (draggables s)]" by simp
  from emitted_dragStopLoop [OF this, of c ?u]
  obtain n where n0: "n \<le> length [0..<length (draggables s)]"
    and em: "emitted (stateOf ?loop) =
      emitted ?u @ map (\<lambda>i. Dropping ((draggables ?u ! i)\<lparr>isDragging := False, cancelled := c\<rparr>))
                     (filter (\<lambda>i. isDragging (draggables ?u ! i)) (take n [0..<length (draggables s)]))"
    and ret: "returned ?loop \<longrightarrow> n = length [0..<length (draggables s)]"
    and pos: "[0..<length (draggables s)] \<noteq> [] \<longrightarrow> 0 < n"
    by blast
  from n0 have n: "n \<le> length (draggables s)" by simp
  have conv: "emitted (stateOf ?loop) =
      emitted s @ map (\<lambda>d. Dropping (d\<lparr>isDragging := False, cancelled := c\<rparr>))
                     (filter isDragging (take n (draggables s)))"
    unfolding em
    using index_list_conv [OF n, of "\<lambda>d. Dropping (d\<lparr>isDragging := False, cancelled := c\<rparr>)" isDragging]
    by (simp only: unsubscribe_frame)
  note d = deactivate_subscribed [OF m r, of c]
  have "emitted (stateOf (deactivate c s)) = emitted (stateOf ?loop)"
    by (simp add: d split: outcome.splits)
  moreover have "returned (deactivate c s) = returned ?loop"
    by (simp add: d split: outcome.splits)
  moreover have "returned ?loop \<longrightarrow> n = length (draggables s)"
    using ret by simp
  moreover have "draggables s \<noteq> [] \<longrightarrow> 0 < n" using pos by simp
  ultimately show ?thesis using n conv by (intro exI [of _ n]) simp
qed

lemma draggables_deactivate_returned:
  "returned (deactivate c s) \<Longrightarrow> draggables (stateOf (deactivate c s)) = []"
  by (auto simp add: deactivate_def dragStop_def Let_def split: option.splits outcome.splits)

lemma deactivate_log:
  "take (length (emitted s)) (emitted (stateOf (deactivate c s))) = emitted s"
  "b \<in> set (drop (length (emitted s)) (emitted (stateOf (deactivate c s)))) \<Longrightarrow>
     \<exists>d. b = Dropping d \<and> cancelled d = c \<and> \<not> isDragging d"
  "returned (deactivate c s) \<Longrightarrow>
     emitted (stateOf (deactivate c s)) =
       emitted s @ map (\<lambda>d. Dropping (d\<lparr>isDragging := False, cancelled := c\<rparr>))
                      (filter isDragging (draggables s))"
proof -
  from emitted_deactivate [of s c] obtain n where n: "n \<le> length (draggables s)"
    and em: "emitted (stateOf (deactivate c s)) =
       emitted s @ map (\<lambda>d. Dropping (d\<lparr>isDragging := False, cancelled := c\<rparr>))
                      (filter isDragging (take n (draggables s)))"
    and ret: "returned (deactivate c s) \<longrightarrow> n = length (draggables s)"
    by blast
  show "take (length (emitted s)) (emitted (stateOf (deactivate c s))) = emitted s"
    by (simp add: em)
  show "\<exists>d. b = Dropping d \<and> cancelled d = c \<and> \<not> isDragging d"
    if "b \<in> set (drop (length (emitted s)) (emitted (stateOf (deactivate c s))))"
    using that by (auto simp add: em)
  show "emitted (stateOf (deactivate c s)) =
       emitted s @ map (\<lambda>d. Dropping (d\<lparr>isDragging := False, cancelled := c\<rparr>))
                      (filter isDragging (draggables s))"
    if "returned (deactivate c s)"
    using that ret em by simp
qed

lemma emitted_deactivate_empty:
  "draggables s = [] \<Longrightarrow> emitted (stateOf (deactivate c s)) = emitted s"
  using emitted_deactivate [of s c] by auto

text \<open>Whatever else happens, a deactivation with both subscriptions in place delivers the
  ``dropping'' of the first record when that record is dragging.\<close>

lemma deactivate_first:
  assumes "viewportMouseMoveSubscription s \<noteq> None" and "viewportResizeSubscription s \<noteq> None"
    and "draggables s = d # ds" and "isDragging d"
  shows "length (emitted s) < length (emitted (stateOf (deactivate c s)))"
    and "emitted (stateOf (deactivate c s)) ! length (emitted s) =
           Dropping (d\<lparr>isDragging := False, cancelled := c\<rparr>)"
proof -
  from emitted_deactivate [of s c] obtain n where n: "n \<le> length (draggables s)"
    and em: "emitted (stateOf (deactivate c s)) =
       emitted s @ map (\<lambda>d. Dropping (d\<lparr>isDragging := False, cancelled := c\<rparr>))
                      (filter isDragging (take n (draggables s)))"
    and pos: "viewportMouseMoveSubscription s \<noteq> None \<and> viewportResizeSubscription s \<noteq> None
          \<and> draggables s \<noteq> [] \<longrightarrow> 0 < n"
    by blast
  from pos assms have "0 < n" by simp
  then obtain k where k: "n = Suc k" by (cases n) simp_all
  have tk: "filter isDragging (take n (draggables s)) = d # filter isDragging (take k ds)"
    using assms k by simp
  show "length (emitted s) < length (emitted (stateOf (deactivate c s)))"
    unfolding em tk by simp
  show "emitted (stateOf (deactivate c s)) ! length (emitted s) =
           Dropping (d\<lparr>isDragging := False, cancelled := c\<rparr>)"
    unfolding em tk by simp
qed

subsection \<open>A deactivation in a tidy state runs to completion\<close>

lemma set_ghosts: "set (ghosts ds) = {g. \<exists>d \<in> set ds. dragEl d = Some g}"
  by (induction ds) (auto split: option.splits)

lemma ghosts_drop:
  "k < length ds \<Longrightarrow>
   ghosts (drop k ds) =
     (case dragEl (ds ! k) of None \<Rightarrow> ghosts (drop (Suc k) ds) | Some g \<Rightarrow> g # ghosts (drop (Suc k) ds))"
  by (simp add: Cons_nth_drop_Suc [symmetric])

lemma children_stopBody:
  "i < length (draggables s) \<Longrightarrow>
   children (nodes (dom (stopBody c i s)) n) =
     (case dragEl (draggables s ! i) of None \<Rightarrow> children (nodes (dom s) n)
      | Some g \<Rightarrow> if n = viewportElement s then remove1 g (children (nodes (dom s) n))
                  else children (nodes (dom s) n))"
  by (simp add: stopBody_def Let_def children_destroyDraggableElement fst_endItemDrag
        split: option.splits)

lemma returned_stopBody:
  assumes "i < length (draggables s)"
  shows "returned (removeClasses (Some (el (draggables (endBody c i s) ! i)))
                        (draggedClass (draggables (endBody c i s) ! i)) (dom s))
           = validClasses (draggedClass (draggables s ! i))"
    and "returned (destroyDraggableElement (draggables (endBody c i s) ! i) (endBody c i s))
           = (case dragEl (draggables s ! i) of None \<Rightarrow> True
              | Some g \<Rightarrow> g \<in> set (children (nodes (dom s) (viewportElement s))))"
  using assms
  by (simp_all add: returned_removeClasses returned_destroyDraggableElement fst_endItemDrag
        split: option.splits)

lemma dragStopLoop_tidy:
  assumes "k \<le> length (draggables s)"
    and "\<forall>j. k \<le> j \<and> j < length (draggables s) \<longrightarrow> validClasses (draggedClass (draggables s ! j))"
    and "set (ghosts (drop k (draggables s))) \<subseteq> set (children (nodes (dom s) (viewportElement s)))"
    and "distinct (ghosts (drop k (draggables s)))"
  shows "returned (dragStopLoop c [k..<length (draggables s)] s)"
  using assms
proof (induction "length (draggables s) - k" arbitrary: k s)
  case 0
  then show ?case by simp
next
  case (Suc m)
  then have k: "k < length (draggables s)" by simp
  let ?t = "stopBody c k s"
  have upt: "[k..<length (draggables s)] = k # [Suc k..<length (draggables s)]"
    using k by (simp add: upt_rec)
  have valid: "validClasses (draggedClass (draggables s ! k))"
    using Suc.prems(2) k by simp
  have gd: "ghosts (drop k (draggables s)) =
     (case dragEl (draggables s ! k) of None \<Rightarrow> ghosts (drop (Suc k) (draggables s))
      | Some g \<Rightarrow> g # ghosts (drop (Suc k) (draggables s)))"
    by (rule ghosts_drop [OF k])
  have child: "case dragEl (draggables s ! k) of None \<Rightarrow> True
              | Some g \<Rightarrow> g \<in> set (children (nodes (dom s) (viewportElement s)))"
    using Suc.prems(3) unfolding gd by (simp split: option.splits)
  have len: "length (draggables ?t) = length (draggables s)" by simp
  have same: "drop (Suc k) (draggables ?t) = drop (Suc k) (draggables s)"
    by (rule nth_equalityI) (simp_all add: len)
  have rest: "returned (dragStopLoop c [Suc k..<length (draggables ?t)] ?t)"
  proof (rule Suc.hyps(1))
    show "m = length (draggables ?t) - Suc k" using Suc.hyps(2) by simp
    show "Suc k \<le> length (draggables ?t)" using k by simp
    show "\<forall>j. Suc k \<le> j \<and> j < length (draggables ?t) \<longrightarrow> validClasses (draggedClass (draggables ?t ! j))"
      using Suc.prems(2) by simp
    show "distinct (ghosts (drop (Suc k) (draggables ?t)))"
      using Suc.prems(4) unfolding same gd by (simp split: option.splits)
    show "set (ghosts (drop (Suc k) (draggables ?t))) \<subseteq> set (children (nodes (dom ?t) (viewportElement ?t)))"
    proof (cases "dragEl (draggables s ! k)")
      case None
      then show ?thesis
        using Suc.prems(3) k unfolding same gd by (simp add: children_stopBody)
    next
      case (Some g)
      then have "g \<notin> set (ghosts (drop (Suc k) (draggables s)))"
        using Suc.prems(4) unfolding gd by simp
      moreover have "set (ghosts (drop (Suc k) (draggables s))) \<subseteq> set (children (nodes (dom s) (viewportElement s)))"
        using Suc.prems(3) Some unfolding gd by simp
      ultimately have "set (ghosts (drop (Suc k) (draggables s)))
          \<subseteq> set (remove1 g (children (nodes (dom s) (viewportElement s))))"
      proof (intro subsetI)
        fix x assume g: "g \<notin> set (ghosts (drop (Suc k) (draggables s)))"
          and sub: "set (ghosts (drop (Suc k) (draggables s))) \<subseteq> set (children (nodes (dom s) (viewportElement s)))"
          and x: "x \<in> set (ghosts (drop (Suc k) (draggables s)))"
        from g x have "x \<noteq> g" by blast
        moreover from sub x have "x \<in> set (children (nodes (dom s) (viewportElement s)))" by blast
        ultimately show "x \<in> set (remove1 g (children (nodes (dom s) (viewportElement s))))"
          by (simp add: in_set_remove1)
      qed
      then show ?thesis
        using Some k unfolding same by (simp add: children_stopBody)
    qed
  qed
  show ?case
    unfolding upt dragStopLoop_step(2) returned_stopBody [OF k]
    using valid child rest by (simp add: len)
qed

lemma tidy_deactivate:
  assumes "tidy s"
  shows "returned (deactivate c s)"
proof -
  from assms obtain m r where m: "viewportMouseMoveSubscription s = Some m"
    and r: "viewportResizeSubscription s = Some r"
    by (auto simp add: tidy_def)
  let ?u = "unsubscribe r (unsubscribe m s)"
  have "returned (dragStopLoop c [0..<length (draggables ?u)] ?u)"
  proof (rule dragStopLoop_tidy)
    show "0 \<le> length (draggables ?u)" by simp
    show "\<forall>j. 0 \<le> j \<and> j < length (draggables ?u) \<longrightarrow> validClasses (draggedClass (draggables ?u ! j))"
      using assms by (simp add: tidy_def list_all_length)
    show "set (ghosts (drop 0 (draggables ?u))) \<subseteq> set (children (nodes (dom ?u) (viewportElement ?u)))"
      using assms by (auto simp add: tidy_def list_all_iff)
    show "distinct (ghosts (drop 0 (draggables ?u)))"
      using assms by (simp add: tidy_def)
  qed
  then show ?thesis
    by (cases "dragStopLoop c [0..<length (draggables s)] ?u")
       (simp_all add: deactivate_subscribed [OF m r])
qed

subsection \<open>The is-dragging flag along a sequence of actions\<close>

lemma nth_list_update_if:
  "xs[i := x] ! j = (if i = j \<and> i < length xs then x else xs ! j)"
  by (cases "i < length xs") (simp_all add: nth_list_update list_update_beyond)

lemma dragStopLoop_lowers:
  "length (draggables (stateOf (dragStopLoop c js s))) = length (draggables s)
   \<and> (\<forall>k < length (draggables s).
         isDragging (draggables (stateOf (dragStopLoop c js s)) ! k) \<longrightarrow> isDragging (draggables s ! k))"
proof (induction js arbitrary: s)
  case Nil
  show ?case by simp
next
  case (Cons i js)
  have e: "length (draggables (endBody c i s)) = length (draggables s)
     \<and> (\<forall>k < length (draggables s).
           isDragging (draggables (endBody c i s) ! k) \<longrightarrow> isDragging (draggables s ! k))"
    by (auto simp add: nth_list_update_if fst_endItemDrag split: if_splits)
  have t: "length (draggables (stopBody c i s)) = length (draggables s)
     \<and> (\<forall>k < length (draggables s).
           isDragging (draggables (stopBody c i s) ! k) \<longrightarrow> isDragging (draggables s ! k))"
    by (auto simp add: stopBody_def Let_def nth_list_update_if fst_endItemDrag split: if_splits)
  show ?case
    using e t Cons.IH [of "stopBody c i s"] by (auto simp add: dragStopLoop_step(1))
qed

lemma deactivate_lowers:
  "flagOf k (stateOf (deactivate c s)) \<Longrightarrow> flagOf k s"
proof (cases "viewportMouseMoveSubscription s = None \<or> viewportResizeSubscription s = None")
  case True
  from deactivate_unsubscribed [OF this, of c] show "flagOf k (stateOf (deactivate c s)) \<Longrightarrow> flagOf k s"
    by (simp add: flagOf_def)
next
  case False
  then obtain m r where m: "viewportMouseMoveSubscription s = Some m"
    and r: "viewportResizeSubscription s = Some r" by auto
  let ?u = "unsubscribe r (unsubscribe m s)"
  let ?loop = "dragStopLoop c [0..<length (draggables s)] ?u"
  note low = dragStopLoop_lowers [of c "[0..<length (draggables s)]" ?u]
  assume f: "flagOf k (stateOf (deactivate c s))"
  show "flagOf k s"
  proof (cases ?loop)
    case (Returned s1)
    then have "draggables (stateOf (deactivate c s)) = []"
      by (simp add: deactivate_subscribed [OF m r])
    with f show ?thesis by (simp add: flagOf_def)
  next
    case (Threw e s1)
    then have "stateOf (deactivate c s) = stateOf ?loop"
      by (simp add: deactivate_subscribed [OF m r])
    with f low show ?thesis by (simp add: flagOf_def)
  qed
qed

lemma onRoute_lowers: "flagOf k (stateOf (onRoute r s)) \<Longrightarrow> flagOf k s"
  by (cases r) (simp_all add: onVieportMouseUp_def deactivate_lowers)

lemma perform_keeps:
  assumes "\<not> isFire a" and "flagOf k s"
  shows "flagOf k (stateOf (perform a s))"
proof (cases a)
  case (Register event e payload sel c1 c2 th)
  show ?thesis
    using assms(2) unfolding Register
    by (auto simp add: flagOf_def registerDraggable_stateOf nth_append)
next
  case (Move event)
  have "moveRel (clientX event) (clientY event) s (stateOf (onViewportMouseMove event s))"
    by (rule moveRel_onViewportMouseMove)
  then show ?thesis
    using assms(2) unfolding Move moveRel_def flagOf_def by simp
next
  case Resize
  then show ?thesis using assms(2) by (simp add: flagOf_def onWindowResize_def)
next
  case (Tick i)
  then show ?thesis using assms(2) by (simp add: flagOf_def tick_def split: option.splits)
next
  case (Fire r)
  with assms(1) show ?thesis by simp
qed

lemma raises_raised: "raises (True # bs) \<le> raises (False # bs)"
  by (cases bs) simp_all

lemma run_raised:
  assumes "\<not> list_ex isFire as" and "flagOf k s"
  shows "raises (map (flagOf k) (run as s)) = 0"
  using assms
proof (induction as arbitrary: s)
  case Nil
  show ?case by simp
next
  case (Cons a as)
  then have a: "\<not> isFire a" and as: "\<not> list_ex isFire as" by simp_all
  have next_flag: "flagOf k (stateOf (perform a s))"
    by (rule perform_keeps [OF a Cons.prems(2)])
  from Cons.IH [OF as next_flag] have "raises (map (flagOf k) (run as (stateOf (perform a s)))) = 0" .
  moreover obtain t ts where ts: "run as (stateOf (perform a s)) = t # ts" and t: "t = stateOf (perform a s)"
    by (cases as) simp_all
  ultimately show ?case
    using Cons.prems(2) next_flag by simp
qed

lemma run_raises:
  assumes "\<not> list_ex isFire as"
  shows "raises (map (flagOf k) (run as s)) \<le> 1"
  using assms
proof (induction as arbitrary: s)
  case Nil
  show ?case by simp
next
  case (Cons a as)
  then have a: "\<not> isFire a" and as: "\<not> list_ex isFire as" by simp_all
  obtain t ts where ts: "run as (stateOf (perform a s)) = t # ts" and t: "t = stateOf (perform a s)"
    by (cases as) simp_all
  show ?case
  proof (cases "flagOf k (stateOf (perform a s))")
    case True
    from run_raised [OF as True] have "raises (map (flagOf k) (run as (stateOf (perform a s)))) = 0" .
    then show ?thesis using ts t by simp
  next
    case False
    then have "\<not> flagOf k s" using perform_keeps [OF a] by blast
    with False Cons.IH [OF as, of "stateOf (perform a s)"] show ?thesis
      using ts t by simp
  qed
qed

lemma raises_snoc:
  "raises (bs @ [a, b]) = raises (bs @ [a]) + (if \<not> a \<and> b then 1 else 0)"
  by (induction bs rule: raises.induct) simp_all

lemma run_nonempty [simp]: "run as s \<noteq> []"
  by (cases as) simp_all

lemma run_snoc: "run (as @ [a]) s = run as s @ [stateOf (perform a (last (run as s)))]"
  by (induction as arbitrary: s) simp_all

lemma run_last_raised:
  assumes "\<not> list_ex isFire as" and "flagOf k s"
  shows "flagOf k (last (run as s))"
  using assms
proof (induction as arbitrary: s)
  case Nil
  then show ?case by simp
next
  case (Cons a as)
  then have a: "\<not> isFire a" and as: "\<not> list_ex isFire as" by simp_all
  have "run as (stateOf (perform a s)) \<noteq> []" by (cases as) simp_all
  then show ?case
    using Cons.IH [OF as perform_keeps [OF a Cons.prems(2)]] by simp
qed

text \<open>From the registration of a record up to and including the first deactivation, its
  flag goes from false to true at most once.\<close>

lemma lifetime_raises:
  assumes "lifetime as"
  shows "raises (map (flagOf k) (run as s)) \<le> 1"
proof (cases as rule: rev_cases)
  case Nil
  then show ?thesis by simp
next
  case (snoc bs a)
  with assms have bs: "\<not> list_ex isFire bs" by (simp add: lifetime_def)
  show ?thesis
  proof (cases "isFire a")
    case False
    with bs have "\<not> list_ex isFire as" using snoc by simp
    then show ?thesis by (rule run_raises)
  next
    case True
    then obtain r where r: "a = Fire r" by (cases a) simp_all
    obtain ss t where rn: "run bs s = ss @ [t]"
      by (cases "run bs s" rule: rev_cases) (cases bs; simp)+
    have last: "last (run bs s) = t" using rn by simp
    have "\<not> (\<not> flagOf k t \<and> flagOf k (stateOf (onRoute r t)))"
      using onRoute_lowers by blast
    then have "raises (map (flagOf k) (run as s)) = raises (map (flagOf k) (run bs s))"
      unfolding snoc run_snoc r rn last by (simp add: raises_snoc)
    also have "\<dots> \<le> 1" by (rule run_raises [OF bs])
    finally show ?thesis .
  qed
qed

lemma dragStopLoop_destroy:
  "i < length (draggables s) \<Longrightarrow> dragEl (draggables s ! i) = Some g \<Longrightarrow>
   g \<in> set (children (nodes (dom s) (viewportElement s))) \<Longrightarrow>
   validClasses (draggedClass (draggables s ! i)) \<Longrightarrow>
   dragStopLoop c (i # js) s = dragStopLoop c js (stopBody c i s)"
proof -
  assume a: "i < length (draggables s)" "dragEl (draggables s ! i) = Some g"
    "g \<in> set (children (nodes (dom s) (viewportElement s)))"
    "validClasses (draggedClass (draggables s ! i))"
  have r1: "returned (removeClasses (Some (el (draggables (endBody c i s) ! i)))
                        (draggedClass (draggables (endBody c i s) ! i)) (dom s))"
    unfolding returned_stopBody(1) [OF a(1)] by (rule a(4))
  have r2: "returned (destroyDraggableElement (draggables (endBody c i s) ! i) (endBody c i s))"
    unfolding returned_stopBody(2) [OF a(1)] using a(2,3) by simp
  obtain d3 where d3: "removeClasses (Some (el (draggables (endBody c i s) ! i)))
                        (draggedClass (draggables (endBody c i s) ! i)) (dom s) = Returned d3"
    using r1 by (cases "removeClasses (Some (el (draggables (endBody c i s) ! i)))
                        (draggedClass (draggables (endBody c i s) ! i)) (dom s)") simp_all
  obtain m where m: "destroyDraggableElement (draggables (endBody c i s) ! i) (endBody c i s) = Returned m"
    using r2 by (cases "destroyDraggableElement (draggables (endBody c i s) ! i) (endBody c i s)") simp_all
  have e: "draggables (putItem i (fst (endItemDrag (draggables s ! i) c s))
                         (snd (endItemDrag (draggables s ! i) c s))) ! i
           = draggables (endBody c i s) ! i"
    by simp
  show ?thesis
    unfolding dragStopLoop_Cons e using d3 m by simp
qed

lemma dragStopLoop_lost:
  "i < length (draggables s) \<Longrightarrow> dragEl (draggables s ! i) = Some g \<Longrightarrow>
   g \<notin> set (children (nodes (dom s) (viewportElement s))) \<Longrightarrow>
   validClasses (draggedClass (draggables s ! i)) \<Longrightarrow>
   \<not> returned (dragStopLoop c (i # js) s) \<and> stateOf (dragStopLoop c (i # js) s) = stopBody c i s"
proof -
  assume a: "i < length (draggables s)" "dragEl (draggables s ! i) = Some g"
    "g \<notin> set (children (nodes (dom s) (viewportElement s)))"
    "validClasses (draggedClass (draggables s ! i))"
  have r1: "returned (removeClasses (Some (el (draggables (endBody c i s) ! i)))
                        (draggedClass (draggables (endBody c i s) ! i)) (dom s))"
    unfolding returned_stopBody(1) [OF a(1)] by (rule a(4))
  have r2: "\<not> returned (destroyDraggableElement (draggables (endBody c i s) ! i) (endBody c i s))"
    unfolding returned_stopBody(2) [OF a(1)] using a(2,3) by simp
  show ?thesis
    unfolding dragStopLoop_step using r1 r2 by simp
qed

lemma deactivate_cursor:
  "returned (deactivate c s) \<Longrightarrow> viewportCursor s = Some v \<Longrightarrow>
   style (nodes (dom (stateOf (deactivate c s))) (viewportElement s)) ''cursor'' = v"
  by (auto simp add: deactivate_def dragStop_def Let_def dom_setCursor
        split: option.splits outcome.splits
        dest: arg_cong [where f = "\<lambda>r. viewportCursor (stateOf r)"]
              arg_cong [where f = "\<lambda>r. viewportElement (stateOf r)"])

subsection \<open>The worked scenario, step by step\<close>

lemma demoDocument_simps [simp]:
  "nextNode demoDocument = 3"
  "bodyElement demoDocument = 0"
  "selectors demoDocument ''body'' = Some 0"
  "selectors demoDocument ''undefined'' = None"
  "boundingClientRect (nodes demoDocument 0) =
     \<lparr>rectLeft = 0, rectTop = 0, rectRight = 300, rectBottom = 300, rectWidth = 300, rectHeight = 300\<rparr>"
  "boundingClientRect (nodes demoDocument (Suc 0)) =
     \<lparr>rectLeft = 40, rectTop = 40, rectRight = 60, rectBottom = 60, rectWidth = 20, rectHeight = 20\<rparr>"
  "boundingClientRect (nodes demoDocument 2) =
     \<lparr>rectLeft = 100, rectTop = 40, rectRight = 120, rectBottom = 60, rectWidth = 20, rectHeight = 20\<rparr>"
  "scrollLeft (nodes demoDocument 0) = 0"
  "scrollTop (nodes demoDocument 0) = 0"
  "scrollLeftMax (nodes demoDocument 0) = 0"
  "style (nodes demoDocument 0) ''cursor'' = Unset"
  "children (nodes demoDocument 0) = []"
  by (simp_all add: demoDocument_def blankElement_def)

lemma validClasses_empty [simp]: "validClasses []"
  by (simp add: validClasses_def classNames_def)

lemma newDraggableItem_simps [simp]:
  "isDragging (newDraggableItem event e payload c1 c2 th) = False"
  "draggingClass (newDraggableItem event e payload c1 c2 th) = c1"
  "draggedClass (newDraggableItem event e payload c1 c2 th) = c2"
  "mouseDownEvent (newDraggableItem event e payload c1 c2 th) = event"
  "startThreshold (newDraggableItem event e payload c1 c2 th) = th"
  "el (newDraggableItem event e payload c1 c2 th) = e"
  "dragEl (newDraggableItem event e payload c1 c2 th) = None"
  by (simp_all add: newDraggableItem_def)

lemma demoRegistered_simps [simp]:
  "draggables demoRegistered = [newDraggableItem \<lparr>clientX = 50, clientY = 50\<rparr> 1 () [] [] 10]"
  "emitted demoRegistered = []"
  "dom demoRegistered = demoDocument"
  "viewportElement demoRegistered = 0"
  "viewportCursor demoRegistered = None"
  "lastMousePos demoRegistered = (None, None)"
  "viewportRect demoRegistered =
     \<lparr>rectLeft = 0, rectTop = 0, rectRight = 300, rectBottom = 300, rectWidth = 300, rectHeight = 300\<rparr>"
  "viewportMouseMoveSubscription demoRegistered = Some 0"
  "viewportResizeSubscription demoRegistered = Some (Suc 0)"
  "intervals demoRegistered = []"
  "nextInterval demoRegistered = 0"
  "scrollXInterval demoRegistered = None"
  "scrollYInterval demoRegistered = None"
  "nextSubscription demoRegistered = 2"
  by (simp_all add: demoRegistered_def registerDraggable_frame viewportElement_setViewportElement)

lemma demoFirstMove_eq:
  "demoFirstMove =
     (scrollViewportAsNeeded 52 50 demoRegistered)
       \<lparr>lastDisplacement := (Some 0, Some 0), lastMousePos := (Some 52, Some 50)\<rparr>"
  unfolding demoFirstMove_def
  by (subst onViewportMouseMove_still) (simp_all add: isMouseOutsideViewport_def minusOrZero_def)

lemma demoFirstMove_simps [simp]:
  "draggables demoFirstMove = [newDraggableItem \<lparr>clientX = 50, clientY = 50\<rparr> 1 () [] [] 10]"
  "emitted demoFirstMove = []"
  "dom demoFirstMove = demoDocument"
  "viewportElement demoFirstMove = 0"
  "viewportCursor demoFirstMove = None"
  "lastMousePos demoFirstMove = (Some 52, Some 50)"
  "viewportRect demoFirstMove =
     \<lparr>rectLeft = 0, rectTop = 0, rectRight = 300, rectBottom = 300, rectWidth = 300, rectHeight = 300\<rparr>"
  "viewportMouseMoveSubscription demoFirstMove = Some 0"
  "viewportResizeSubscription demoFirstMove = Some (Suc 0)"
  by (simp_all add: demoFirstMove_eq)

lemma demoDragging_returned:
  "onViewportMouseMove \<lparr>clientX = 70, clientY = 50\<rparr> demoFirstMove =
     Returned (moveBody \<lparr>clientX = 70, clientY = 50\<rparr> 0
       ((scrollViewportAsNeeded 70 50 demoFirstMove)
          \<lparr>lastDisplacement := (Some (-18), Some 0), lastMousePos := (Some 70, Some 50)\<rparr>))"
proof -
  have inside: "\<not> isMouseOutsideViewport demoFirstMove 70 50"
    by (simp add: isMouseOutsideViewport_def)
  have passed: "startThresholdPassed (newDraggableItem \<lparr>clientX = 50, clientY = 50\<rparr> 1 () [] [] 10) 70 50"
    by (simp add: startThresholdPassed_def)
  show ?thesis
    using inside passed
    by (simp add: onViewportMouseMove_moved minusOrZero_def moveLoop_single)
qed

lemma demoDragging_eq:
  "demoDragging =
     moveBody \<lparr>clientX = 70, clientY = 50\<rparr> 0
       ((scrollViewportAsNeeded 70 50 demoFirstMove)
          \<lparr>lastDisplacement := (Some (-18), Some 0), lastMousePos := (Some 70, Some 50)\<rparr>)"
  unfolding demoDragging_def by (simp add: demoDragging_returned)

lemma demoDragging_simps [simp]:
  "draggables demoDragging =
     [(newDraggableItem \<lparr>clientX = 50, clientY = 50\<rparr> 1 () [] [] 10)
        \<lparr>pos := Some (60, 40), grabPoint := Some (10, 10), dragEl := Some 4, isDragging := True\<rparr>]"
  "viewportElement demoDragging = 0"
  "lastMousePos demoDragging = (Some 70, Some 50)"
  "viewportRect demoDragging =
     \<lparr>rectLeft = 0, rectTop = 0, rectRight = 300, rectBottom = 300, rectWidth = 300, rectHeight = 300\<rparr>"
  "viewportMouseMoveSubscription demoDragging = Some 0"
  "viewportResizeSubscription demoDragging = Some (Suc 0)"
  by (simp_all add: demoDragging_eq draggables_moveBody beginItemDrag_item
        moveDraggableElement_def newDraggableItem_def)

lemma demoDragging_children [simp]:
  "children (nodes (dom demoDragging) 0) = [4]"
  by (simp add: demoDragging_eq moveBody_dom)

lemma demoDragging_cursor [simp]:
  "viewportCursor demoDragging = Some Unset"
  "style (nodes (dom demoDragging) 0) ''cursor'' = Keyword ''-webkit-grabbing''"
  by (simp_all add: demoDragging_eq moveBody_dom viewportCursor_beginItemDrag)

lemma demoDragging_emitted [simp]:
  "emitted demoDragging =
     [Dragging ((newDraggableItem \<lparr>clientX = 50, clientY = 50\<rparr> 1 () [] [] 10)
        \<lparr>pos := Some (40, 40), grabPoint := Some (10, 10), dragEl := Some 4, isDragging := True\<rparr>)]"
  by (simp add: demoDragging_eq emitted_beginItemDrag beginItemDrag_item newDraggableItem_def)

lemma demoDragging_ghost [simp]:
  "style (nodes (dom demoDragging) 4) ''left'' = Px 60"
  "style (nodes (dom demoDragging) 4) ''top'' = Px 40"
  by (simp_all add: demoDragging_eq dom_moveBody beginItemDrag_item moveDraggableElement_def
        newDraggableItem_def)

lemma demoDragging_tidy [simp]: "tidy demoDragging"
  by (simp add: tidy_def newDraggableItem_def)

lemma demoDragging_deactivate [simp]: "returned (deactivate c demoDragging)"
  by (rule tidy_deactivate) simp

lemma demoBack_returned:
  "onViewportMouseMove \<lparr>clientX = 55, clientY = 50\<rparr> demoDragging =
     Returned ((scrollViewportAsNeeded 55 50 demoDragging)
       \<lparr>lastDisplacement := (Some 15, Some 0), lastMousePos := (Some 55, Some 50)\<rparr>)"
proof -
  have inside: "\<not> isMouseOutsideViewport demoDragging 55 50"
    by (simp add: isMouseOutsideViewport_def)
  have near: "\<not> startThresholdPassed (draggables demoDragging ! 0) 55 50"
    by (simp add: startThresholdPassed_def)
  show ?thesis
    using inside near
    by (simp add: onViewportMouseMove_moved minusOrZero_def moveLoop_skip)
qed

lemma demoBack_eq:
  "demoBack =
     (scrollViewportAsNeeded 55 50 demoDragging)
       \<lparr>lastDisplacement := (Some 15, Some 0), lastMousePos := (Some 55, Some 50)\<rparr>"
  unfolding demoBack_def by (simp add: demoBack_returned)

lemma demoTwo_simps [simp]:
  "draggables demoTwo =
     [newDraggableItem \<lparr>clientX = 50, clientY = 50\<rparr> 1 () [] [] 10,
      newDraggableItem \<lparr>clientX = 110, clientY = 50\<rparr> 2 () [] [] 10]"
  "emitted demoTwo = []"
  "dom demoTwo = demoDocument"
  "viewportElement demoTwo = 0"
  "viewportCursor demoTwo = None"
  "lastMousePos demoTwo = (None, None)"
  "viewportRect demoTwo =
     \<lparr>rectLeft = 0, rectTop = 0, rectRight = 300, rectBottom = 300, rectWidth = 300, rectHeight = 300\<rparr>"
  "viewportMouseMoveSubscription demoTwo = Some 2"
  "viewportResizeSubscription demoTwo = Some 3"
  by (simp_all add: demoTwo_def registerDraggable_frame viewportElement_setViewportElement)

lemma demoTwoFirstMove_eq:
  "demoTwoFirstMove =
     (scrollViewportAsNeeded 112 50 demoTwo)
       \<lparr>lastDisplacement := (Some 0, Some 0), lastMousePos := (Some 112, Some 50)\<rparr>"
  unfolding demoTwoFirstMove_def
  by (subst onViewportMouseMove_still) (simp_all add: isMouseOutsideViewport_def minusOrZero_def)

lemma demoTwoFirstMove_simps [simp]:
  "draggables demoTwoFirstMove =
     [newDraggableItem \<lparr>clientX = 50, clientY = 50\<rparr> 1 () [] [] 10,
      newDraggableItem \<lparr>clientX = 110, clientY = 50\<rparr> 2 () [] [] 10]"
  "emitted demoTwoFirstMove = []"
  "dom demoTwoFirstMove = demoDocument"
  "viewportElement demoTwoFirstMove = 0"
  "viewportCursor demoTwoFirstMove = None"
  "lastMousePos demoTwoFirstMove = (Some 112, Some 50)"
  "viewportRect demoTwoFirstMove =
     \<lparr>rectLeft = 0, rectTop = 0, rectRight = 300, rectBottom = 300, rectWidth = 300, rectHeight = 300\<rparr>"
  "viewportMouseMoveSubscription demoTwoFirstMove = Some 2"
  "viewportResizeSubscription demoTwoFirstMove = Some 3"
  by (simp_all add: demoTwoFirstMove_eq)

lemma demoTwoDragging_eq:
  "demoTwoDragging =
     moveBody \<lparr>clientX = 130, clientY = 50\<rparr> 1
       (moveBody \<lparr>clientX = 130, clientY = 50\<rparr> 0
          ((scrollViewportAsNeeded 130 50 demoTwoFirstMove)
             \<lparr>lastDisplacement := (Some (-18), Some 0), lastMousePos := (Some 130, Some 50)\<rparr>))"
proof -
  have inside: "\<not> isMouseOutsideViewport demoTwoFirstMove 130 50"
    by (simp add: isMouseOutsideViewport_def)
  have upt: "[0..<2] = [0, 1]" by (simp add: upt_rec)
  show ?thesis
    unfolding demoTwoDragging_def
    using inside
    by (simp add: onViewportMouseMove_moved minusOrZero_def upt moveLoop_begin draggables_moveBody
          startThresholdPassed_def)
qed

lemma demoTwoDragging_simps [simp]:
  "viewportElement demoTwoDragging = 0"
  "viewportMouseMoveSubscription demoTwoDragging = Some 2"
  "viewportResizeSubscription demoTwoDragging = Some 3"
  "draggables demoTwoDragging =
     [(newDraggableItem \<lparr>clientX = 50, clientY = 50\<rparr> 1 () [] [] 10)
        \<lparr>pos := Some (120, 40), grabPoint := Some (10, 10), dragEl := Some 4, isDragging := True\<rparr>,
      (newDraggableItem \<lparr>clientX = 110, clientY = 50\<rparr> 2 () [] [] 10)
        \<lparr>pos := Some (120, 40), grabPoint := Some (10, 10), dragEl := Some 6, isDragging := True\<rparr>]"
  by (simp_all add: demoTwoDragging_eq draggables_moveBody beginItemDrag_item moveBody_dom
        moveDraggableElement_def newDraggableItem_def)

lemma demoTwoDragging_dom [simp]:
  "children (nodes (dom demoTwoDragging) 0) = [4, 6]"
  "viewportCursor demoTwoDragging = Some (Keyword ''-webkit-grabbing'')"
  by (simp_all add: demoTwoDragging_eq draggables_moveBody moveBody_dom
        viewportCursor_beginItemDrag)

lemma demoTwoDragging_released:
  "deactivate c demoTwoDragging =
     Returned (clearScrollIntervals
       ((setCursor (Some (Keyword ''-webkit-grabbing''))
           (stopBody c 1 (stopBody c 0 (unsubscribe 3 (unsubscribe 2 demoTwoDragging)))))
        \<lparr>draggables := []\<rparr>))"
proof -
  have upt: "[0..<2] = [0, 1]" by (simp add: upt_rec)
  show ?thesis
    by (simp add: deactivate_def dragStop_def Let_def upt dragStopLoop_destroy children_stopBody)
qed

subsection \<open>The drop target\<close>




lemma onDragging_simps [simp]:
  "mouseEnterSubscription (onDragging started t) = Some True"
  "mouseLeaveSubscription (onDragging started t) = Some True"
  "ddOnDrop (onDragging started t) = ddOnDrop t"
  "dragging (onDragging started t) = True"
  "isDropTarget (onDragging started t) = isDropTarget t"
  "acceptDrop (onDragging started t) = acceptDrop t"
  "hostElement (onDragging started t) = hostElement t"
  "droppable (onDragging started t) = droppable t"
  "droppableClasses (onDragging started t) = droppableClasses t"
  "notDroppableClasses (onDragging started t) = notDroppableClasses t"
  by (simp_all add: onDragging_def Let_def split: option.splits)

lemma asciiWhitespace_letters [simp]:
  "\<not> asciiWhitespace CHR ''o''" "\<not> asciiWhitespace CHR ''k''" "\<not> asciiWhitespace CHR ''h''"
  "\<not> asciiWhitespace CHR ''t''" "\<not> asciiWhitespace CHR ''n''"
  by (simp_all add: asciiWhitespace_def)

lemma demo_class_strings [simp]:
  "classNames ''ok hot'' = [''ok'', ''hot'']"
  "classNames ''no'' = [''no'']"
  "classNames ''ok'' = [''ok'']"
  "classNames ''ok '' = [''ok'', [] ]"
  "validClasses ''ok hot''" "validClasses ''no''" "validClasses ''ok''" "\<not> validClasses ''ok ''"
  by (simp_all add: classNames_def validClasses_def validToken_def)

lemma demoEntered_eq:
  "onMouseEnter (onDragging (draggables demoDragging ! 0) demoZone) demoDocument = Returned demoEntered"
  "fst demoEntered = (onDragging (draggables demoDragging ! 0) demoZone)\<lparr>isDropTarget := True\<rparr>"
  "classList (nodes (snd demoEntered) 2) = [''ok'', ''hot'']"
  unfolding demoEntered_def
  by (simp_all add: onMouseEnter_def addThenRemove_def addClasses_def removeClasses_def
        addClassesLoop.simps removeClassesLoop.simps classListAdd_def classListRemove_def
        demoZone_def newDroppableDirective_def demoDocument_def blankElement_def Let_def
        classNames_def [symmetric])

lemma demoEntered_simps [simp]:
  "isDropTarget (fst demoEntered)"
  "ddOnDrop (fst demoEntered) = Some []"
  "mouseEnterSubscription (fst demoEntered) = Some True"
  "mouseLeaveSubscription (fst demoEntered) = Some True"
  "hostElement (fst demoEntered) = 2"
  "droppable (fst demoEntered) = ''zone''"
  "droppableClasses (fst demoEntered) = ''ok hot''"
  "notDroppableClasses (fst demoEntered) = ''no''"
  by (simp_all add: demoEntered_eq(2) demoZone_def newDroppableDirective_def)

lemma demoSloppyEntered_eq:
  "\<not> returned (onMouseEnter (onDragging (draggables demoDragging ! 0) demoSloppy) demoDocument)"
  "fst demoSloppyEntered = (onDragging (draggables demoDragging ! 0) demoSloppy)\<lparr>isDropTarget := True\<rparr>"
  "classList (nodes (snd demoSloppyEntered) 2) = [''no'']"
  unfolding demoSloppyEntered_def
  by (simp_all add: onMouseEnter_def addThenRemove_def addClasses_def removeClasses_def
        addClassesLoop.simps removeClassesLoop.simps classListAdd_def classListRemove_def
        demoSloppy_def newDroppableDirective_def demoDocument_def blankElement_def Let_def
        classNames_def [symmetric])

lemma demoSloppyEntered_simps [simp]:
  "isDropTarget (fst demoSloppyEntered)"
  "ddOnDrop (fst demoSloppyEntered) = Some []"
  "mouseEnterSubscription (fst demoSloppyEntered) = Some True"
  "mouseLeaveSubscription (fst demoSloppyEntered) = Some True"
  "hostElement (fst demoSloppyEntered) = 2"
  "droppable (fst demoSloppyEntered) = ''zone''"
  "droppableClasses (fst demoSloppyEntered) = ''ok ''"
  "notDroppableClasses (fst demoSloppyEntered) = ''no''"
  by (simp_all add: demoSloppyEntered_eq(2) demoSloppy_def newDroppableDirective_def)

lemma demoFresh_simps [simp]:
  "\<not> isDropTarget demoFresh"
  "ddOnDrop demoFresh = Some []"
  "mouseEnterSubscription demoFresh = None"
  "mouseLeaveSubscription demoFresh = None"
  "hostElement demoFresh = 2"
  "droppable demoFresh = ''zone''"
  "droppableClasses demoFresh = ''ok''"
  "notDroppableClasses demoFresh = []"
  "classList (nodes demoMarkup 2) = [''ok'']"
  by (simp_all add: demoFresh_def demoMarkup_def newDroppableDirective_def)

subsection \<open>A release interrupted by a ghost that is not under the viewport\<close>

lemma endItemDrag_frame2 [simp]:
  "lastDisplacement (snd (endItemDrag d c s)) = lastDisplacement s"
  "viewportRect (snd (endItemDrag d c s)) = viewportRect s"
  "viewportMouseMoveSubscription (snd (endItemDrag d c s)) = viewportMouseMoveSubscription s"
  "viewportResizeSubscription (snd (endItemDrag d c s)) = viewportResizeSubscription s"
  by (simp_all add: endItemDrag_def Let_def)

lemma unsubscribe_frame2 [simp]:
  "lastMousePos (unsubscribe i s) = lastMousePos s"
  "lastDisplacement (unsubscribe i s) = lastDisplacement s"
  "viewportRect (unsubscribe i s) = viewportRect s"
  by (simp_all add: unsubscribe_def)

lemma destroyDraggableElement_item:
  "fst (stateOf (destroyDraggableElement d s)) =
     (if returned (destroyDraggableElement d s) then d\<lparr>dragEl := None\<rparr> else d)"
  by (simp add: destroyDraggableElement_def removeChild_def split: option.splits)

lemma destroyDraggableElement_frame2 [simp]:
  "lastMousePos (snd (stateOf (destroyDraggableElement d s))) = lastMousePos s"
  "lastDisplacement (snd (stateOf (destroyDraggableElement d s))) = lastDisplacement s"
  "viewportRect (snd (stateOf (destroyDraggableElement d s))) = viewportRect s"
  "viewportMouseMoveSubscription (snd (stateOf (destroyDraggableElement d s))) = viewportMouseMoveSubscription s"
  "viewportResizeSubscription (snd (stateOf (destroyDraggableElement d s))) = viewportResizeSubscription s"
  "nextNode (dom (snd (stateOf (destroyDraggableElement d s)))) = nextNode (dom s)"
  "boundingClientRect (nodes (dom (snd (stateOf (destroyDraggableElement d s)))) n) = boundingClientRect (nodes (dom s) n)"
  "scrollLeft (nodes (dom (snd (stateOf (destroyDraggableElement d s)))) n) = scrollLeft (nodes (dom s) n)"
  "scrollTop (nodes (dom (snd (stateOf (destroyDraggableElement d s)))) n) = scrollTop (nodes (dom s) n)"
  by (simp_all add: destroyDraggableElement_def removeChild_def split: option.splits)

lemma endBody_frame2 [simp]:
  "lastMousePos (endBody c i s) = lastMousePos s"
  "lastDisplacement (endBody c i s) = lastDisplacement s"
  "viewportRect (endBody c i s) = viewportRect s"
  "viewportMouseMoveSubscription (endBody c i s) = viewportMouseMoveSubscription s"
  "viewportResizeSubscription (endBody c i s) = viewportResizeSubscription s"
  "nextNode (dom (endBody c i s)) = nextNode (dom s)"
  "boundingClientRect (nodes (dom (endBody c i s)) n) = boundingClientRect (nodes (dom s) n)"
  "scrollLeft (nodes (dom (endBody c i s)) n) = scrollLeft (nodes (dom s) n)"
  "scrollTop (nodes (dom (endBody c i s)) n) = scrollTop (nodes (dom s) n)"
  by (simp_all add: endBody_def Let_def)

lemma stopBody_frame2 [simp]:
  "lastMousePos (stopBody c i s) = lastMousePos s"
  "lastDisplacement (stopBody c i s) = lastDisplacement s"
  "viewportRect (stopBody c i s) = viewportRect s"
  "viewportMouseMoveSubscription (stopBody c i s) = viewportMouseMoveSubscription s"
  "viewportResizeSubscription (stopBody c i s) = viewportResizeSubscription s"
  "nextNode (dom (stopBody c i s)) = nextNode (dom s)"
  "boundingClientRect (nodes (dom (stopBody c i s)) n) = boundingClientRect (nodes (dom s) n)"
  "scrollLeft (nodes (dom (stopBody c i s)) n) = scrollLeft (nodes (dom s) n)"
  "scrollTop (nodes (dom (stopBody c i s)) n) = scrollTop (nodes (dom s) n)"
  by (simp_all add: stopBody_def Let_def)

lemma draggables_stopBody:
  "i < length (draggables s) \<Longrightarrow>
   draggables (stopBody c i s) =
     (draggables s)[i := (if (case dragEl (draggables s ! i) of None \<Rightarrow> True
                              | Some g \<Rightarrow> g \<in> set (children (nodes (dom s) (viewportElement s))))
                          then (fst (endItemDrag (draggables s ! i) c s))\<lparr>dragEl := None\<rparr>
                          else fst (endItemDrag (draggables s ! i) c s))]"
  by (simp add: stopBody_def Let_def destroyDraggableElement_item returned_destroyDraggableElement
        fst_endItemDrag split: option.splits)

lemma paneDocument_simps [simp]:
  "nextNode paneDocument = 4"
  "bodyElement paneDocument = 0"
  "selectors paneDocument ''body'' = Some 0"
  "selectors paneDocument ''undefined'' = None"
  "selectors paneDocument ''#pane'' = Some 3"
  "parses paneDocument ''#pane''"
  "boundingClientRect (nodes paneDocument 0) =
     \<lparr>rectLeft = 0, rectTop = 0, rectRight = 300, rectBottom = 300, rectWidth = 300, rectHeight = 300\<rparr>"
  "boundingClientRect (nodes paneDocument (Suc 0)) =
     \<lparr>rectLeft = 40, rectTop = 40, rectRight = 60, rectBottom = 60, rectWidth = 20, rectHeight = 20\<rparr>"
  "boundingClientRect (nodes paneDocument 3) =
     \<lparr>rectLeft = 80, rectTop = 20, rectRight = 280, rectBottom = 220, rectWidth = 200, rectHeight = 200\<rparr>"
  "scrollLeft (nodes paneDocument n) = 0"
  "scrollTop (nodes paneDocument n) = 0"
  "children (nodes paneDocument n) = []"
  by (simp_all add: paneDocument_def blankElement_def)

lemma paneRegistered_simps [simp]:
  "draggables paneRegistered = [newDraggableItem \<lparr>clientX = 50, clientY = 50\<rparr> 1 () [] [] 10]"
  "dom paneRegistered = paneDocument"
  "viewportElement paneRegistered = 0"
  "lastMousePos paneRegistered = (None, None)"
  "viewportRect paneRegistered =
     \<lparr>rectLeft = 0, rectTop = 0, rectRight = 300, rectBottom = 300, rectWidth = 300, rectHeight = 300\<rparr>"
  "viewportMouseMoveSubscription paneRegistered = Some 0"
  "viewportResizeSubscription paneRegistered = Some (Suc 0)"
  "nextSubscription paneRegistered = 2"
  by (simp_all add: paneRegistered_def registerDraggable_frame viewportElement_setViewportElement)

lemma paneFirstMove_eq:
  "paneFirstMove =
     (scrollViewportAsNeeded 52 50 paneRegistered)
       \<lparr>lastDisplacement := (Some 0, Some 0), lastMousePos := (Some 52, Some 50)\<rparr>"
  unfolding paneFirstMove_def
  by (subst onViewportMouseMove_still) (simp_all add: isMouseOutsideViewport_def minusOrZero_def)

lemma paneFirstMove_simps [simp]:
  "draggables paneFirstMove = [newDraggableItem \<lparr>clientX = 50, clientY = 50\<rparr> 1 () [] [] 10]"
  "dom paneFirstMove = paneDocument"
  "viewportElement paneFirstMove = 0"
  "lastMousePos paneFirstMove = (Some 52, Some 50)"
  "viewportRect paneFirstMove =
     \<lparr>rectLeft = 0, rectTop = 0, rectRight = 300, rectBottom = 300, rectWidth = 300, rectHeight = 300\<rparr>"
  "viewportMouseMoveSubscription paneFirstMove = Some 0"
  "viewportResizeSubscription paneFirstMove = Some (Suc 0)"
  by (simp_all add: paneFirstMove_eq)

lemma paneDragging_eq:
  "paneDragging =
     moveBody \<lparr>clientX = 70, clientY = 50\<rparr> 0
       ((scrollViewportAsNeeded 70 50 paneFirstMove)
          \<lparr>lastDisplacement := (Some (-18), Some 0), lastMousePos := (Some 70, Some 50)\<rparr>)"
proof -
  have inside: "\<not> isMouseOutsideViewport paneFirstMove 70 50"
    by (simp add: isMouseOutsideViewport_def)
  have passed: "startThresholdPassed (newDraggableItem \<lparr>clientX = 50, clientY = 50\<rparr> 1 () [] [] 10) 70 50"
    by (simp add: startThresholdPassed_def)
  show ?thesis
    unfolding paneDragging_def
    using inside passed
    by (simp add: onViewportMouseMove_moved minusOrZero_def moveLoop_single)
qed

lemma paneDragging_simps [simp]:
  "draggables paneDragging =
     [(newDraggableItem \<lparr>clientX = 50, clientY = 50\<rparr> 1 () [] [] 10)
        \<lparr>pos := Some (60, 40), grabPoint := Some (10, 10), dragEl := Some 5, isDragging := True\<rparr>]"
  "viewportElement paneDragging = 0"
  "nextNode (dom paneDragging) = 6"
  "selectors (dom paneDragging) = selectors paneDocument"
  "parses (dom paneDragging) = parses paneDocument"
  "children (nodes (dom paneDragging) 0) = [5]"
  "children (nodes (dom paneDragging) 3) = []"
  "boundingClientRect (nodes (dom paneDragging) 3) =
     \<lparr>rectLeft = 80, rectTop = 20, rectRight = 280, rectBottom = 220, rectWidth = 200, rectHeight = 200\<rparr>"
  "boundingClientRect (nodes (dom paneDragging) (Suc 0)) =
     \<lparr>rectLeft = 40, rectTop = 40, rectRight = 60, rectBottom = 60, rectWidth = 20, rectHeight = 20\<rparr>"
  "scrollLeft (nodes (dom paneDragging) 3) = 0"
  "scrollTop (nodes (dom paneDragging) 3) = 0"
  by (simp_all add: paneDragging_eq draggables_moveBody beginItemDrag_item moveBody_dom dom_moveBody
        beginItemDrag_dom moveDraggableElement_def newDraggableItem_def)

lemma paneSecond_returned:
  "returned (registerDraggable \<lparr>clientX = 110, clientY = 50\<rparr> 2 () (Some ''#pane'') [] [] 10 paneDragging)"
  by (simp add: registerDraggable_stateOf returned_setViewportElement querySelector_def)

lemma paneSecond_simps [simp]:
  "draggables paneSecond =
     [(newDraggableItem \<lparr>clientX = 50, clientY = 50\<rparr> 1 () [] [] 10)
        \<lparr>pos := Some (60, 40), grabPoint := Some (10, 10), dragEl := Some 5, isDragging := True\<rparr>,
      newDraggableItem \<lparr>clientX = 110, clientY = 50\<rparr> 2 () [] [] 10]"
  "dom paneSecond = dom paneDragging"
  "viewportElement paneSecond = 3"
  "lastMousePos paneSecond = (None, None)"
  "viewportRect paneSecond =
     \<lparr>rectLeft = 80, rectTop = 20, rectRight = 280, rectBottom = 220, rectWidth = 200, rectHeight = 200\<rparr>"
  "viewportMouseMoveSubscription paneSecond = Some (nextSubscription paneDragging)"
  "viewportResizeSubscription paneSecond = Some (Suc (nextSubscription paneDragging))"
proof -
  note r = paneSecond_returned
  have s: "returned (setViewportElement (Some ''#pane'') paneDragging)"
    using r by (simp add: registerDraggable_stateOf)
  have v: "viewportElement (stateOf (setViewportElement (Some ''#pane'') paneDragging)) = 3"
    by (simp add: viewportElement_setViewportElement(1) [OF s])
  show "draggables paneSecond =
     [(newDraggableItem \<lparr>clientX = 50, clientY = 50\<rparr> 1 () [] [] 10)
        \<lparr>pos := Some (60, 40), grabPoint := Some (10, 10), dragEl := Some 5, isDragging := True\<rparr>,
      newDraggableItem \<lparr>clientX = 110, clientY = 50\<rparr> 2 () [] [] 10]"
    unfolding paneSecond_def registerDraggable_frame(1) [OF r] by simp
  show "dom paneSecond = dom paneDragging"
    unfolding paneSecond_def by (rule registerDraggable_frame(3) [OF r])
  show "viewportElement paneSecond = 3"
    unfolding paneSecond_def registerDraggable_frame(5) [OF r] by (rule v)
  show "lastMousePos paneSecond = (None, None)"
    unfolding paneSecond_def by (rule registerDraggable_frame(10) [OF r])
  show "viewportRect paneSecond =
     \<lparr>rectLeft = 80, rectTop = 20, rectRight = 280, rectBottom = 220, rectWidth = 200, rectHeight = 200\<rparr>"
    unfolding paneSecond_def registerDraggable_frame(12) [OF r] v by simp
  show "viewportMouseMoveSubscription paneSecond = Some (nextSubscription paneDragging)"
    unfolding paneSecond_def by (rule registerDraggable_frame(13) [OF r])
  show "viewportResizeSubscription paneSecond = Some (Suc (nextSubscription paneDragging))"
    unfolding paneSecond_def by (rule registerDraggable_frame(14) [OF r])
qed

lemma paneReleased_eq:
  "\<not> returned (onRoute ViewportMouseUp paneSecond)"
  "paneReleased =
     stopBody None 0 (unsubscribe (Suc (nextSubscription paneDragging))
        (unsubscribe (nextSubscription paneDragging) paneSecond))"
proof -
  let ?u = "unsubscribe (Suc (nextSubscription paneDragging))
        (unsubscribe (nextSubscription paneDragging) paneSecond)"
  have upt: "[0..<2] = [0, 1]" by (simp add: upt_rec)
  have lost: "\<not> returned (dragStopLoop None [0, 1] ?u)
      \<and> stateOf (dragStopLoop None [0, 1] ?u) = stopBody None 0 ?u"
    by (rule dragStopLoop_lost [where g = 5]) simp_all
  have d: "deactivate None paneSecond =
     (case dragStopLoop None [0, 1] ?u of
        Threw e s1 \<Rightarrow> Threw e s1
      | Returned s1 \<Rightarrow> Returned (clearScrollIntervals ((setCursor (viewportCursor s1) s1)\<lparr>draggables := []\<rparr>)))"
    using deactivate_subscribed [of paneSecond "nextSubscription paneDragging"
        "Suc (nextSubscription paneDragging)" None]
    by (simp add: upt)
  have "\<not> returned (deactivate None paneSecond)
      \<and> stateOf (deactivate None paneSecond) = stopBody None 0 ?u"
    unfolding d using lost by (cases "dragStopLoop None [0, 1] ?u") simp_all
  then show "\<not> returned (onRoute ViewportMouseUp paneSecond)"
    and "paneReleased = stopBody None 0 ?u"
    by (simp_all add: paneReleased_def onVieportMouseUp_def)
qed

lemma paneReleased_simps [simp]:
  "draggables paneReleased =
     [(newDraggableItem \<lparr>clientX = 50, clientY = 50\<rparr> 1 () [] [] 10)
        \<lparr>pos := Some (60, 40), grabPoint := Some (10, 10), dragEl := Some 5, isDragging := False,
          cancelled := None\<rparr>,
      newDraggableItem \<lparr>clientX = 110, clientY = 50\<rparr> 2 () [] [] 10]"
  "viewportElement paneReleased = 3"
  "lastMousePos paneReleased = (None, None)"
  "viewportRect paneReleased =
     \<lparr>rectLeft = 80, rectTop = 20, rectRight = 280, rectBottom = 220, rectWidth = 200, rectHeight = 200\<rparr>"
  "scrollLeft (nodes (dom paneReleased) 3) = 0"
  "scrollTop (nodes (dom paneReleased) 3) = 0"
  by (simp_all add: paneReleased_eq(2) draggables_stopBody fst_endItemDrag newDraggableItem_def)

lemma paneMoved_eq:
  "paneMoved =
     (scrollViewportAsNeeded 105 50 paneReleased)
       \<lparr>lastDisplacement := (Some 0, Some 0), lastMousePos := (Some 105, Some 50)\<rparr>"
  unfolding paneMoved_def
  by (subst onViewportMouseMove_still) (simp_all add: isMouseOutsideViewport_def minusOrZero_def)

lemma paneMoved_simps [simp]:
  "draggables paneMoved = draggables paneReleased"
  "viewportElement paneMoved = 3"
  "lastMousePos paneMoved = (Some 105, Some 50)"
  "viewportRect paneMoved =
     \<lparr>rectLeft = 80, rectTop = 20, rectRight = 280, rectBottom = 220, rectWidth = 200, rectHeight = 200\<rparr>"
  by (simp_all add: paneMoved_eq)

lemma paneAgain_eq:
  "paneAgain =
     moveBody \<lparr>clientX = 110, clientY = 50\<rparr> 0
       ((scrollViewportAsNeeded 110 50 paneMoved)
          \<lparr>lastDisplacement := (Some (-5), Some 0), lastMousePos := (Some 110, Some 50)\<rparr>)"
proof -
  have inside: "\<not> isMouseOutsideViewport paneMoved 110 50"
    by (simp add: isMouseOutsideViewport_def)
  have upt: "[0..<2] = [0, 1]" by (simp add: upt_rec)
  show ?thesis
    unfolding paneAgain_def
    using inside
    by (simp add: onViewportMouseMove_moved minusOrZero_def upt moveLoop_begin moveLoop_skip
          draggables_moveBody startThresholdPassed_def)
qed

text \<open>The flag of the first record along the way: raised by the third action, lowered by the
  interrupted release, raised again by the last move.\<close>

lemma pane_flags:
  "\<not> flagOf 0 (newDragDropService paneDocument)"
  "\<not> flagOf 0 paneRegistered"
  "\<not> flagOf 0 paneFirstMove"
  "flagOf 0 paneDragging"
  "flagOf 0 paneSecond"
  "\<not> flagOf 0 paneReleased"
  "\<not> flagOf 0 paneMoved"
  "flagOf 0 paneAgain"
  by (simp_all add: flagOf_def paneAgain_eq draggables_moveBody moveDraggableElement_item
        beginItemDrag_item)

lemma pane_run:
  "run paneActions (newDragDropService paneDocument) =
     [newDragDropService paneDocument, paneRegistered, paneFirstMove, paneDragging, paneSecond,
      paneReleased, paneMoved, paneAgain]"
  unfolding paneActions_def paneAgain_def paneMoved_def paneReleased_def paneSecond_def
    paneDragging_def paneFirstMove_def paneRegistered_def
  by (simp only: run.simps perform.simps)

section \<open>The claims\<close>

subsection \<open>C1: the threshold test\<close>

text \<open>
  C1 as stated: \<open>startThresholdPassed\<close> is true exactly when the displacement from the origin
  mouse-down strictly exceeds the threshold on one axis; a displacement equal to the
  threshold on both axes does not pass. The code compares with \<^verbatim>\<open>>=\<close>: with the origin at
  (50, 50) and a threshold of 10, the pointer at (60, 60) passes although neither axis
  exceeds the threshold.
\<close>

theorem C1_equal_displacement_passes:
  "startThresholdPassed (newDraggableItem \<lparr>clientX = 50, clientY = 50\<rparr> 1 () [] [] 10) 60 60
   \<and> \<not> (\<bar>clientX (mouseDownEvent (newDraggableItem \<lparr>clientX = 50, clientY = 50\<rparr> 1 () [] [] 10)) - 60\<bar>
            > startThreshold (newDraggableItem \<lparr>clientX = 50, clientY = 50\<rparr> 1 () [] [] 10)
          \<or> \<bar>clientY (mouseDownEvent (newDraggableItem \<lparr>clientX = 50, clientY = 50\<rparr> 1 () [] [] 10)) - 60\<bar>
            > startThreshold (newDraggableItem \<lparr>clientX = 50, clientY = 50\<rparr> 1 () [] [] 10))"
  by (simp add: startThresholdPassed_def newDraggableItem_def)

text \<open>
  C1 as amended: \<open>startThresholdPassed\<close> is true exactly when the absolute displacement from
  the origin mouse-down reaches or exceeds the threshold on the horizontal or on the
  vertical axis; and a record that was not dragging before a sampled move and is dragging
  after it had its threshold reached or exceeded, on one axis, by that move's coordinates.
\<close>

theorem C1_threshold_reached:
  "(startThresholdPassed d x y \<longleftrightarrow>
      \<bar>clientX (mouseDownEvent d) - x\<bar> \<ge> startThreshold d
      \<or> \<bar>clientY (mouseDownEvent d) - y\<bar> \<ge> startThreshold d)
   \<and> (j < length (draggables s) \<and> \<not> isDragging (draggables s ! j)
        \<and> isDragging (draggables (stateOf (onViewportMouseMove event s)) ! j) \<longrightarrow>
        \<bar>clientX (mouseDownEvent (draggables s ! j)) - clientX event\<bar> \<ge> startThreshold (draggables s ! j)
        \<or> \<bar>clientY (mouseDownEvent (draggables s ! j)) - clientY event\<bar> \<ge> startThreshold (draggables s ! j))"
proof (intro conjI impI)
  show "startThresholdPassed d x y \<longleftrightarrow>
      \<bar>clientX (mouseDownEvent d) - x\<bar> \<ge> startThreshold d
      \<or> \<bar>clientY (mouseDownEvent d) - y\<bar> \<ge> startThreshold d"
    by (simp add: startThresholdPassed_def)
next
  assume h: "j < length (draggables s) \<and> \<not> isDragging (draggables s ! j)
        \<and> isDragging (draggables (stateOf (onViewportMouseMove event s)) ! j)"
  have "moveRel (clientX event) (clientY event) s (stateOf (onViewportMouseMove event s))"
    by (rule moveRel_onViewportMouseMove)
  with h have "startThresholdPassed (draggables s ! j) (clientX event) (clientY event)"
    unfolding moveRel_def by blast
  then show "\<bar>clientX (mouseDownEvent (draggables s ! j)) - clientX event\<bar> \<ge> startThreshold (draggables s ! j)
        \<or> \<bar>clientY (mouseDownEvent (draggables s ! j)) - clientY event\<bar> \<ge> startThreshold (draggables s ! j)"
    by (simp add: startThresholdPassed_def)
qed

theorem C1_threshold_reached_witness:
  "\<not> isDragging (draggables demoFirstMove ! 0)
   \<and> isDragging (draggables (stateOf (onViewportMouseMove \<lparr>clientX = 70, clientY = 50\<rparr> demoFirstMove)) ! 0)
   \<and> startThresholdPassed (draggables demoFirstMove ! 0) 70 50
   \<and> \<bar>clientX (mouseDownEvent (draggables demoFirstMove ! 0)) - 70\<bar> \<ge> startThreshold (draggables demoFirstMove ! 0)"
proof -
  have before: "\<not> isDragging (draggables demoFirstMove ! 0)"
    by simp
  have after: "isDragging (draggables (stateOf (onViewportMouseMove \<lparr>clientX = 70, clientY = 50\<rparr> demoFirstMove)) ! 0)"
    by (simp add: demoDragging_def [symmetric])
  show ?thesis
    using before after
      C1_threshold_reached [of "draggables demoFirstMove ! 0" 70 50 0 demoFirstMove "\<lparr>clientX = 70, clientY = 50\<rparr>"]
    by (simp add: startThresholdPassed_def)
qed

subsection \<open>C2: the ghost follows the pointer\<close>

text \<open>
  C2 says that for a record whose drag is active the ghost is at the pointer minus the grab
  offset after every processed move. In the worked scenario (origin (50, 50), threshold 10,
  source element at (40, 40), so a grab offset of (10, 10)) the drag begins with the move to
  (70, 50), which puts the ghost at (60, 40). The next move, to (55, 50), is inside the
  viewport and has a non-zero displacement (15, 0), so it is processed; the record is still
  dragging and its grab offset is still (10, 10), but the ghost stays at (60, 40) instead of
  going to (45, 40): the loop moves a record only when the start threshold is passed at the
  current coordinates, and (55, 50) is within 10 pixels of the origin.
\<close>

theorem C2_ghost_frozen_near_origin:
  "demoBack = stateOf (onViewportMouseMove \<lparr>clientX = 55, clientY = 50\<rparr> demoDragging)
   \<and> returned (onViewportMouseMove \<lparr>clientX = 55, clientY = 50\<rparr> demoDragging)
   \<and> lastMousePos demoBack = (Some 55, Some 50)
   \<and> lastDisplacement demoBack = (Some 15, Some 0)
   \<and> map isDragging (draggables demoBack) = [True]
   \<and> map grabPoint (draggables demoBack) = [Some (10, 10)]
   \<and> map dragEl (draggables demoBack) = [Some 4]
   \<and> map pos (draggables demoBack) = [Some (60, 40)]
   \<and> style (nodes (dom demoBack) 4) ''left'' = Px 60
   \<and> style (nodes (dom demoBack) 4) ''top'' = Px 40
   \<and> (55 - 10, 50 - 10) \<noteq> (60 :: real, 40 :: real)"
proof (intro conjI)
  show "demoBack = stateOf (onViewportMouseMove \<lparr>clientX = 55, clientY = 50\<rparr> demoDragging)"
    by (rule demoBack_def)
  show "returned (onViewportMouseMove \<lparr>clientX = 55, clientY = 50\<rparr> demoDragging)"
    by (simp add: demoBack_returned)
qed (simp_all add: demoBack_eq)

subsection \<open>C3: ending a drag that is not active\<close>

text \<open>
  C3: \<open>endItemDrag\<close> on a record that is not dragging returns the record and the service
  unchanged (no broadcast). Ending an active record's drag twice in a row emits exactly one
  ``dropping'' broadcast, the second call changing nothing. After a deactivation that ran to
  completion (through any route), the handler of any route, fired again, leaves the log of
  broadcasts as it was.
\<close>

theorem C3_end_drag_idempotent:
  "(\<not> isDragging d \<longrightarrow> endItemDrag d c s = (d, s))
   \<and> (isDragging d \<longrightarrow>
         endItemDrag (fst (endItemDrag d c s)) c' (snd (endItemDrag d c s)) = endItemDrag d c s
         \<and> emitted (snd (endItemDrag (fst (endItemDrag d c s)) c' (snd (endItemDrag d c s))))
             = emitted s @ [Dropping (d\<lparr>isDragging := False, cancelled := c\<rparr>)])
   \<and> (returned (deactivate c s) \<longrightarrow>
         emitted (stateOf (onRoute r (stateOf (deactivate c s)))) = emitted (stateOf (deactivate c s)))
   \<and> (returned (onRoute r' s) \<longrightarrow>
         emitted (stateOf (onRoute r (stateOf (onRoute r' s)))) = emitted (stateOf (onRoute r' s)))"
proof -
  have again: "emitted (stateOf (onRoute r t)) = emitted t" if "draggables t = []"
    for t :: "'a DragDropService"
    using that by (cases r) (simp_all add: onVieportMouseUp_def emitted_deactivate_empty)
  have first: "returned (deactivate c s) \<longrightarrow>
         emitted (stateOf (onRoute r (stateOf (deactivate c s)))) = emitted (stateOf (deactivate c s))"
    by (simp add: again draggables_deactivate_returned)
  have "returned (onRoute r' s) \<longrightarrow> draggables (stateOf (onRoute r' s)) = []"
    by (cases r') (simp_all add: onVieportMouseUp_def draggables_deactivate_returned)
  then have second: "returned (onRoute r' s) \<longrightarrow>
         emitted (stateOf (onRoute r (stateOf (onRoute r' s)))) = emitted (stateOf (onRoute r' s))"
    by (simp add: again)
  show ?thesis
    using first second by (simp add: endItemDrag_def Let_def)
qed

theorem C3_end_drag_idempotent_witness:
  "isDragging (draggables demoDragging ! 0)
   \<and> returned (onRoute ViewportMouseUp demoDragging)
   \<and> emitted (stateOf (onRoute ViewportMouseUp demoDragging))
       = emitted demoDragging @ [Dropping ((draggables demoDragging ! 0)\<lparr>isDragging := False, cancelled := None\<rparr>)]
   \<and> emitted (stateOf (onRoute ViewportMouseDown (stateOf (onRoute ViewportMouseUp demoDragging))))
       = emitted (stateOf (onRoute ViewportMouseUp demoDragging))
   \<and> endItemDrag (draggables demoFirstMove ! 0) (Some True) demoFirstMove = (draggables demoFirstMove ! 0, demoFirstMove)
   \<and> emitted (snd (endItemDrag (fst (endItemDrag (draggables demoDragging ! 0) None demoDragging)) (Some True)
                       (snd (endItemDrag (draggables demoDragging ! 0) None demoDragging))))
       = emitted demoDragging @ [Dropping ((draggables demoDragging ! 0)\<lparr>isDragging := False, cancelled := None\<rparr>)]"
proof -
  have active: "isDragging (draggables demoDragging ! 0)" by simp
  have idle: "\<not> isDragging (draggables demoFirstMove ! 0)" by simp
  have fin: "returned (onRoute ViewportMouseUp demoDragging)"
    by (simp add: onVieportMouseUp_def)
  have log: "emitted (stateOf (onRoute ViewportMouseUp demoDragging))
       = emitted demoDragging @ [Dropping ((draggables demoDragging ! 0)\<lparr>isDragging := False, cancelled := None\<rparr>)]"
    using deactivate_log(3) [of None demoDragging] by (simp add: onVieportMouseUp_def)
  note dragging = C3_end_drag_idempotent [where d = "draggables demoDragging ! 0" and c = None
      and s = demoDragging and c' = "Some True" and r = ViewportMouseDown and r' = ViewportMouseUp]
  note waiting = C3_end_drag_idempotent [where d = "draggables demoFirstMove ! 0" and c = "Some True"
      and s = demoFirstMove and c' = "Some True" and r = ViewportMouseDown and r' = ViewportMouseUp]
  have noop: "endItemDrag (draggables demoFirstMove ! 0) (Some True) demoFirstMove
      = (draggables demoFirstMove ! 0, demoFirstMove)"
    using waiting idle by blast
  have twice: "emitted (snd (endItemDrag (fst (endItemDrag (draggables demoDragging ! 0) None demoDragging)) (Some True)
                       (snd (endItemDrag (draggables demoDragging ! 0) None demoDragging))))
       = emitted demoDragging @ [Dropping ((draggables demoDragging ! 0)\<lparr>isDragging := False, cancelled := None\<rparr>)]"
    using dragging active by blast
  have later: "emitted (stateOf (onRoute ViewportMouseDown (stateOf (onRoute ViewportMouseUp demoDragging))))
       = emitted (stateOf (onRoute ViewportMouseUp demoDragging))"
    using dragging fin by blast
  show ?thesis
    using active fin log noop twice later by (intro conjI)
qed

subsection \<open>C4: the cancelled flag on the ``dropping'' broadcast\<close>

text \<open>
  C4: when one of the four abort routes fires (a mouse-down on the viewport, a mouse-up on
  the window, a key-down, a window blur), the log of broadcasts only grows and every
  broadcast it adds is a ``dropping'' whose record has \<open>cancelled = true\<close>. With the two
  saved subscriptions in place (they are, once a registration has activated the engine) and
  the first record dragging, the first broadcast added is that record's ``dropping'',
  whatever happens afterwards. In a tidy state the handler returns, and when it returns
  there is one ``dropping'' for each dragging record, in order. When the viewport's
  mouse-up fires the same holds with \<open>cancelled\<close> undefined, which is falsy.
\<close>

theorem C4_cancelled_by_route:
  "(r \<noteq> ViewportMouseUp \<longrightarrow>
      take (length (emitted s)) (emitted (stateOf (onRoute r s))) = emitted s
      \<and> (\<forall>b \<in> set (drop (length (emitted s)) (emitted (stateOf (onRoute r s)))).
            \<exists>d. b = Dropping d \<and> cancelled d = Some True)
      \<and> (viewportMouseMoveSubscription s \<noteq> None \<and> viewportResizeSubscription s \<noteq> None
            \<and> draggables s \<noteq> [] \<and> isDragging (hd (draggables s)) \<longrightarrow>
            length (emitted s) < length (emitted (stateOf (onRoute r s)))
            \<and> emitted (stateOf (onRoute r s)) ! length (emitted s) =
                Dropping ((hd (draggables s))\<lparr>isDragging := False, cancelled := Some True\<rparr>))
      \<and> (tidy s \<longrightarrow> returned (onRoute r s))
      \<and> (returned (onRoute r s) \<longrightarrow>
            emitted (stateOf (onRoute r s)) =
              emitted s @ map (\<lambda>d. Dropping (d\<lparr>isDragging := False, cancelled := Some True\<rparr>))
                             (filter isDragging (draggables s))))
   \<and> take (length (emitted s)) (emitted (stateOf (onRoute ViewportMouseUp s))) = emitted s
   \<and> (\<forall>b \<in> set (drop (length (emitted s)) (emitted (stateOf (onRoute ViewportMouseUp s)))).
         \<exists>d. b = Dropping d \<and> cancelled d = None \<and> falsy (cancelled d))
   \<and> (viewportMouseMoveSubscription s \<noteq> None \<and> viewportResizeSubscription s \<noteq> None
         \<and> draggables s \<noteq> [] \<and> isDragging (hd (draggables s)) \<longrightarrow>
         length (emitted s) < length (emitted (stateOf (onRoute ViewportMouseUp s)))
         \<and> emitted (stateOf (onRoute ViewportMouseUp s)) ! length (emitted s) =
             Dropping ((hd (draggables s))\<lparr>isDragging := False, cancelled := None\<rparr>))
   \<and> (tidy s \<longrightarrow> returned (onRoute ViewportMouseUp s))
   \<and> (returned (onRoute ViewportMouseUp s) \<longrightarrow>
         emitted (stateOf (onRoute ViewportMouseUp s)) =
           emitted s @ map (\<lambda>d. Dropping (d\<lparr>isDragging := False, cancelled := None\<rparr>))
                          (filter isDragging (draggables s)))"
proof -
  have new: "\<forall>b \<in> set (drop (length (emitted s)) (emitted (stateOf (deactivate c s)))).
               \<exists>d. b = Dropping d \<and> cancelled d = c" for c
    using deactivate_log(2) [of _ s c] by blast
  have first: "length (emitted s) < length (emitted (stateOf (deactivate c s)))
      \<and> emitted (stateOf (deactivate c s)) ! length (emitted s) =
          Dropping ((hd (draggables s))\<lparr>isDragging := False, cancelled := c\<rparr>)"
    if h: "viewportMouseMoveSubscription s \<noteq> None \<and> viewportResizeSubscription s \<noteq> None
            \<and> draggables s \<noteq> [] \<and> isDragging (hd (draggables s))" for c
  proof -
    from h obtain d ds where ds: "draggables s = d # ds" by (cases "draggables s") simp_all
    with h have d: "isDragging d" by simp
    from h have m: "viewportMouseMoveSubscription s \<noteq> None"
      and r: "viewportResizeSubscription s \<noteq> None" by simp_all
    show ?thesis
      using deactivate_first [OF m r ds d, of c] ds by simp
  qed
  have every: "take (length (emitted s)) (emitted (stateOf (deactivate c s))) = emitted s
      \<and> (\<forall>b \<in> set (drop (length (emitted s)) (emitted (stateOf (deactivate c s)))).
            \<exists>d. b = Dropping d \<and> cancelled d = c)
      \<and> (viewportMouseMoveSubscription s \<noteq> None \<and> viewportResizeSubscription s \<noteq> None
            \<and> draggables s \<noteq> [] \<and> isDragging (hd (draggables s)) \<longrightarrow>
            length (emitted s) < length (emitted (stateOf (deactivate c s)))
            \<and> emitted (stateOf (deactivate c s)) ! length (emitted s) =
                Dropping ((hd (draggables s))\<lparr>isDragging := False, cancelled := c\<rparr>))
      \<and> (tidy s \<longrightarrow> returned (deactivate c s))
      \<and> (returned (deactivate c s) \<longrightarrow>
            emitted (stateOf (deactivate c s)) =
              emitted s @ map (\<lambda>d. Dropping (d\<lparr>isDragging := False, cancelled := c\<rparr>))
                             (filter isDragging (draggables s)))" for c
    using new [of c] first [of c] deactivate_log(1) [of s c] deactivate_log(3) [of c s]
      tidy_deactivate [of s c]
    by blast
  have normal: "onRoute ViewportMouseUp s = deactivate None s"
    by (simp add: onVieportMouseUp_def)
  have released:
    "take (length (emitted s)) (emitted (stateOf (onRoute ViewportMouseUp s))) = emitted s
     \<and> (\<forall>b \<in> set (drop (length (emitted s)) (emitted (stateOf (onRoute ViewportMouseUp s)))).
         \<exists>d. b = Dropping d \<and> cancelled d = None \<and> falsy (cancelled d))
     \<and> (viewportMouseMoveSubscription s \<noteq> None \<and> viewportResizeSubscription s \<noteq> None
         \<and> draggables s \<noteq> [] \<and> isDragging (hd (draggables s)) \<longrightarrow>
         length (emitted s) < length (emitted (stateOf (onRoute ViewportMouseUp s)))
         \<and> emitted (stateOf (onRoute ViewportMouseUp s)) ! length (emitted s) =
             Dropping ((hd (draggables s))\<lparr>isDragging := False, cancelled := None\<rparr>))
     \<and> (tidy s \<longrightarrow> returned (onRoute ViewportMouseUp s))
     \<and> (returned (onRoute ViewportMouseUp s) \<longrightarrow>
         emitted (stateOf (onRoute ViewportMouseUp s)) =
           emitted s @ map (\<lambda>d. Dropping (d\<lparr>isDragging := False, cancelled := None\<rparr>))
                          (filter isDragging (draggables s)))"
    unfolding normal using every [of None] by fastforce
  have aborted:
    "take (length (emitted s)) (emitted (stateOf (onRoute r s))) = emitted s
      \<and> (\<forall>b \<in> set (drop (length (emitted s)) (emitted (stateOf (onRoute r s)))).
            \<exists>d. b = Dropping d \<and> cancelled d = Some True)
      \<and> (viewportMouseMoveSubscription s \<noteq> None \<and> viewportResizeSubscription s \<noteq> None
            \<and> draggables s \<noteq> [] \<and> isDragging (hd (draggables s)) \<longrightarrow>
            length (emitted s) < length (emitted (stateOf (onRoute r s)))
            \<and> emitted (stateOf (onRoute r s)) ! length (emitted s) =
                Dropping ((hd (draggables s))\<lparr>isDragging := False, cancelled := Some True\<rparr>))
      \<and> (tidy s \<longrightarrow> returned (onRoute r s))
      \<and> (returned (onRoute r s) \<longrightarrow>
            emitted (stateOf (onRoute r s)) =
              emitted s @ map (\<lambda>d. Dropping (d\<lparr>isDragging := False, cancelled := Some True\<rparr>))
                             (filter isDragging (draggables s)))"
    if "r \<noteq> ViewportMouseUp"
  proof -
    have eq: "onRoute r s = deactivate (Some True) s"
      using that by (cases r) simp_all
    show ?thesis
      unfolding eq by (rule every)
  qed
  show ?thesis
    using released aborted by blast
qed

theorem C4_cancelled_by_route_witness:
  "tidy demoDragging
   \<and> draggables demoDragging \<noteq> [] \<and> isDragging (hd (draggables demoDragging))
   \<and> returned (onRoute ViewportMouseDown demoDragging)
   \<and> emitted (stateOf (onRoute ViewportMouseDown demoDragging)) =
       emitted demoDragging @ [Dropping ((draggables demoDragging ! 0)\<lparr>isDragging := False, cancelled := Some True\<rparr>)]
   \<and> returned (onRoute WindowMouseUp demoDragging)
   \<and> emitted (stateOf (onRoute WindowMouseUp demoDragging)) =
       emitted demoDragging @ [Dropping ((draggables demoDragging ! 0)\<lparr>isDragging := False, cancelled := Some True\<rparr>)]
   \<and> returned (onRoute WindowKeyDown demoDragging)
   \<and> emitted (stateOf (onRoute WindowKeyDown demoDragging)) =
       emitted demoDragging @ [Dropping ((draggables demoDragging ! 0)\<lparr>isDragging := False, cancelled := Some True\<rparr>)]
   \<and> returned (onRoute WindowBlur demoDragging)
   \<and> emitted (stateOf (onRoute WindowBlur demoDragging)) =
       emitted demoDragging @ [Dropping ((draggables demoDragging ! 0)\<lparr>isDragging := False, cancelled := Some True\<rparr>)]
   \<and> returned (onRoute ViewportMouseUp demoDragging)
   \<and> emitted (stateOf (onRoute ViewportMouseUp demoDragging)) =
       emitted demoDragging @ [Dropping ((draggables demoDragging ! 0)\<lparr>isDragging := False, cancelled := None\<rparr>)]
   \<and> emitted (stateOf (onRoute WindowBlur demoDragging)) ! length (emitted demoDragging) =
       Dropping ((hd (draggables demoDragging))\<lparr>isDragging := False, cancelled := Some True\<rparr>)"
proof -
  note down = C4_cancelled_by_route [where r = ViewportMouseDown and s = demoDragging]
  note up = C4_cancelled_by_route [where r = WindowMouseUp and s = demoDragging]
  note key = C4_cancelled_by_route [where r = WindowKeyDown and s = demoDragging]
  note blur = C4_cancelled_by_route [where r = WindowBlur and s = demoDragging]
  have t: "tidy demoDragging" by simp
  have ne: "draggables demoDragging \<noteq> []" and hd: "isDragging (hd (draggables demoDragging))"
    by simp_all
  have subs: "viewportMouseMoveSubscription demoDragging \<noteq> None"
    "viewportResizeSubscription demoDragging \<noteq> None" by simp_all
  have one: "map (\<lambda>d. Dropping (d\<lparr>isDragging := False, cancelled := c\<rparr>)) (filter isDragging (draggables demoDragging))
      = [Dropping ((draggables demoDragging ! 0)\<lparr>isDragging := False, cancelled := c\<rparr>)]" for c
    by simp
  have r1: "returned (onRoute ViewportMouseDown demoDragging)" using down t by blast
  have r2: "returned (onRoute WindowMouseUp demoDragging)" using up t by blast
  have r3: "returned (onRoute WindowKeyDown demoDragging)" using key t by blast
  have r4: "returned (onRoute WindowBlur demoDragging)" using blur t by blast
  have r5: "returned (onRoute ViewportMouseUp demoDragging)" using key t by blast
  have e1: "emitted (stateOf (onRoute ViewportMouseDown demoDragging)) =
       emitted demoDragging @ [Dropping ((draggables demoDragging ! 0)\<lparr>isDragging := False, cancelled := Some True\<rparr>)]"
    using down r1 unfolding one by blast
  have e2: "emitted (stateOf (onRoute WindowMouseUp demoDragging)) =
       emitted demoDragging @ [Dropping ((draggables demoDragging ! 0)\<lparr>isDragging := False, cancelled := Some True\<rparr>)]"
    using up r2 unfolding one by blast
  have e3: "emitted (stateOf (onRoute WindowKeyDown demoDragging)) =
       emitted demoDragging @ [Dropping ((draggables demoDragging ! 0)\<lparr>isDragging := False, cancelled := Some True\<rparr>)]"
    using key r3 unfolding one by blast
  have e4: "emitted (stateOf (onRoute WindowBlur demoDragging)) =
       emitted demoDragging @ [Dropping ((draggables demoDragging ! 0)\<lparr>isDragging := False, cancelled := Some True\<rparr>)]"
    using blur r4 unfolding one by blast
  have e5: "emitted (stateOf (onRoute ViewportMouseUp demoDragging)) =
       emitted demoDragging @ [Dropping ((draggables demoDragging ! 0)\<lparr>isDragging := False, cancelled := None\<rparr>)]"
    using key r5 unfolding one by blast
  have f: "emitted (stateOf (onRoute WindowBlur demoDragging)) ! length (emitted demoDragging) =
       Dropping ((hd (draggables demoDragging))\<lparr>isDragging := False, cancelled := Some True\<rparr>)"
    using blur subs ne hd by blast
  show ?thesis
    using t ne hd r1 e1 r2 e2 r3 e3 r4 e4 r5 e5 f by (intro conjI)
qed

subsection \<open>C5: what a deactivation leaves behind\<close>

text \<open>
  C5 says that after every deactivation no ghost remains attached, the collection is empty
  and the viewport's cursor style is back at its value from before the drag. With one
  tracked record this is what happens. With two records tracked at once (two registrations
  before the release: origins (50, 50) and (110, 50), thresholds 10) a move to (130, 50)
  begins both drags in one pass of the loop; each \<open>beginItemDrag\<close> saves the viewport's
  current cursor, so the second one saves the \<^verbatim>\<open>-webkit-grabbing\<close> that the first one set.
  The release that follows returns, removes both ghosts and empties the collection, and
  sets the cursor to that saved value: it was unset before the drags and is
  \<^verbatim>\<open>-webkit-grabbing\<close> afterwards.
\<close>

theorem C5_cursor_left_grabbing:
  "demoTwoDragging = stateOf (onViewportMouseMove \<lparr>clientX = 130, clientY = 50\<rparr> demoTwoFirstMove)
   \<and> map isDragging (draggables demoTwoFirstMove) = [False, False]
   \<and> style (nodes (dom demoTwoFirstMove) (viewportElement demoTwoFirstMove)) ''cursor'' = Unset
   \<and> map isDragging (draggables demoTwoDragging) = [True, True]
   \<and> children (nodes (dom demoTwoDragging) (viewportElement demoTwoDragging)) = [4, 6]
   \<and> returned (deactivate None demoTwoDragging)
   \<and> draggables (stateOf (deactivate None demoTwoDragging)) = []
   \<and> viewportElement (stateOf (deactivate None demoTwoDragging)) = viewportElement demoTwoFirstMove
   \<and> children (nodes (dom (stateOf (deactivate None demoTwoDragging))) (viewportElement demoTwoFirstMove)) = []
   \<and> style (nodes (dom (stateOf (deactivate None demoTwoDragging))) (viewportElement demoTwoFirstMove)) ''cursor''
       = Keyword ''-webkit-grabbing''"
proof (intro conjI)
  show "demoTwoDragging = stateOf (onViewportMouseMove \<lparr>clientX = 130, clientY = 50\<rparr> demoTwoFirstMove)"
    by (rule demoTwoDragging_def)
qed (simp_all add: demoTwoDragging_released dom_setCursor children_stopBody newDraggableItem_def)

subsection \<open>C6: moves outside the viewport\<close>

text \<open>
  C6: \<open>isMouseOutsideViewport\<close> is true exactly when a coordinate lies strictly outside the
  cached viewport rectangle on some side; a sampled move whose coordinates are outside
  returns at once: the records, the broadcasts, the document, the last mouse position and
  displacement and the saved cursor are what they were (only the scroll timers are
  re-evaluated).
\<close>

theorem C6_outside_viewport_ignored:
  "(isMouseOutsideViewport s mouseX mouseY \<longleftrightarrow>
      mouseX < rectLeft (viewportRect s) \<or> mouseX > rectRight (viewportRect s)
      \<or> mouseY < rectTop (viewportRect s) \<or> mouseY > rectBottom (viewportRect s))
   \<and> (isMouseOutsideViewport s (clientX event) (clientY event) \<longrightarrow>
        onViewportMouseMove event s = Returned (scrollViewportAsNeeded (clientX event) (clientY event) s)
        \<and> draggables (stateOf (onViewportMouseMove event s)) = draggables s
        \<and> emitted (stateOf (onViewportMouseMove event s)) = emitted s
        \<and> dom (stateOf (onViewportMouseMove event s)) = dom s
        \<and> lastMousePos (stateOf (onViewportMouseMove event s)) = lastMousePos s
        \<and> lastDisplacement (stateOf (onViewportMouseMove event s)) = lastDisplacement s
        \<and> viewportCursor (stateOf (onViewportMouseMove event s)) = viewportCursor s)"
  by (simp add: onViewportMouseMove_outside) (simp add: isMouseOutsideViewport_def)

theorem C6_outside_viewport_ignored_witness:
  "isMouseOutsideViewport demoDragging 400 50
   \<and> draggables (stateOf (onViewportMouseMove \<lparr>clientX = 400, clientY = 50\<rparr> demoDragging)) = draggables demoDragging
   \<and> dom (stateOf (onViewportMouseMove \<lparr>clientX = 400, clientY = 50\<rparr> demoDragging)) = dom demoDragging
   \<and> emitted (stateOf (onViewportMouseMove \<lparr>clientX = 400, clientY = 50\<rparr> demoDragging)) = emitted demoDragging"
proof -
  have outside: "isMouseOutsideViewport demoDragging 400 50"
    by (simp add: isMouseOutsideViewport_def)
  show ?thesis
    using outside
      C6_outside_viewport_ignored [of demoDragging 400 50 "\<lparr>clientX = 400, clientY = 50\<rparr>"]
    by simp
qed

subsection \<open>C7: scroll timers\<close>

text \<open>
  C7 says that a scroll timer is started only when the pointer is at or beyond an edge and
  there is room to scroll in that direction. The near-edge branches test the room
  (\<^verbatim>\<open>scrollLeft > 0\<close>, \<^verbatim>\<open>scrollTop > 0\<close>), the far-edge branches do not: in the worked scenario
  the viewport is 300 wide and cannot scroll (its offset is at its maximum, 0), and with the
  pointer at x = 299 a timer that increments \<^verbatim>\<open>scrollLeft\<close> is started all the same; its
  ticks change nothing.
\<close>

theorem C7_far_edge_timer_without_room:
  "scrollLeft (nodes (dom demoRegistered) (viewportElement demoRegistered))
     = scrollLeftMax (nodes (dom demoRegistered) (viewportElement demoRegistered))
   \<and> intervals demoRegistered = []
   \<and> intervals (scrollViewportAsNeeded 299 150 demoRegistered) = [(0, ScrollLeftInc)]
   \<and> scrollXInterval (scrollViewportAsNeeded 299 150 demoRegistered) = Some 0
   \<and> scrollYInterval (scrollViewportAsNeeded 299 150 demoRegistered) = None
   \<and> scrollLeft (nodes (dom (tick 0 (scrollViewportAsNeeded 299 150 demoRegistered))) 0) = 0"
  by (simp add: scrollViewportAsNeeded_def clearScrollIntervals_def clearInterval_def setInterval_def
        tick_def scrollBy_def Let_def)

subsection \<open>C8: registration, and is-dragging raised at most once\<close>

text \<open>
  C8 as stated: every call of \<open>registerDraggable\<close> appends exactly one record, and for as long
  as that registration lasts the record's is-dragging flag goes from false to true at most
  once. Neither holds of every call and every course of events. A call whose container
  selector is the empty string raises in the selector lookup, before anything is appended.
  And in the second document: the first draggable is registered in the body and dragged
  (its flag is raised); a second draggable is registered with the pane as its container
  while the first drag is on, which makes the pane the viewport element; the release then
  ends the first record's drag (its flag is lowered) and raises when it goes on to remove
  the first ghost from the pane, of which it is not a child, so the collection is not
  emptied; the next move but one is beyond the first record's threshold and raises its flag
  again. The collection has not been empty in between: it is the same registration.
\<close>

theorem C8_flag_raised_twice:
  "\<not> returned (registerDraggable \<lparr>clientX = 50, clientY = 50\<rparr> 1 () (Some []) [] [] 10
                  (newDragDropService demoDocument))
   \<and> draggables (stateOf (registerDraggable \<lparr>clientX = 50, clientY = 50\<rparr> 1 () (Some []) [] [] 10
                  (newDragDropService demoDocument))) = []
   \<and> map (\<lambda>t. length (draggables t)) (run paneActions (newDragDropService paneDocument))
        = [0, 1, 1, 1, 2, 2, 2, 2]
   \<and> map (flagOf 0) (run paneActions (newDragDropService paneDocument))
        = [False, False, False, True, True, False, False, True]
   \<and> raises (map (flagOf 0) (run paneActions (newDragDropService paneDocument))) = 2"
proof -
  have "\<not> returned (registerDraggable \<lparr>clientX = 50, clientY = 50\<rparr> 1 () (Some []) [] [] 10
                  (newDragDropService demoDocument))"
    by (simp add: registerDraggable_stateOf)
  moreover have "draggables (stateOf (registerDraggable \<lparr>clientX = 50, clientY = 50\<rparr> 1 () (Some []) [] [] 10
                  (newDragDropService demoDocument))) = []"
    by (simp add: registerDraggable_stateOf)
  moreover have "map (\<lambda>t. length (draggables t)) (run paneActions (newDragDropService paneDocument))
        = [0, 1, 1, 1, 2, 2, 2, 2]"
    unfolding pane_run by (simp add: paneAgain_eq draggables_moveBody)
  moreover have flags: "map (flagOf 0) (run paneActions (newDragDropService paneDocument))
        = [False, False, False, True, True, False, False, True]"
    unfolding pane_run by (simp add: pane_flags)
  moreover have "raises (map (flagOf 0) (run paneActions (newDragDropService paneDocument))) = 2"
    unfolding flags by simp
  ultimately show ?thesis by (intro conjI)
qed

text \<open>
  C8 as amended: a call of \<open>registerDraggable\<close> that returns has appended exactly one record,
  carrying the origin event, the element, the payload, the two class strings and the
  threshold it was given, with is-dragging and cancelled both false; the call returns when
  the container selector is absent or a string the browser's selector parser accepts, and
  otherwise it raises and changes nothing. \<open>beginItemDrag\<close> on a record that is already
  dragging changes nothing and broadcasts nothing; on a record that is not, when it
  returns (it does when both class strings are made of valid tokens), it has raised
  is-dragging and broadcast ``dragging'' once. Over any sequence of actions in which no
  deactivation is attempted before the last action, the flag of the record at any index
  goes from false to true at most once; and a deactivation that returns leaves the
  collection empty, which ends the registration.
\<close>

theorem C8_registered_once_raised_once:
  "(returned (registerDraggable event e payload sel draggingCls draggedCls th s) \<longrightarrow>
      draggables (stateOf (registerDraggable event e payload sel draggingCls draggedCls th s)) =
        draggables s @
          [\<lparr>itemId = None, el = e, dragEl = None, data = payload, draggedClass = draggedCls,
            draggingClass = draggingCls, mouseDownEvent = event, pos = None, grabPoint = None,
            startThreshold = th, isDragging = False, cancelled = Some False\<rparr>])
   \<and> (\<not> returned (registerDraggable event e payload sel draggingCls draggedCls th s) \<longrightarrow>
         stateOf (registerDraggable event e payload sel draggingCls draggedCls th s) = s)
   \<and> returned (registerDraggable event e payload None draggingCls draggedCls th s)
   \<and> (q \<noteq> [] \<and> parses (dom s) q \<longrightarrow>
         returned (registerDraggable event e payload (Some q) draggingCls draggedCls th s))
   \<and> (isDragging d \<longrightarrow> beginItemDrag d s = Returned (d, s))
   \<and> (\<not> isDragging d \<and> returned (beginItemDrag d s) \<longrightarrow>
         isDragging (fst (stateOf (beginItemDrag d s)))
         \<and> emitted (snd (stateOf (beginItemDrag d s))) =
             emitted s @ [Dragging (fst (stateOf (beginItemDrag d s)))])
   \<and> (\<not> isDragging d \<and> validClasses (draggingClass d) \<and> validClasses (draggedClass d) \<longrightarrow>
         returned (beginItemDrag d s))
   \<and> (lifetime as \<longrightarrow> raises (map (flagOf k) (run as s)) \<le> 1)
   \<and> (returned (onRoute r s) \<longrightarrow> draggables (stateOf (onRoute r s)) = [])"
proof -
  have reg: "returned (registerDraggable event e payload sel draggingCls draggedCls th s) \<longrightarrow>
      draggables (stateOf (registerDraggable event e payload sel draggingCls draggedCls th s)) =
        draggables s @
          [\<lparr>itemId = None, el = e, dragEl = None, data = payload, draggedClass = draggedCls,
            draggingClass = draggingCls, mouseDownEvent = event, pos = None, grabPoint = None,
            startThreshold = th, isDragging = False, cancelled = Some False\<rparr>]"
    by (simp add: registerDraggable_frame(1) newDraggableItem_def)
  have refused: "\<not> returned (registerDraggable event e payload sel draggingCls draggedCls th s) \<longrightarrow>
         stateOf (registerDraggable event e payload sel draggingCls draggedCls th s) = s"
    by (simp add: registerDraggable_Threw)
  have accepted: "q \<noteq> [] \<and> parses (dom s) q \<longrightarrow>
         returned (registerDraggable event e payload (Some q) draggingCls draggedCls th s)"
    by (simp add: registerDraggable_stateOf returned_setViewportElement querySelector_def)
  have once: "\<not> isDragging d \<and> returned (beginItemDrag d s) \<longrightarrow>
         isDragging (fst (stateOf (beginItemDrag d s)))
         \<and> emitted (snd (stateOf (beginItemDrag d s))) =
             emitted s @ [Dragging (fst (stateOf (beginItemDrag d s)))]"
    by (simp add: returned_beginItemDrag beginItemDrag_item emitted_beginItemDrag)
  have begins: "\<not> isDragging d \<and> validClasses (draggingClass d) \<and> validClasses (draggedClass d) \<longrightarrow>
         returned (beginItemDrag d s)"
    by (simp add: returned_beginItemDrag)
  have life: "lifetime as \<longrightarrow> raises (map (flagOf k) (run as s)) \<le> 1"
    using lifetime_raises by blast
  have gone: "returned (onRoute r s) \<longrightarrow> draggables (stateOf (onRoute r s)) = []"
    by (cases r) (simp_all add: onVieportMouseUp_def draggables_deactivate_returned)
  show ?thesis
    using reg refused accepted once begins life gone
    by (simp add: beginItemDrag_dragging)
qed

theorem C8_registered_once_raised_once_witness:
  "draggables demoRegistered =
     [\<lparr>itemId = None, el = 1, dragEl = None, data = (), draggedClass = [],
       draggingClass = [], mouseDownEvent = \<lparr>clientX = 50, clientY = 50\<rparr>, pos = None, grabPoint = None,
       startThreshold = 10, isDragging = False, cancelled = Some False\<rparr>]
   \<and> parses paneDocument ''#pane''
   \<and> returned (registerDraggable \<lparr>clientX = 110, clientY = 50\<rparr> 2 () (Some ''#pane'') [] [] 10
                 (newDragDropService paneDocument))
   \<and> isDragging (draggables demoDragging ! 0)
   \<and> beginItemDrag (draggables demoDragging ! 0) demoDragging = Returned (draggables demoDragging ! 0, demoDragging)
   \<and> \<not> isDragging (draggables demoFirstMove ! 0)
   \<and> returned (beginItemDrag (draggables demoFirstMove ! 0) demoFirstMove)
   \<and> isDragging (fst (stateOf (beginItemDrag (draggables demoFirstMove ! 0) demoFirstMove)))
   \<and> lifetime ([Move \<lparr>clientX = 52, clientY = 50\<rparr>, Move \<lparr>clientX = 70, clientY = 50\<rparr>,
                 Move \<lparr>clientX = 55, clientY = 50\<rparr>, Fire WindowKeyDown] :: unit action list)
   \<and> map (flagOf 0) (run [Move \<lparr>clientX = 52, clientY = 50\<rparr>, Move \<lparr>clientX = 70, clientY = 50\<rparr>,
                           Move \<lparr>clientX = 55, clientY = 50\<rparr>, Fire WindowKeyDown] demoRegistered)
        = [False, False, True, True, False]
   \<and> raises (map (flagOf 0) (run [Move \<lparr>clientX = 52, clientY = 50\<rparr>, Move \<lparr>clientX = 70, clientY = 50\<rparr>,
                           Move \<lparr>clientX = 55, clientY = 50\<rparr>, Fire WindowKeyDown] demoRegistered)) \<le> 1
   \<and> returned (onRoute WindowKeyDown demoBack)
   \<and> draggables (stateOf (onRoute WindowKeyDown demoBack)) = []"
proof -
  let ?acts = "[Move \<lparr>clientX = 52, clientY = 50\<rparr>, Move \<lparr>clientX = 70, clientY = 50\<rparr>,
                Move \<lparr>clientX = 55, clientY = 50\<rparr>, Fire WindowKeyDown] :: unit action list"
  note first = C8_registered_once_raised_once [where event = "\<lparr>clientX = 50, clientY = 50\<rparr>" and e = 1
      and payload = "()" and sel = None and draggingCls = "[]" and draggedCls = "[]" and th = 10
      and s = "newDragDropService demoDocument"]
  note pane = C8_registered_once_raised_once [where event = "\<lparr>clientX = 110, clientY = 50\<rparr>" and e = 2
      and payload = "()" and q = "''#pane''" and draggingCls = "[]" and draggedCls = "[]" and th = 10
      and s = "newDragDropService paneDocument"]
  note active = C8_registered_once_raised_once [where d = "draggables demoDragging ! 0" and s = demoDragging]
  note idle = C8_registered_once_raised_once [where d = "draggables demoFirstMove ! 0" and s = demoFirstMove]
  note life = C8_registered_once_raised_once [where as = ?acts and k = 0 and s = demoRegistered]
  note fire = C8_registered_once_raised_once [where r = WindowKeyDown and s = demoBack]
  have reg: "returned (registerDraggable \<lparr>clientX = 50, clientY = 50\<rparr> 1 () None [] [] 10
                 (newDragDropService demoDocument))"
    using first by blast
  have w0: "draggables demoRegistered =
     [\<lparr>itemId = None, el = 1, dragEl = None, data = (), draggedClass = [],
       draggingClass = [], mouseDownEvent = \<lparr>clientX = 50, clientY = 50\<rparr>, pos = None, grabPoint = None,
       startThreshold = 10, isDragging = False, cancelled = Some False\<rparr>]"
    using first reg unfolding demoRegistered_def by simp
  have p: "parses paneDocument ''#pane''" by simp
  have p': "''#pane'' \<noteq> [] \<and> parses (dom (newDragDropService paneDocument :: unit DragDropService)) ''#pane''"
    by simp
  have w1: "returned (registerDraggable \<lparr>clientX = 110, clientY = 50\<rparr> 2 () (Some ''#pane'') [] [] 10
                 (newDragDropService paneDocument))"
    using pane p' by blast
  have a: "isDragging (draggables demoDragging ! 0)" by simp
  have w2: "beginItemDrag (draggables demoDragging ! 0) demoDragging = Returned (draggables demoDragging ! 0, demoDragging)"
    using active a by blast
  have i: "\<not> isDragging (draggables demoFirstMove ! 0)" by simp
  have v: "validClasses (draggingClass (draggables demoFirstMove ! 0))"
    "validClasses (draggedClass (draggables demoFirstMove ! 0))" by simp_all
  have w3: "returned (beginItemDrag (draggables demoFirstMove ! 0) demoFirstMove)"
    using idle i v by blast
  have w4: "isDragging (fst (stateOf (beginItemDrag (draggables demoFirstMove ! 0) demoFirstMove)))"
    using idle i w3 by blast
  have l: "lifetime ?acts" by (simp add: lifetime_def)
  have w5: "raises (map (flagOf 0) (run ?acts demoRegistered)) \<le> 1"
    using life l by blast
  have tb: "tidy demoBack" by (simp add: demoBack_eq tidy_def newDraggableItem_def)
  have w6: "returned (onRoute WindowKeyDown demoBack)"
    using tb by (simp add: tidy_deactivate)
  have w7: "draggables (stateOf (onRoute WindowKeyDown demoBack)) = []"
    using fire w6 by blast
  have rn: "run ?acts demoRegistered =
      [demoRegistered, demoFirstMove, demoDragging, demoBack, stateOf (onRoute WindowKeyDown demoBack)]"
    unfolding demoBack_def demoDragging_def demoFirstMove_def
    by (simp only: run.simps perform.simps)
  have fl: "map (flagOf 0) (run ?acts demoRegistered) = [False, False, True, True, False]"
    unfolding rn using w7 by (simp add: flagOf_def demoBack_eq)
  show ?thesis
    using w0 p w1 a w2 i w3 w4 l fl w5 w6 w7 by (intro conjI)
qed

subsection \<open>C9: the final drop notification of a drop target\<close>




subsection \<open>C10: the first sampled move after activation\<close>

text \<open>
  C10: activation empties the last-known mouse position, so the first sampled move after it
  (whatever its coordinates) returns without touching a record, a broadcast or the
  document, whether the engine was activated directly or through a call of
  \<open>registerDraggable\<close> that returned; when the move is inside the viewport its displacement
  is stored as exactly (0, 0). In the worked scenario the record is still not dragging
  after the first move and is dragging after the second.
\<close>

theorem C10_first_move_discarded:
  "returned (onViewportMouseMove event (activate s))
   \<and> draggables (stateOf (onViewportMouseMove event (activate s))) = draggables s
   \<and> emitted (stateOf (onViewportMouseMove event (activate s))) = emitted s
   \<and> dom (stateOf (onViewportMouseMove event (activate s))) = dom s
   \<and> (\<not> isMouseOutsideViewport (activate s) (clientX event) (clientY event) \<longrightarrow>
        lastDisplacement (stateOf (onViewportMouseMove event (activate s))) = (Some 0, Some 0))
   \<and> (returned (registerDraggable origin e payload sel c1 c2 th s) \<longrightarrow>
        returned (onViewportMouseMove event (stateOf (registerDraggable origin e payload sel c1 c2 th s)))
        \<and> draggables (stateOf (onViewportMouseMove event (stateOf (registerDraggable origin e payload sel c1 c2 th s))))
            = draggables s @ [newDraggableItem origin e payload c1 c2 th]
        \<and> emitted (stateOf (onViewportMouseMove event (stateOf (registerDraggable origin e payload sel c1 c2 th s))))
            = emitted s
        \<and> dom (stateOf (onViewportMouseMove event (stateOf (registerDraggable origin e payload sel c1 c2 th s))))
            = dom s)
   \<and> map isDragging (draggables demoFirstMove) = [False]
   \<and> map isDragging (draggables demoDragging) = [True]"
proof -
  have first: "returned (onViewportMouseMove event t)
      \<and> draggables (stateOf (onViewportMouseMove event t)) = draggables t
      \<and> emitted (stateOf (onViewportMouseMove event t)) = emitted t
      \<and> dom (stateOf (onViewportMouseMove event t)) = dom t
      \<and> (\<not> isMouseOutsideViewport t (clientX event) (clientY event) \<longrightarrow>
           lastDisplacement (stateOf (onViewportMouseMove event t)) = (Some 0, Some 0))"
    if "lastMousePos t = (None, None)" for t :: "'a DragDropService"
  proof (cases "isMouseOutsideViewport t (clientX event) (clientY event)")
    case True
    then show ?thesis by (simp add: onViewportMouseMove_outside)
  next
    case False
    then show ?thesis using that
      by (simp add: onViewportMouseMove_still minusOrZero_def)
  qed
  have a: "lastMousePos (activate s) = (None, None)" by simp
  have registered: "returned (onViewportMouseMove event (stateOf (registerDraggable origin e payload sel c1 c2 th s)))
        \<and> draggables (stateOf (onViewportMouseMove event (stateOf (registerDraggable origin e payload sel c1 c2 th s))))
            = draggables s @ [newDraggableItem origin e payload c1 c2 th]
        \<and> emitted (stateOf (onViewportMouseMove event (stateOf (registerDraggable origin e payload sel c1 c2 th s))))
            = emitted s
        \<and> dom (stateOf (onViewportMouseMove event (stateOf (registerDraggable origin e payload sel c1 c2 th s))))
            = dom s"
    if r: "returned (registerDraggable origin e payload sel c1 c2 th s)"
    using first [OF registerDraggable_frame(10) [OF r]]
    by (simp add: registerDraggable_frame(1,2,3) [OF r])
  show ?thesis
    using first [OF a] registered by simp
qed

theorem C10_first_move_discarded_witness:
  "\<not> isMouseOutsideViewport (activate demoRegistered) 200 50
   \<and> lastDisplacement (stateOf (onViewportMouseMove \<lparr>clientX = 200, clientY = 50\<rparr> (activate demoRegistered)))
       = (Some 0, Some 0)
   \<and> map isDragging (draggables (stateOf (onViewportMouseMove \<lparr>clientX = 200, clientY = 50\<rparr> (activate demoRegistered))))
       = [False]
   \<and> returned (registerDraggable \<lparr>clientX = 50, clientY = 50\<rparr> 1 () None [] [] 10 (newDragDropService demoDocument))
   \<and> map isDragging (draggables (stateOf (onViewportMouseMove \<lparr>clientX = 200, clientY = 50\<rparr> demoRegistered)))
       = [False]"
proof -
  have inside: "\<not> isMouseOutsideViewport (activate demoRegistered) 200 50"
    by (simp add: isMouseOutsideViewport_def)
  have reg: "returned (registerDraggable \<lparr>clientX = 50, clientY = 50\<rparr> 1 () None [] [] 10
      (newDragDropService demoDocument))"
    by simp
  note act = C10_first_move_discarded [where event = "\<lparr>clientX = 200, clientY = 50\<rparr>"
      and s = demoRegistered and origin = "\<lparr>clientX = 50, clientY = 50\<rparr>" and e = 1
      and payload = "()" and sel = None and ?c1.0 = "[]" and ?c2.0 = "[]" and th = 10]
  note fresh = C10_first_move_discarded [where event = "\<lparr>clientX = 200, clientY = 50\<rparr>"
      and s = "newDragDropService demoDocument" and origin = "\<lparr>clientX = 50, clientY = 50\<rparr>" and e = 1
      and payload = "()" and sel = None and ?c1.0 = "[]" and ?c2.0 = "[]" and th = 10]
  have w1: "lastDisplacement (stateOf (onViewportMouseMove \<lparr>clientX = 200, clientY = 50\<rparr> (activate demoRegistered)))
       = (Some 0, Some 0)"
    using act inside by simp
  have w2: "map isDragging (draggables (stateOf (onViewportMouseMove \<lparr>clientX = 200, clientY = 50\<rparr> (activate demoRegistered))))
       = [False]"
    using act by simp
  have w3: "map isDragging (draggables (stateOf (onViewportMouseMove \<lparr>clientX = 200, clientY = 50\<rparr> demoRegistered)))
       = [False]"
    using fresh reg unfolding demoRegistered_def by simp
  show ?thesis
    using inside w1 w2 reg w3 by (intro conjI)
qed


end
